theory Spec2Isabelle
  imports Main "HOL-Library.Word" "HOL-Library.Signed_Division" "HOL-Library.Monad_Syntax"
begin

unbundle bit_operations_syntax

chapter \<open>DuckStation core: the analog controller and the CPU interpreter\<close>

type_synonym u8 = "8 word"
type_synonym u16 = "16 word"
type_synonym u32 = "32 word"
type_synonym u64 = "64 word"

section \<open>Analog controller (src/core/analog\_controller.cpp)\<close>

subsection \<open>Data model\<close>

text \<open>
  The members of \<open>enum class State\<close> are the labels of the \<open>switch\<close> in
  \<open>AnalogController::Transfer\<close>; the \<open>default\<close> label of that switch is unreachable
  for a value of this type.
\<close>

datatype State =
    Idle
  | GetStateIDMSB | GetStateButtonsLSB | GetStateButtonsMSB
  | GetStateRightAxisX | GetStateRightAxisY | GetStateLeftAxisX | GetStateLeftAxisY
  | ConfigModeIDMSB | ConfigModeSetMode
  | SetAnalogModeIDMSB | SetAnalogModeVal | SetAnalogModeSel
  | GetAnalogModeIDMSB | GetAnalogMode1 | GetAnalogMode2 | GetAnalogMode3
  | GetAnalogMode4 | GetAnalogMode5 | GetAnalogMode6
  | Command46IDMSB | Command461 | Command462 | Command463 | Command464 | Command465 | Command466
  | Command47IDMSB | Command471 | Command472 | Command473 | Command474 | Command475 | Command476
  | Command4CIDMSB | Command4CMode | Command4C1 | Command4C2 | Command4C3 | Command4C4 | Command4C5
  | UnlockRumbleIDMSB | GetSetRumble1 | GetSetRumble2 | GetSetRumble3
  | GetSetRumble4 | GetSetRumble5 | GetSetRumble6
  | Pad6Bytes | Pad5Bytes | Pad4Bytes | Pad3Bytes | Pad2Bytes | Pad1Byte

text \<open>
  The messages the controller hands to the host interface
  (\<open>g_host_interface->AddOSDMessage\<close> and \<open>AddFormattedOSDMessage\<close>); the number
  is the controller number \<open>m_index + 1\<close> that is formatted into the text.
\<close>

datatype osd_message =
    ForcingDisabledByGameSettings
  | SwitchedToAnalogMode u32
  | SwitchedToDigitalMode u32
  | LockedToAnalogMode u32
  | LockedToDigitalMode u32

text \<open>
  The members of the class that the translated functions touch. The three
  \<open>std::array\<close> members are lists: \<open>m_axis_state\<close> has \<open>Axis::Count = 4\<close>
  entries, \<open>m_rumble_config\<close> six and \<open>m_motor_state\<close> \<open>NUM_MOTORS = 2\<close>.
  \<open>host_osd\<close> is not a member: it is the sequence of messages sent to the
  process-wide host interface so far.
\<close>

record AnalogController =
  m_index :: u32
  m_force_analog_on_reset :: bool
  m_analog_dpad_in_digital_mode :: bool
  m_analog_mode :: bool
  m_analog_locked :: bool
  m_rumble_unlocked :: bool
  m_legacy_rumble_unlocked :: bool
  m_configuration_mode :: bool
  m_command_param :: u8
  m_button_state :: u16
  m_axis_state :: "u8 list"
  m_rumble_config :: "u8 list"
  m_rumble_config_large_motor_index :: int
  m_rumble_config_small_motor_index :: int
  m_analog_toggle_queued :: bool
  m_motor_state :: "u8 list"
  m_state :: State
  host_osd :: "osd_message list"

text \<open>
  Enumerators of the class declaration: the motors (index 0 is the large motor), the
  axes in the order LeftX, LeftY, RightX, RightY, and the bit numbers of the four
  direction buttons in the button mask (Select, L3, R3, Start, Up, Right, Down, Left, ...).
\<close>

definition LargeMotor :: nat where "LargeMotor = 0"
definition SmallMotor :: nat where "SmallMotor = 1"
definition NUM_MOTORS :: nat where "NUM_MOTORS = 2"

definition Axis_LeftX :: nat where "Axis_LeftX = 0"
definition Axis_LeftY :: nat where "Axis_LeftY = 1"
definition Axis_RightX :: nat where "Axis_RightX = 2"
definition Axis_RightY :: nat where "Axis_RightY = 3"

definition Button_Up :: nat where "Button_Up = 4"
definition Button_Right :: nat where "Button_Right = 5"
definition Button_Down :: nat where "Button_Down = 6"
definition Button_Left :: nat where "Button_Left = 7"

subsection \<open>Operations\<close>

definition SetAnalogMode :: "bool \<Rightarrow> AnalogController \<Rightarrow> AnalogController" where
  "SetAnalogMode enabled c =
     (if m_analog_mode c = enabled then c
      else c\<lparr>host_osd := host_osd c @
                 [if enabled then SwitchedToAnalogMode (m_index c + 1)
                  else SwitchedToDigitalMode (m_index c + 1)],
             m_analog_mode := enabled\<rparr>)"

definition SetMotorState :: "nat \<Rightarrow> u8 \<Rightarrow> AnalogController \<Rightarrow> AnalogController" where
  "SetMotorState motor val c = c\<lparr>m_motor_state := (m_motor_state c)[motor := val]\<rparr>"

definition ResetRumbleConfig :: "AnalogController \<Rightarrow> AnalogController" where
  "ResetRumbleConfig c =
     SetMotorState SmallMotor 0
       (SetMotorState LargeMotor 0
          (c\<lparr>m_legacy_rumble_unlocked := False,
             m_rumble_unlocked := False,
             m_rumble_config := replicate 6 0xFF,
             m_rumble_config_large_motor_index := - 1,
             m_rumble_config_small_motor_index := - 1\<rparr>))"

text \<open>
  \<open>Reset\<close>; its first argument is the global
  \<open>g_settings.controller_disable_analog_mode_forcing\<close>.
\<close>

definition Reset :: "bool \<Rightarrow> AnalogController \<Rightarrow> AnalogController" where
  "Reset controller_disable_analog_mode_forcing c =
     (let c1 = ResetRumbleConfig
                 (c\<lparr>m_state := Idle,
                    m_analog_mode := False,
                    m_configuration_mode := False,
                    m_command_param := 0,
                    m_motor_state := replicate NUM_MOTORS 0\<rparr>)
      in if m_force_analog_on_reset c1
         then (if controller_disable_analog_mode_forcing
               then c1\<lparr>host_osd := host_osd c1 @ [ForcingDisabledByGameSettings]\<rparr>
               else SetAnalogMode True c1)
         else c1)"

definition ResetTransferState :: "AnalogController \<Rightarrow> AnalogController" where
  "ResetTransferState c =
     (let c1 =
        (if m_analog_toggle_queued c
         then (if m_analog_locked c
               then c\<lparr>host_osd := host_osd c @
                         [if m_analog_mode c then LockedToAnalogMode (m_index c + 1)
                          else LockedToDigitalMode (m_index c + 1)]\<rparr>
               else ResetRumbleConfig (SetAnalogMode (\<not> m_analog_mode c) c))
              \<lparr>m_analog_toggle_queued := False\<rparr>
         else c)
      in c1\<lparr>m_state := Idle\<rparr>)"

definition GetID :: "AnalogController \<Rightarrow> u16" where
  "GetID c =
     (if m_configuration_mode c then 0x5AF3
      else if m_analog_mode c then 0x5A73 else 0x5A41)"

text \<open>
  \<open>GetExtraButtonMaskLSB\<close>. The two thresholds are the compile-time constants
  \<open>static_cast<u8>(128.0f - 63.5) = 64\<close> and \<open>static_cast<u8>(128.0f + 63.5) = 191\<close>.
\<close>

definition NEG_THRESHOLD :: u8 where "NEG_THRESHOLD = 64"
definition POS_THRESHOLD :: u8 where "POS_THRESHOLD = 191"

definition GetExtraButtonMaskLSB :: "AnalogController \<Rightarrow> u8" where
  "GetExtraButtonMaskLSB c =
     (if \<not> m_analog_dpad_in_digital_mode c \<or> m_analog_mode c \<or> m_configuration_mode c
      then 0xFF
      else
        let left = (m_axis_state c ! Axis_LeftX \<le> NEG_THRESHOLD);
            right = (m_axis_state c ! Axis_LeftX \<ge> POS_THRESHOLD);
            up = (m_axis_state c ! Axis_LeftY \<le> NEG_THRESHOLD);
            down = (m_axis_state c ! Axis_LeftY \<ge> POS_THRESHOLD)
        in NOT (push_bit Button_Left (of_bool left) OR
                push_bit Button_Right (of_bool right) OR
                push_bit Button_Up (of_bool up) OR
                push_bit Button_Down (of_bool down)))"

definition SetMotorStateForConfigIndex :: "int \<Rightarrow> u8 \<Rightarrow> AnalogController \<Rightarrow> AnalogController" where
  "SetMotorStateForConfigIndex index val c =
     (if m_rumble_config_small_motor_index c = index
      then SetMotorState SmallMotor (if val AND 0x01 \<noteq> 0 then 255 else 0) c
      else if m_rumble_config_large_motor_index c = index
      then SetMotorState LargeMotor val c
      else c)"

text \<open>
  The three macros of \<open>Transfer\<close>. Each yields \<open>(ack, data_out, controller)\<close>.
\<close>

definition FIXED_REPLY_STATE ::
  "u8 \<Rightarrow> bool \<Rightarrow> State \<Rightarrow> AnalogController \<Rightarrow> bool \<times> u8 \<times> AnalogController" where
  "FIXED_REPLY_STATE reply ack_value next_state c = (ack_value, reply, c\<lparr>m_state := next_state\<rparr>)"

definition ID_STATE_MSB :: "State \<Rightarrow> AnalogController \<Rightarrow> bool \<times> u8 \<times> AnalogController" where
  "ID_STATE_MSB next_state c = (True, ucast (drop_bit 8 (GetID c)), c\<lparr>m_state := next_state\<rparr>)"

definition rumble_config_store :: "nat \<Rightarrow> u8 \<Rightarrow> AnalogController \<Rightarrow> AnalogController" where
  "rumble_config_store index data_in c =
     (let c1 = c\<lparr>m_rumble_config := (m_rumble_config c)[index := data_in]\<rparr>
      in if data_in = 0x00 then c1\<lparr>m_rumble_config_small_motor_index := int index\<rparr>
         else if data_in = 0x01 then c1\<lparr>m_rumble_config_large_motor_index := int index\<rparr>
         else c1)"

definition REPLY_RUMBLE_CONFIG ::
  "nat \<Rightarrow> bool \<Rightarrow> State \<Rightarrow> u8 \<Rightarrow> AnalogController \<Rightarrow> bool \<times> u8 \<times> AnalogController" where
  "REPLY_RUMBLE_CONFIG index ack_value next_state data_in c =
     (ack_value, m_rumble_config c ! index,
      (rumble_config_store index data_in c)\<lparr>m_state := next_state\<rparr>)"

text \<open>The \<open>Idle\<close> case of \<open>Transfer\<close>.\<close>

definition Transfer_Idle :: "u8 \<Rightarrow> AnalogController \<Rightarrow> bool \<times> u8 \<times> AnalogController" where
  "Transfer_Idle data_in c =
     (if data_in = 0x42 then (True, ucast (GetID c), c\<lparr>m_state := GetStateIDMSB\<rparr>)
      else if data_in = 0x43 then (True, ucast (GetID c), c\<lparr>m_state := ConfigModeIDMSB\<rparr>)
      else if m_configuration_mode c \<and> data_in = 0x44
        then (True, ucast (GetID c), c\<lparr>m_state := SetAnalogModeIDMSB\<rparr>)
      else if m_configuration_mode c \<and> data_in = 0x45
        then (True, ucast (GetID c), c\<lparr>m_state := GetAnalogModeIDMSB\<rparr>)
      else if m_configuration_mode c \<and> data_in = 0x46
        then (True, ucast (GetID c), c\<lparr>m_state := Command46IDMSB\<rparr>)
      else if m_configuration_mode c \<and> data_in = 0x47
        then (True, ucast (GetID c), c\<lparr>m_state := Command47IDMSB\<rparr>)
      else if m_configuration_mode c \<and> data_in = 0x4C
        then (True, ucast (GetID c), c\<lparr>m_state := Command4CIDMSB\<rparr>)
      else if m_configuration_mode c \<and> data_in = 0x4D
        then (let c1 = c\<lparr>m_rumble_unlocked := True\<rparr>
              in (True, ucast (GetID c1),
                  c1\<lparr>m_state := UnlockRumbleIDMSB,
                     m_rumble_config_large_motor_index := - 1,
                     m_rumble_config_small_motor_index := - 1\<rparr>))
      else (data_in = 0x01, 0xFF, c))"

text \<open>The cases of \<open>Transfer\<close> that are written out in the source.\<close>

definition Transfer_GetStateButtonsLSB :: "u8 \<Rightarrow> AnalogController \<Rightarrow> bool \<times> u8 \<times> AnalogController" where
  "Transfer_GetStateButtonsLSB data_in c =
     (let c1 = (if m_rumble_unlocked c then SetMotorStateForConfigIndex 0 data_in c
                else if data_in \<ge> 0x40 \<and> data_in \<le> 0x7F then c\<lparr>m_legacy_rumble_unlocked := True\<rparr>
                else SetMotorState SmallMotor 0 c)
      in (True, ucast (m_button_state c1) AND GetExtraButtonMaskLSB c1,
          c1\<lparr>m_state := GetStateButtonsMSB\<rparr>))"

definition Transfer_GetStateButtonsMSB :: "u8 \<Rightarrow> AnalogController \<Rightarrow> bool \<times> u8 \<times> AnalogController" where
  "Transfer_GetStateButtonsMSB data_in c =
     (let c1 = (if m_rumble_unlocked c then SetMotorStateForConfigIndex 1 data_in c
                else if m_legacy_rumble_unlocked c
                then (SetMotorState SmallMotor (if data_in AND 0x01 \<noteq> 0 then 255 else 0) c)
                       \<lparr>m_legacy_rumble_unlocked := False\<rparr>
                else c)
      in (m_analog_mode c1 \<or> m_configuration_mode c1,
          ucast (drop_bit 8 (m_button_state c1)),
          c1\<lparr>m_state := (if m_analog_mode c1 \<or> m_configuration_mode c1
                          then GetStateRightAxisX else Idle)\<rparr>))"

definition Transfer_GetStateAxis ::
  "int \<Rightarrow> nat \<Rightarrow> bool \<Rightarrow> State \<Rightarrow> u8 \<Rightarrow> AnalogController \<Rightarrow> bool \<times> u8 \<times> AnalogController" where
  "Transfer_GetStateAxis index axis ack_value next_state data_in c =
     (let c1 = (if m_rumble_unlocked c then SetMotorStateForConfigIndex index data_in c else c)
      in (ack_value, m_axis_state c1 ! axis, c1\<lparr>m_state := next_state\<rparr>))"

definition Transfer_ConfigModeSetMode :: "u8 \<Rightarrow> AnalogController \<Rightarrow> bool \<times> u8 \<times> AnalogController" where
  "Transfer_ConfigModeSetMode data_in c =
     (let prev_configuration_mode = m_configuration_mode c;
          c1 = c\<lparr>m_configuration_mode := (data_in = 1)\<rparr>
      in (True,
          if prev_configuration_mode then 0x00 else ucast (m_button_state c1),
          c1\<lparr>m_state := (if prev_configuration_mode then Pad5Bytes else GetStateButtonsMSB)\<rparr>))"

definition Transfer_SetAnalogModeVal :: "u8 \<Rightarrow> AnalogController \<Rightarrow> bool \<times> u8 \<times> AnalogController" where
  "Transfer_SetAnalogModeVal data_in c =
     (let c1 = (if data_in = 0x00 \<or> data_in = 0x01 then SetAnalogMode (data_in = 0x01) c else c)
      in (True, 0x00, c1\<lparr>m_state := SetAnalogModeSel\<rparr>))"

definition Transfer_SetAnalogModeSel :: "u8 \<Rightarrow> AnalogController \<Rightarrow> bool \<times> u8 \<times> AnalogController" where
  "Transfer_SetAnalogModeSel data_in c =
     (let c1 = (if data_in = 0x02 \<or> data_in = 0x03 then c\<lparr>m_analog_locked := (data_in = 0x03)\<rparr> else c)
      in (True, 0x00, c1\<lparr>m_state := Pad4Bytes\<rparr>))"

definition Transfer_CommandParam :: "State \<Rightarrow> u8 \<Rightarrow> AnalogController \<Rightarrow> bool \<times> u8 \<times> AnalogController" where
  "Transfer_CommandParam next_state data_in c =
     (True, 0x00, c\<lparr>m_command_param := data_in, m_state := next_state\<rparr>)"

definition Transfer_Command4C3 :: "AnalogController \<Rightarrow> bool \<times> u8 \<times> AnalogController" where
  "Transfer_Command4C3 c =
     (True,
      if m_command_param c = 0x00 then 0x04
      else if m_command_param c = 0x01 then 0x07
      else 0x00,
      c\<lparr>m_state := Command4C4\<rparr>)"

definition Transfer_GetSetRumble6 :: "u8 \<Rightarrow> AnalogController \<Rightarrow> bool \<times> u8 \<times> AnalogController" where
  "Transfer_GetSetRumble6 data_in c =
     (let c1 = rumble_config_store 5 data_in c;
          c2 = (if m_rumble_config_large_motor_index c1 = - 1
                then SetMotorState LargeMotor 0 c1 else c1);
          c3 = (if m_rumble_config_small_motor_index c2 = - 1
                then SetMotorState SmallMotor 0 c2 else c2);
          c4 = (if m_rumble_config_large_motor_index c3 = - 1 \<and>
                   m_rumble_config_small_motor_index c3 = - 1
                then c3\<lparr>m_rumble_unlocked := False\<rparr> else c3)
      in (False, m_rumble_config c ! 5, c4\<lparr>m_state := Idle\<rparr>))"

text \<open>
  \<open>Transfer(data_in, data_out)\<close>: the result is \<open>(ack, *data_out, controller)\<close>.
\<close>

definition Transfer :: "u8 \<Rightarrow> AnalogController \<Rightarrow> bool \<times> u8 \<times> AnalogController" where
  "Transfer data_in c =
     (case m_state c of
        Idle \<Rightarrow> Transfer_Idle data_in c
      | GetStateIDMSB \<Rightarrow> ID_STATE_MSB GetStateButtonsLSB c
      | GetStateButtonsLSB \<Rightarrow> Transfer_GetStateButtonsLSB data_in c
      | GetStateButtonsMSB \<Rightarrow> Transfer_GetStateButtonsMSB data_in c
      | GetStateRightAxisX \<Rightarrow> Transfer_GetStateAxis 2 Axis_RightX True GetStateRightAxisY data_in c
      | GetStateRightAxisY \<Rightarrow> Transfer_GetStateAxis 3 Axis_RightY True GetStateLeftAxisX data_in c
      | GetStateLeftAxisX \<Rightarrow> Transfer_GetStateAxis 4 Axis_LeftX True GetStateLeftAxisY data_in c
      | GetStateLeftAxisY \<Rightarrow> Transfer_GetStateAxis 5 Axis_LeftY False Idle data_in c
      | ConfigModeIDMSB \<Rightarrow> ID_STATE_MSB ConfigModeSetMode c
      | ConfigModeSetMode \<Rightarrow> Transfer_ConfigModeSetMode data_in c
      | SetAnalogModeIDMSB \<Rightarrow> ID_STATE_MSB SetAnalogModeVal c
      | SetAnalogModeVal \<Rightarrow> Transfer_SetAnalogModeVal data_in c
      | SetAnalogModeSel \<Rightarrow> Transfer_SetAnalogModeSel data_in c
      | GetAnalogModeIDMSB \<Rightarrow> ID_STATE_MSB GetAnalogMode1 c
      | GetAnalogMode1 \<Rightarrow> FIXED_REPLY_STATE 0x01 True GetAnalogMode2 c
      | GetAnalogMode2 \<Rightarrow> FIXED_REPLY_STATE 0x02 True GetAnalogMode3 c
      | GetAnalogMode3 \<Rightarrow> FIXED_REPLY_STATE (of_bool (m_analog_mode c)) True GetAnalogMode4 c
      | GetAnalogMode4 \<Rightarrow> FIXED_REPLY_STATE 0x02 True GetAnalogMode5 c
      | GetAnalogMode5 \<Rightarrow> FIXED_REPLY_STATE 0x01 True GetAnalogMode6 c
      | GetAnalogMode6 \<Rightarrow> FIXED_REPLY_STATE 0x00 False Idle c
      | Command46IDMSB \<Rightarrow> ID_STATE_MSB Command461 c
      | Command461 \<Rightarrow> Transfer_CommandParam Command462 data_in c
      | Command462 \<Rightarrow> FIXED_REPLY_STATE 0x00 True Command463 c
      | Command463 \<Rightarrow> FIXED_REPLY_STATE 0x01 True Command464 c
      | Command464 \<Rightarrow> FIXED_REPLY_STATE (if m_command_param c = 1 then 1 else 2) True Command465 c
      | Command465 \<Rightarrow> FIXED_REPLY_STATE (if m_command_param c = 1 then 1 else 0) True Command466 c
      | Command466 \<Rightarrow> FIXED_REPLY_STATE (if m_command_param c = 1 then 0x14 else 0x0A) False Idle c
      | Command47IDMSB \<Rightarrow> ID_STATE_MSB Command471 c
      | Command471 \<Rightarrow> FIXED_REPLY_STATE 0x00 True Command472 c
      | Command472 \<Rightarrow> FIXED_REPLY_STATE 0x00 True Command473 c
      | Command473 \<Rightarrow> FIXED_REPLY_STATE 0x02 True Command474 c
      | Command474 \<Rightarrow> FIXED_REPLY_STATE 0x00 True Command475 c
      | Command475 \<Rightarrow> FIXED_REPLY_STATE 0x01 True Command476 c
      | Command476 \<Rightarrow> FIXED_REPLY_STATE 0x00 False Idle c
      | Command4CIDMSB \<Rightarrow> ID_STATE_MSB Command4CMode c
      | Command4CMode \<Rightarrow> Transfer_CommandParam Command4C1 data_in c
      | Command4C1 \<Rightarrow> FIXED_REPLY_STATE 0x00 True Command4C2 c
      | Command4C2 \<Rightarrow> FIXED_REPLY_STATE 0x00 True Command4C3 c
      | Command4C3 \<Rightarrow> Transfer_Command4C3 c
      | Command4C4 \<Rightarrow> FIXED_REPLY_STATE 0x00 True Command4C5 c
      | Command4C5 \<Rightarrow> FIXED_REPLY_STATE 0x00 False Idle c
      | UnlockRumbleIDMSB \<Rightarrow> ID_STATE_MSB GetSetRumble1 c
      | GetSetRumble1 \<Rightarrow> REPLY_RUMBLE_CONFIG 0 True GetSetRumble2 data_in c
      | GetSetRumble2 \<Rightarrow> REPLY_RUMBLE_CONFIG 1 True GetSetRumble3 data_in c
      | GetSetRumble3 \<Rightarrow> REPLY_RUMBLE_CONFIG 2 True GetSetRumble4 data_in c
      | GetSetRumble4 \<Rightarrow> REPLY_RUMBLE_CONFIG 3 True GetSetRumble5 data_in c
      | GetSetRumble5 \<Rightarrow> REPLY_RUMBLE_CONFIG 4 True GetSetRumble6 data_in c
      | GetSetRumble6 \<Rightarrow> Transfer_GetSetRumble6 data_in c
      | Pad6Bytes \<Rightarrow> FIXED_REPLY_STATE 0x00 True Pad5Bytes c
      | Pad5Bytes \<Rightarrow> FIXED_REPLY_STATE 0x00 True Pad4Bytes c
      | Pad4Bytes \<Rightarrow> FIXED_REPLY_STATE 0x00 True Pad3Bytes c
      | Pad3Bytes \<Rightarrow> FIXED_REPLY_STATE 0x00 True Pad2Bytes c
      | Pad2Bytes \<Rightarrow> FIXED_REPLY_STATE 0x00 True Pad1Byte c
      | Pad1Byte \<Rightarrow> FIXED_REPLY_STATE 0x00 False Idle c)"

text \<open>
  The serial port calling \<open>Transfer\<close> once per byte of a frame: the acknowledge flags and
  output bytes in order, and the controller after the last byte.
\<close>

fun TransferFrame :: "u8 list \<Rightarrow> AnalogController \<Rightarrow> (bool \<times> u8) list \<times> AnalogController" where
  "TransferFrame [] c = ([], c)"
| "TransferFrame (data_in # rest) c =
     (case Transfer data_in c of
        (ack, data_out, c1) \<Rightarrow>
          (case TransferFrame rest c1 of (outs, c2) \<Rightarrow> ((ack, data_out) # outs, c2)))"

text \<open>
  The constructor: \<open>m_axis_state.fill(0x80)\<close>, then \<open>Reset()\<close>.
  Modelled from the spec: the initial values of the other members, which the class
  declaration gives (it is not among the sources): all flags off, no button pressed
  (the mask is active low), the rumble configuration unassigned.
\<close>

definition AnalogController_new :: "bool \<Rightarrow> u32 \<Rightarrow> AnalogController" where
  "AnalogController_new controller_disable_analog_mode_forcing index =
     Reset controller_disable_analog_mode_forcing
       \<lparr>m_index = index,
        m_force_analog_on_reset = False,
        m_analog_dpad_in_digital_mode = False,
        m_analog_mode = False,
        m_analog_locked = False,
        m_rumble_unlocked = False,
        m_legacy_rumble_unlocked = False,
        m_configuration_mode = False,
        m_command_param = 0,
        m_button_state = 0xFFFF,
        m_axis_state = replicate 4 0x80,
        m_rumble_config = replicate 6 0xFF,
        m_rumble_config_large_motor_index = - 1,
        m_rumble_config_small_motor_index = - 1,
        m_analog_toggle_queued = False,
        m_motor_state = replicate NUM_MOTORS 0,
        m_state = Idle,
        host_osd = []\<rparr>"

text \<open>
  The fields that the poll states of \<open>Transfer\<close> leave alone, as a relation between the
  controller before and after.
\<close>

definition poll_keeps :: "AnalogController \<Rightarrow> AnalogController \<Rightarrow> bool" where
  "poll_keeps c c' \<longleftrightarrow>
     m_analog_mode c' = m_analog_mode c \<and> m_configuration_mode c' = m_configuration_mode c \<and>
     m_button_state c' = m_button_state c \<and> m_axis_state c' = m_axis_state c \<and>
     m_analog_dpad_in_digital_mode c' = m_analog_dpad_in_digital_mode c"

text \<open>
  One rumble-mapping cycle as the console sends it: the address byte, the command
  \<open>0x4D\<close>, the byte exchanged for the identifier, and six payload bytes \<open>0xFF\<close>;
  and the state of the rumble configuration in which nothing is mapped.
\<close>

definition rumble_cycle :: "u8 list" where
  "rumble_cycle = [0x01, 0x4D, 0x00, 0xFF, 0xFF, 0xFF, 0xFF, 0xFF, 0xFF]"

definition rumble_cleared :: "AnalogController \<Rightarrow> bool" where
  "rumble_cleared c \<longleftrightarrow>
     m_rumble_config c = replicate 6 0xFF \<and>
     m_rumble_config_large_motor_index c = - 1 \<and>
     m_rumble_config_small_motor_index c = - 1 \<and>
     \<not> m_rumble_unlocked c"

section \<open>CPU core (src/pse/cpu\_core.cpp)\<close>

subsection \<open>Data model\<close>

text \<open>
  \<open>enum class Reg : u8\<close>: the thirty-two general registers by number, followed by the
  enumerator \<open>count\<close>, which the load delay slots use for "no register". The register
  fields of an instruction are five bits wide, so they never denote \<open>Reg::count\<close>.
\<close>

type_synonym Reg = nat

definition Reg_zero :: Reg where "Reg_zero = 0"
definition Reg_ra :: Reg where "Reg_ra = 31"
definition Reg_count :: Reg where "Reg_count = 32"

text \<open>
  The exceptions that the core raises, and the value each has in the \<open>Excode\<close> field of
  \<open>CAUSE\<close> (the enumerator values of \<open>enum class Exception\<close>, as in the R3000A).
\<close>

text \<open>(\<open>INT\<close> is written \<open>INT_exc\<close>.)\<close>

datatype Exception = INT_exc | AdEL | AdES | IBE | DBE | Syscall | BP | RI | CpU | Ov

fun Excode_of :: "Exception \<Rightarrow> u32" where
  "Excode_of INT_exc = 0x00"
| "Excode_of AdEL = 0x04"
| "Excode_of AdES = 0x05"
| "Excode_of IBE = 0x06"
| "Excode_of DBE = 0x07"
| "Excode_of Syscall = 0x08"
| "Excode_of BP = 0x09"
| "Excode_of RI = 0x0A"
| "Excode_of CpU = 0x0B"
| "Excode_of Ov = 0x0C"

datatype MemoryAccessType = Access_Read | Access_Write
datatype MemoryAccessSize = Size_Byte | Size_HalfWord | Size_Word

text \<open>\<open>struct Registers\<close>: \<open>r[32]\<close> (with \<open>ra\<close> an alias of \<open>r[31]\<close>), \<open>pc\<close>, \<open>hi\<close>, \<open>lo\<close>, \<open>npc\<close>.\<close>

record Registers =
  r :: "nat \<Rightarrow> u32"
  pc :: u32
  hi :: u32
  lo :: u32
  npc :: u32

text \<open>\<open>struct Cop0Registers\<close>; \<open>sr\<close>, \<open>cause\<close> and \<open>dcic\<close> are the \<open>bits\<close> of the unions.\<close>

record Cop0Registers =
  BPC :: u32
  BDA :: u32
  TAR :: u32
  BadVaddr :: u32
  BDAM :: u32
  BPCM :: u32
  EPC :: u32
  PRID :: u32
  sr :: u32
  cause :: u32
  dcic :: u32

text \<open>
  The members of \<open>Core\<close>. \<open>ext\<close> stands for everything behind the memory access and
  the coprocessor 2 calls, none of which is in this file: the bus, the data cache with its
  control register, and the GTE.
\<close>

record 'x Core =
  m_pending_ticks :: int
  m_downcount :: int
  m_regs :: Registers
  m_cop0_regs :: Cop0Registers
  m_next_instruction :: u32
  m_current_instruction :: u32
  m_current_instruction_pc :: u32
  m_current_instruction_in_branch_delay_slot :: bool
  m_current_instruction_was_branch_taken :: bool
  m_next_instruction_is_branch_delay_slot :: bool
  m_branch_was_taken :: bool
  m_load_delay_reg :: Reg
  m_load_delay_old_value :: u32
  m_next_load_delay_reg :: Reg
  m_next_load_delay_old_value :: u32
  ext :: 'x

text \<open>
  What the file uses and does not define, as parameters: \<open>DoMemoryAccess\<close> for reads
  (\<open>None\<close> is the result \<open>false\<close>) and for writes, the calls into \<open>m_cop2\<close>, and the
  constants \<open>WRITE_MASK\<close> of the three bit-field registers, \<open>MAX_SLICE_SIZE\<close> and
  \<open>RESET_VECTOR\<close>. The memory access and the GTE act on \<open>ext\<close> only.
\<close>

record 'x Env =
  DoMemoryAccess_Read :: "MemoryAccessSize \<Rightarrow> u32 \<Rightarrow> 'x \<Rightarrow> u32 option \<times> 'x"
  DoMemoryAccess_Write :: "MemoryAccessSize \<Rightarrow> u32 \<Rightarrow> u32 \<Rightarrow> 'x \<Rightarrow> bool \<times> 'x"
  cop2_Reset :: "'x \<Rightarrow> 'x"
  cop2_ReadDataRegister :: "u32 \<Rightarrow> 'x \<Rightarrow> u32"
  cop2_WriteDataRegister :: "u32 \<Rightarrow> u32 \<Rightarrow> 'x \<Rightarrow> 'x"
  cop2_ReadControlRegister :: "u32 \<Rightarrow> 'x \<Rightarrow> u32"
  cop2_WriteControlRegister :: "u32 \<Rightarrow> u32 \<Rightarrow> 'x \<Rightarrow> 'x"
  cop2_ExecuteInstruction :: "u32 \<Rightarrow> 'x \<Rightarrow> 'x"
  SR_WRITE_MASK :: u32
  CAUSE_WRITE_MASK :: u32
  DCIC_WRITE_MASK :: u32
  MAX_SLICE_SIZE :: int
  RESET_VECTOR :: u32

abbreviation regs_upd :: "(Registers \<Rightarrow> Registers) \<Rightarrow> 'x Core \<Rightarrow> 'x Core" where
  "regs_upd f s \<equiv> s\<lparr>m_regs := f (m_regs s)\<rparr>"

abbreviation cop0_upd :: "(Cop0Registers \<Rightarrow> Cop0Registers) \<Rightarrow> 'x Core \<Rightarrow> 'x Core" where
  "cop0_upd f s \<equiv> s\<lparr>m_cop0_regs := f (m_cop0_regs s)\<rparr>"

subsection \<open>Bit fields\<close>

text \<open>
  \<open>BitField<u32, T, index, count>\<close>: reading takes \<open>count\<close> bits from bit \<open>index\<close>,
  assigning replaces those bits by the low bits of the value and keeps the others.
\<close>

definition BitField_get :: "nat \<Rightarrow> nat \<Rightarrow> u32 \<Rightarrow> u32" where
  "BitField_get index count bits = take_bit count (drop_bit index bits)"

definition BitField_set :: "nat \<Rightarrow> nat \<Rightarrow> u32 \<Rightarrow> u32 \<Rightarrow> u32" where
  "BitField_set index count val bits =
     (bits AND NOT (push_bit index (mask count))) OR (push_bit index val AND push_bit index (mask count))"

text \<open>
  The fields of \<open>SR\<close> and \<open>CAUSE\<close> that the file uses, at their R3000A positions: in
  \<open>SR\<close> the mode stack \<open>mode_bits\<close> in bits 0 to 5 (\<open>IEc\<close> is bit 0, \<open>KUc\<close> bit 1),
  \<open>BEV\<close> in bit 22, \<open>CU0\<close> in bit 28 and \<open>CU2\<close> in bit 30; in \<open>CAUSE\<close> \<open>Excode\<close> in
  bits 2 to 6, \<open>CE\<close> in bits 28 and 29, \<open>BT\<close> in bit 30 and \<open>BD\<close> in bit 31.
\<close>

definition SR_IEc :: "u32 \<Rightarrow> bool" where "SR_IEc bits = (BitField_get 0 1 bits \<noteq> 0)"
definition SR_KUc :: "u32 \<Rightarrow> bool" where "SR_KUc bits = (BitField_get 1 1 bits \<noteq> 0)"
definition SR_BEV :: "u32 \<Rightarrow> bool" where "SR_BEV bits = (BitField_get 22 1 bits \<noteq> 0)"
definition SR_CU0 :: "u32 \<Rightarrow> bool" where "SR_CU0 bits = (BitField_get 28 1 bits \<noteq> 0)"
definition SR_CU2 :: "u32 \<Rightarrow> bool" where "SR_CU2 bits = (BitField_get 30 1 bits \<noteq> 0)"
definition SR_mode_bits :: "u32 \<Rightarrow> u32" where "SR_mode_bits bits = BitField_get 0 6 bits"
definition SR_set_mode_bits :: "u32 \<Rightarrow> u32 \<Rightarrow> u32" where
  "SR_set_mode_bits val bits = BitField_set 0 6 val bits"

definition CAUSE_Excode :: "u32 \<Rightarrow> u32" where "CAUSE_Excode bits = BitField_get 2 5 bits"
definition CAUSE_set_Excode :: "Exception \<Rightarrow> u32 \<Rightarrow> u32" where
  "CAUSE_set_Excode excode bits = BitField_set 2 5 (Excode_of excode) bits"
definition CAUSE_set_CE :: "u8 \<Rightarrow> u32 \<Rightarrow> u32" where
  "CAUSE_set_CE ce bits = BitField_set 28 2 (ucast ce) bits"
definition CAUSE_set_BT :: "bool \<Rightarrow> u32 \<Rightarrow> u32" where
  "CAUSE_set_BT bt bits = BitField_set 30 1 (of_bool bt) bits"
definition CAUSE_set_BD :: "bool \<Rightarrow> u32 \<Rightarrow> u32" where
  "CAUSE_set_BD bd bits = BitField_set 31 1 (of_bool bd) bits"

text \<open>
  The fields of \<open>union Instruction\<close> in the MIPS I instruction formats: \<open>op\<close> in bits 26
  to 31, \<open>rs\<close>, \<open>rt\<close>, \<open>rd\<close> and \<open>shamt\<close> of five bits each from bits 21, 16, 11 and
  6, \<open>funct\<close> in bits 0 to 5, the immediate in bits 0 to 15, the jump target in bits 0 to
  25, and the coprocessor number in bits 26 and 27.
\<close>

definition inst_op :: "u32 \<Rightarrow> u32" where "inst_op inst = BitField_get 26 6 inst"
definition inst_rs :: "u32 \<Rightarrow> Reg" where "inst_rs inst = unat (BitField_get 21 5 inst)"
definition inst_rt :: "u32 \<Rightarrow> Reg" where "inst_rt inst = unat (BitField_get 16 5 inst)"
definition inst_rd :: "u32 \<Rightarrow> Reg" where "inst_rd inst = unat (BitField_get 11 5 inst)"
definition inst_shamt :: "u32 \<Rightarrow> nat" where "inst_shamt inst = unat (BitField_get 6 5 inst)"
definition inst_funct :: "u32 \<Rightarrow> u32" where "inst_funct inst = BitField_get 0 6 inst"
definition imm_zext32 :: "u32 \<Rightarrow> u32" where "imm_zext32 inst = BitField_get 0 16 inst"
definition imm_sext32 :: "u32 \<Rightarrow> u32" where "imm_sext32 inst = scast (ucast inst :: u16)"
definition inst_target :: "u32 \<Rightarrow> u32" where "inst_target inst = BitField_get 0 26 inst"
definition inst_cop_n :: "u32 \<Rightarrow> u8" where "inst_cop_n inst = ucast (BitField_get 26 2 inst)"

definition IsCommonInstruction :: "u32 \<Rightarrow> bool" where
  "IsCommonInstruction inst = (inst AND push_bit 25 1 = 0)"
definition CommonOp :: "u32 \<Rightarrow> u32" where
  "CommonOp inst = drop_bit 21 inst AND 0xF"
definition Cop0Op :: "u32 \<Rightarrow> u32" where
  "Cop0Op inst = inst AND 0x3F"

text \<open>The enumerators of \<open>InstructionOp\<close>: the primary opcodes of MIPS I.\<close>

definition Op_funct :: u32 where "Op_funct = 0"
definition Op_b :: u32 where "Op_b = 1"
definition Op_j :: u32 where "Op_j = 2"
definition Op_jal :: u32 where "Op_jal = 3"
definition Op_beq :: u32 where "Op_beq = 4"
definition Op_bne :: u32 where "Op_bne = 5"
definition Op_blez :: u32 where "Op_blez = 6"
definition Op_bgtz :: u32 where "Op_bgtz = 7"
definition Op_addi :: u32 where "Op_addi = 8"
definition Op_addiu :: u32 where "Op_addiu = 9"
definition Op_slti :: u32 where "Op_slti = 10"
definition Op_sltiu :: u32 where "Op_sltiu = 11"
definition Op_andi :: u32 where "Op_andi = 12"
definition Op_ori :: u32 where "Op_ori = 13"
definition Op_xori :: u32 where "Op_xori = 14"
definition Op_lui :: u32 where "Op_lui = 15"
definition Op_cop0 :: u32 where "Op_cop0 = 16"
definition Op_cop1 :: u32 where "Op_cop1 = 17"
definition Op_cop2 :: u32 where "Op_cop2 = 18"
definition Op_cop3 :: u32 where "Op_cop3 = 19"
definition Op_lb :: u32 where "Op_lb = 32"
definition Op_lh :: u32 where "Op_lh = 33"
definition Op_lwl :: u32 where "Op_lwl = 34"
definition Op_lw :: u32 where "Op_lw = 35"
definition Op_lbu :: u32 where "Op_lbu = 36"
definition Op_lhu :: u32 where "Op_lhu = 37"
definition Op_lwr :: u32 where "Op_lwr = 38"
definition Op_sb :: u32 where "Op_sb = 40"
definition Op_sh :: u32 where "Op_sh = 41"
definition Op_swl :: u32 where "Op_swl = 42"
definition Op_sw :: u32 where "Op_sw = 43"
definition Op_swr :: u32 where "Op_swr = 46"
definition Op_lwc0 :: u32 where "Op_lwc0 = 48"
definition Op_lwc1 :: u32 where "Op_lwc1 = 49"
definition Op_lwc2 :: u32 where "Op_lwc2 = 50"
definition Op_lwc3 :: u32 where "Op_lwc3 = 51"
definition Op_swc0 :: u32 where "Op_swc0 = 56"
definition Op_swc1 :: u32 where "Op_swc1 = 57"
definition Op_swc2 :: u32 where "Op_swc2 = 58"
definition Op_swc3 :: u32 where "Op_swc3 = 59"

text \<open>The enumerators of \<open>InstructionFunct\<close>.\<close>

definition Funct_sll :: u32 where "Funct_sll = 0"
definition Funct_srl :: u32 where "Funct_srl = 2"
definition Funct_sra :: u32 where "Funct_sra = 3"
definition Funct_sllv :: u32 where "Funct_sllv = 4"
definition Funct_srlv :: u32 where "Funct_srlv = 6"
definition Funct_srav :: u32 where "Funct_srav = 7"
definition Funct_jr :: u32 where "Funct_jr = 8"
definition Funct_jalr :: u32 where "Funct_jalr = 9"
definition Funct_syscall :: u32 where "Funct_syscall = 12"
definition Funct_break :: u32 where "Funct_break = 13"
definition Funct_mfhi :: u32 where "Funct_mfhi = 16"
definition Funct_mthi :: u32 where "Funct_mthi = 17"
definition Funct_mflo :: u32 where "Funct_mflo = 18"
definition Funct_mtlo :: u32 where "Funct_mtlo = 19"
definition Funct_mult :: u32 where "Funct_mult = 24"
definition Funct_multu :: u32 where "Funct_multu = 25"
definition Funct_div :: u32 where "Funct_div = 26"
definition Funct_divu :: u32 where "Funct_divu = 27"
definition Funct_add :: u32 where "Funct_add = 32"
definition Funct_addu :: u32 where "Funct_addu = 33"
definition Funct_sub :: u32 where "Funct_sub = 34"
definition Funct_subu :: u32 where "Funct_subu = 35"
definition Funct_and :: u32 where "Funct_and = 36"
definition Funct_or :: u32 where "Funct_or = 37"
definition Funct_xor :: u32 where "Funct_xor = 38"
definition Funct_nor :: u32 where "Funct_nor = 39"
definition Funct_slt :: u32 where "Funct_slt = 42"
definition Funct_sltu :: u32 where "Funct_sltu = 43"

text \<open>The enumerators of \<open>CopCommonInstruction\<close>, \<open>Cop0Instruction\<close> and \<open>Cop0Reg\<close>.\<close>

definition Common_mfcn :: u32 where "Common_mfcn = 0"
definition Common_cfcn :: u32 where "Common_cfcn = 2"
definition Common_mtcn :: u32 where "Common_mtcn = 4"
definition Common_ctcn :: u32 where "Common_ctcn = 6"

definition Cop0_rfe :: u32 where "Cop0_rfe = 0x10"

definition Cop0Reg_BPC :: nat where "Cop0Reg_BPC = 3"
definition Cop0Reg_BDA :: nat where "Cop0Reg_BDA = 5"
definition Cop0Reg_JUMPDEST :: nat where "Cop0Reg_JUMPDEST = 6"
definition Cop0Reg_DCIC :: nat where "Cop0Reg_DCIC = 7"
definition Cop0Reg_BadVaddr :: nat where "Cop0Reg_BadVaddr = 8"
definition Cop0Reg_BDAM :: nat where "Cop0Reg_BDAM = 9"
definition Cop0Reg_BPCM :: nat where "Cop0Reg_BPCM = 11"
definition Cop0Reg_SR :: nat where "Cop0Reg_SR = 12"
definition Cop0Reg_CAUSE :: nat where "Cop0Reg_CAUSE = 13"
definition Cop0Reg_EPC :: nat where "Cop0Reg_EPC = 14"
definition Cop0Reg_PRID :: nat where "Cop0Reg_PRID = 15"

subsection \<open>Pipeline, exceptions, registers\<close>

definition IsAlignedPow2 :: "u32 \<Rightarrow> u32 \<Rightarrow> bool" where
  "IsAlignedPow2 val alignment = (val AND (alignment - 1) = 0)"

definition Branch :: "u32 \<Rightarrow> 'x Core \<Rightarrow> 'x Core" where
  "Branch target s = (regs_upd (\<lambda>g. g\<lparr>npc := target\<rparr>) s)\<lparr>m_branch_was_taken := True\<rparr>"

definition GetExceptionVector :: "Exception \<Rightarrow> 'x Core \<Rightarrow> u32" where
  "GetExceptionVector excode s =
     (let base = (if SR_BEV (sr (m_cop0_regs s)) then 0xbfc00100 else 0x80000000)
      in base OR 0x00000080)"

definition FlushLoadDelay :: "'x Core \<Rightarrow> 'x Core" where
  "FlushLoadDelay s =
     s\<lparr>m_load_delay_reg := Reg_count,
       m_load_delay_old_value := 0,
       m_next_load_delay_reg := Reg_count,
       m_next_load_delay_old_value := 0\<rparr>"

text \<open>
  \<open>FetchInstruction\<close>, \<open>RaiseException\<close> and \<open>FlushPipeline\<close> call each other: a fetch
  that fails raises an exception, raising an exception flushes the pipeline, and flushing
  fetches the next instruction. The two functions below are the statements of
  \<open>RaiseException(excode, EPC, BD, BT, CE)\<close> and of \<open>FlushPipeline\<close> that come before
  those calls.
\<close>

definition RaiseException_head ::
  "Exception \<Rightarrow> u32 \<Rightarrow> bool \<Rightarrow> bool \<Rightarrow> u8 \<Rightarrow> 'x Core \<Rightarrow> 'x Core" where
  "RaiseException_head excode epc BD BT CE s =
     (let s1 = cop0_upd (\<lambda>c. c\<lparr>EPC := epc,
                 cause := CAUSE_set_CE CE (CAUSE_set_BT BT (CAUSE_set_BD BD
                            (CAUSE_set_Excode excode (cause c))))\<rparr>) s;
          s2 = (if BD
                then cop0_upd (\<lambda>c. c\<lparr>EPC := EPC c - 4, TAR := pc (m_regs s1)\<rparr>) s1
                else s1);
          s3 = cop0_upd (\<lambda>c. c\<lparr>sr := SR_set_mode_bits (push_bit 2 (SR_mode_bits (sr c))) (sr c)\<rparr>) s2
      in regs_upd (\<lambda>g. g\<lparr>npc := GetExceptionVector excode s3\<rparr>) s3)"

definition FlushPipeline_head :: "'x Core \<Rightarrow> 'x Core" where
  "FlushPipeline_head s =
     (FlushLoadDelay s)\<lparr>m_branch_was_taken := False,
                        m_next_instruction_is_branch_delay_slot := False\<rparr>"

text \<open>
  \<open>FetchInstruction\<close>, with the two calls of \<open>RaiseException\<close> unfolded down to the
  fetch in which each ends. It returns \<open>None\<close> when the chain of failing fetches does
  not end, which is the case in which the source does not return; otherwise the result
  of the function and the core.
\<close>

partial_function (option) FetchInstruction :: "'x Env \<Rightarrow> 'x Core \<Rightarrow> (bool \<times> 'x Core) option" where
  "FetchInstruction E s =
     (if \<not> IsAlignedPow2 (npc (m_regs s)) 4
      then Option.bind
             (FetchInstruction E
               (FlushPipeline_head
                 (RaiseException_head AdEL (npc (m_regs s)) False False 0
                   (cop0_upd (\<lambda>c. c\<lparr>BadVaddr := npc (m_regs s)\<rparr>) s))))
             (\<lambda>res. Some (False, snd res))
      else case DoMemoryAccess_Read E Size_Word (npc (m_regs s)) (ext s) of
             (None, x) \<Rightarrow>
               Option.bind
                 (FetchInstruction E
                   (FlushPipeline_head
                     (RaiseException_head IBE (npc (m_regs s)) False False 0 (s\<lparr>ext := x\<rparr>))))
                 (\<lambda>res. Some (False, snd res))
           | (Some bits, x) \<Rightarrow>
               Some (True,
                 regs_upd (\<lambda>g. g\<lparr>pc := npc g, npc := npc g + 4\<rparr>)
                   (s\<lparr>ext := x, m_next_instruction := bits\<rparr>)))"

definition FlushPipeline :: "'x Env \<Rightarrow> 'x Core \<Rightarrow> 'x Core option" where
  "FlushPipeline E s = map_option snd (FetchInstruction E (FlushPipeline_head s))"

definition RaiseException5 ::
  "'x Env \<Rightarrow> Exception \<Rightarrow> u32 \<Rightarrow> bool \<Rightarrow> bool \<Rightarrow> u8 \<Rightarrow> 'x Core \<Rightarrow> 'x Core option" where
  "RaiseException5 E excode epc BD BT CE s =
     FlushPipeline E (RaiseException_head excode epc BD BT CE s)"

definition RaiseException :: "'x Env \<Rightarrow> Exception \<Rightarrow> 'x Core \<Rightarrow> 'x Core option" where
  "RaiseException E excode s =
     RaiseException5 E excode (m_current_instruction_pc s)
       (m_current_instruction_in_branch_delay_slot s)
       (m_current_instruction_was_branch_taken s)
       (inst_cop_n (m_current_instruction s)) s"

definition SetPC :: "'x Env \<Rightarrow> u32 \<Rightarrow> 'x Core \<Rightarrow> 'x Core option" where
  "SetPC E new_pc s = FlushPipeline E (regs_upd (\<lambda>g. g\<lparr>npc := new_pc\<rparr>) s)"

definition ReadReg :: "Reg \<Rightarrow> 'x Core \<Rightarrow> u32" where
  "ReadReg rs s = (if rs = m_load_delay_reg s then m_load_delay_old_value s else r (m_regs s) rs)"

definition WriteReg :: "Reg \<Rightarrow> u32 \<Rightarrow> 'x Core \<Rightarrow> 'x Core" where
  "WriteReg rd val s =
     (if rd \<noteq> Reg_zero then regs_upd (\<lambda>g. g\<lparr>r := (r g)(rd := val)\<rparr>) s else s)"

text \<open>
  \<open>WriteRegDelayed\<close>. \<open>None\<close> is the failing \<open>Assert\<close>, which ends the process.
\<close>

definition WriteRegDelayed :: "Reg \<Rightarrow> u32 \<Rightarrow> 'x Core \<Rightarrow> 'x Core option" where
  "WriteRegDelayed rd val s =
     (if m_next_load_delay_reg s \<noteq> Reg_count then None
      else if rd = Reg_zero then Some s
      else Some (regs_upd (\<lambda>g. g\<lparr>r := (r g)(rd := val)\<rparr>)
                  (s\<lparr>m_next_load_delay_reg := rd,
                     m_next_load_delay_old_value := ReadReg rd s\<rparr>)))"

subsection \<open>Memory access\<close>

text \<open>
  Modelled from the spec: \<open>DoAlignmentCheck\<close>, a template of the header that is not
  among the sources. A halfword or word access that is not aligned raises \<open>AdEL\<close> for a
  read and \<open>AdES\<close> for a write, and the check fails.
\<close>

definition DoAlignmentCheck ::
  "'x Env \<Rightarrow> MemoryAccessType \<Rightarrow> MemoryAccessSize \<Rightarrow> u32 \<Rightarrow> 'x Core \<Rightarrow> (bool \<times> 'x Core) option" where
  "DoAlignmentCheck E access_type access_size addr s =
     (if (access_size = Size_HalfWord \<and> \<not> IsAlignedPow2 addr 2) \<or>
         (access_size = Size_Word \<and> \<not> IsAlignedPow2 addr 4)
      then do {
        s1 \<leftarrow> RaiseException E (if access_type = Access_Read then AdEL else AdES) s;
        Some (False, s1) }
      else Some (True, s))"

text \<open>
  The readers return the value read, or \<open>None\<close> for the result \<open>false\<close>, and the core;
  the writers return their boolean result and the core.
\<close>

definition ReadMemoryByte :: "'x Env \<Rightarrow> u32 \<Rightarrow> 'x Core \<Rightarrow> (u8 option \<times> 'x Core) option" where
  "ReadMemoryByte E addr s =
     (case DoMemoryAccess_Read E Size_Byte addr (ext s) of
        (None, x) \<Rightarrow> do { s1 \<leftarrow> RaiseException E DBE (s\<lparr>ext := x\<rparr>); Some (None, s1) }
      | (Some temp, x) \<Rightarrow> Some (Some (ucast temp), s\<lparr>ext := x\<rparr>))"

definition ReadMemoryHalfWord :: "'x Env \<Rightarrow> u32 \<Rightarrow> 'x Core \<Rightarrow> (u16 option \<times> 'x Core) option" where
  "ReadMemoryHalfWord E addr s = do {
     (aligned, s1) \<leftarrow> DoAlignmentCheck E Access_Read Size_HalfWord addr s;
     if \<not> aligned then Some (None, s1)
     else (case DoMemoryAccess_Read E Size_HalfWord addr (ext s1) of
        (None, x) \<Rightarrow> do { s2 \<leftarrow> RaiseException E DBE (s1\<lparr>ext := x\<rparr>); Some (None, s2) }
      | (Some temp, x) \<Rightarrow> Some (Some (ucast temp), s1\<lparr>ext := x\<rparr>)) }"

definition ReadMemoryWord :: "'x Env \<Rightarrow> u32 \<Rightarrow> 'x Core \<Rightarrow> (u32 option \<times> 'x Core) option" where
  "ReadMemoryWord E addr s = do {
     (aligned, s1) \<leftarrow> DoAlignmentCheck E Access_Read Size_Word addr s;
     if \<not> aligned then Some (None, s1)
     else (case DoMemoryAccess_Read E Size_Word addr (ext s1) of
        (None, x) \<Rightarrow> do { s2 \<leftarrow> RaiseException E DBE (s1\<lparr>ext := x\<rparr>); Some (None, s2) }
      | (Some val, x) \<Rightarrow> Some (Some val, s1\<lparr>ext := x\<rparr>)) }"

definition WriteMemoryByte :: "'x Env \<Rightarrow> u32 \<Rightarrow> u8 \<Rightarrow> 'x Core \<Rightarrow> (bool \<times> 'x Core) option" where
  "WriteMemoryByte E addr val s =
     (case DoMemoryAccess_Write E Size_Byte addr (ucast val) (ext s) of
        (False, x) \<Rightarrow> do { s1 \<leftarrow> RaiseException E DBE (s\<lparr>ext := x\<rparr>); Some (False, s1) }
      | (True, x) \<Rightarrow> Some (True, s\<lparr>ext := x\<rparr>))"

definition WriteMemoryHalfWord :: "'x Env \<Rightarrow> u32 \<Rightarrow> u16 \<Rightarrow> 'x Core \<Rightarrow> (bool \<times> 'x Core) option" where
  "WriteMemoryHalfWord E addr val s = do {
     (aligned, s1) \<leftarrow> DoAlignmentCheck E Access_Write Size_HalfWord addr s;
     if \<not> aligned then Some (False, s1)
     else (case DoMemoryAccess_Write E Size_HalfWord addr (ucast val) (ext s1) of
        (False, x) \<Rightarrow> do { s2 \<leftarrow> RaiseException E DBE (s1\<lparr>ext := x\<rparr>); Some (False, s2) }
      | (True, x) \<Rightarrow> Some (True, s1\<lparr>ext := x\<rparr>)) }"

definition WriteMemoryWord :: "'x Env \<Rightarrow> u32 \<Rightarrow> u32 \<Rightarrow> 'x Core \<Rightarrow> (bool \<times> 'x Core) option" where
  "WriteMemoryWord E addr val s = do {
     (aligned, s1) \<leftarrow> DoAlignmentCheck E Access_Write Size_Word addr s;
     if \<not> aligned then Some (False, s1)
     else (case DoMemoryAccess_Write E Size_Word addr val (ext s1) of
        (False, x) \<Rightarrow> do { s2 \<leftarrow> RaiseException E DBE (s1\<lparr>ext := x\<rparr>); Some (False, s2) }
      | (True, x) \<Rightarrow> Some (True, s1\<lparr>ext := x\<rparr>)) }"

subsection \<open>Coprocessor 0 registers\<close>

definition ReadCop0Reg :: "nat \<Rightarrow> 'x Core \<Rightarrow> u32 option" where
  "ReadCop0Reg reg s =
     (let c = m_cop0_regs s in
      if reg = Cop0Reg_BPC then Some (BPC c)
      else if reg = Cop0Reg_BPCM then Some (BPCM c)
      else if reg = Cop0Reg_BDA then Some (BDA c)
      else if reg = Cop0Reg_BDAM then Some (BDAM c)
      else if reg = Cop0Reg_DCIC then Some (dcic c)
      else if reg = Cop0Reg_JUMPDEST then Some (TAR c)
      else if reg = Cop0Reg_BadVaddr then Some (BadVaddr c)
      else if reg = Cop0Reg_SR then Some (sr c)
      else if reg = Cop0Reg_CAUSE then Some (cause c)
      else if reg = Cop0Reg_EPC then Some (EPC c)
      else if reg = Cop0Reg_PRID then Some (PRID c)
      else None)"

definition WriteCop0Reg :: "'x Env \<Rightarrow> nat \<Rightarrow> u32 \<Rightarrow> 'x Core \<Rightarrow> 'x Core" where
  "WriteCop0Reg E reg val s =
     (if reg = Cop0Reg_BPC then cop0_upd (\<lambda>c. c\<lparr>BPC := val\<rparr>) s
      else if reg = Cop0Reg_BPCM then cop0_upd (\<lambda>c. c\<lparr>BPCM := val\<rparr>) s
      else if reg = Cop0Reg_BDA then cop0_upd (\<lambda>c. c\<lparr>BDA := val\<rparr>) s
      else if reg = Cop0Reg_BDAM then cop0_upd (\<lambda>c. c\<lparr>BDAM := val\<rparr>) s
      else if reg = Cop0Reg_JUMPDEST then s
      else if reg = Cop0Reg_DCIC
        then cop0_upd (\<lambda>c. c\<lparr>dcic := (dcic c AND NOT (DCIC_WRITE_MASK E)) OR
                                       (val AND DCIC_WRITE_MASK E)\<rparr>) s
      else if reg = Cop0Reg_SR
        then cop0_upd (\<lambda>c. c\<lparr>sr := (sr c AND NOT (SR_WRITE_MASK E)) OR
                                     (val AND SR_WRITE_MASK E)\<rparr>) s
      else if reg = Cop0Reg_CAUSE
        then cop0_upd (\<lambda>c. c\<lparr>cause := (cause c AND NOT (CAUSE_WRITE_MASK E)) OR
                                        (val AND CAUSE_WRITE_MASK E)\<rparr>) s
      else s)"

text \<open>
  Modelled from the spec: \<open>InUserMode\<close> (the current-mode bit of \<open>SR\<close>) and
  \<open>IsCop2Instruction\<close> (true for the primary opcode \<open>0x12\<close> only), both declared in
  headers that are not among the sources.
\<close>

definition InUserMode :: "'x Core \<Rightarrow> bool" where
  "InUserMode s = SR_KUc (sr (m_cop0_regs s))"

definition IsCop2Instruction :: "u32 \<Rightarrow> bool" where
  "IsCop2Instruction inst = (inst_op inst = Op_cop2)"

definition DispatchInterrupts :: "'x Env \<Rightarrow> 'x Core \<Rightarrow> (bool \<times> 'x Core) option" where
  "DispatchInterrupts E s =
     (if IsCop2Instruction (m_next_instruction s) then Some (False, s)
      else
        let do_interrupt =
              (SR_IEc (sr (m_cop0_regs s)) \<and>
               ((cause (m_cop0_regs s) AND sr (m_cop0_regs s)) AND push_bit 8 0xFF) \<noteq> 0)
        in if \<not> do_interrupt then Some (False, s)
           else do { s1 \<leftarrow> RaiseException E INT_exc s; Some (True, s1) })"

subsection \<open>The interpreter\<close>

definition AddOverflow :: "u32 \<Rightarrow> u32 \<Rightarrow> u32 \<Rightarrow> bool" where
  "AddOverflow old_value add_value new_value =
     ((((new_value XOR old_value) AND (new_value XOR add_value)) AND 0x80000000) \<noteq> 0)"

definition SubOverflow :: "u32 \<Rightarrow> u32 \<Rightarrow> u32 \<Rightarrow> bool" where
  "SubOverflow old_value sub_value new_value =
     ((((new_value XOR old_value) AND (old_value XOR sub_value)) AND 0x80000000) \<noteq> 0)"

text \<open>The cases of \<open>ExecuteInstruction\<close> that are longer than a line, each under its label.\<close>

definition Execute_add :: "'x Env \<Rightarrow> u32 \<Rightarrow> 'x Core \<Rightarrow> 'x Core option" where
  "Execute_add E inst s =
     (let old_value = ReadReg (inst_rs inst) s;
          add_value = ReadReg (inst_rt inst) s;
          new_value = old_value + add_value
      in if AddOverflow old_value add_value new_value then RaiseException E Ov s
         else Some (WriteReg (inst_rd inst) new_value s))"

definition Execute_sub :: "'x Env \<Rightarrow> u32 \<Rightarrow> 'x Core \<Rightarrow> 'x Core option" where
  "Execute_sub E inst s =
     (let old_value = ReadReg (inst_rs inst) s;
          sub_value = ReadReg (inst_rt inst) s;
          new_value = old_value - sub_value
      in if SubOverflow old_value sub_value new_value then RaiseException E Ov s
         else Some (WriteReg (inst_rd inst) new_value s))"

definition Execute_addi :: "'x Env \<Rightarrow> u32 \<Rightarrow> 'x Core \<Rightarrow> 'x Core option" where
  "Execute_addi E inst s =
     (let old_value = ReadReg (inst_rs inst) s;
          add_value = imm_sext32 inst;
          new_value = old_value + add_value
      in if AddOverflow old_value add_value new_value then RaiseException E Ov s
         else Some (WriteReg (inst_rt inst) new_value s))"

definition Execute_mult :: "u32 \<Rightarrow> 'x Core \<Rightarrow> 'x Core" where
  "Execute_mult inst s =
     (let lhs = ReadReg (inst_rs inst) s;
          rhs = ReadReg (inst_rt inst) s;
          result = (scast lhs :: u64) * (scast rhs :: u64)
      in regs_upd (\<lambda>g. g\<lparr>hi := ucast (drop_bit 32 result), lo := ucast result\<rparr>) s)"

definition Execute_multu :: "u32 \<Rightarrow> 'x Core \<Rightarrow> 'x Core" where
  "Execute_multu inst s =
     (let lhs = ReadReg (inst_rs inst) s;
          rhs = ReadReg (inst_rt inst) s;
          result = (ucast lhs :: u64) * (ucast rhs :: u64)
      in regs_upd (\<lambda>g. g\<lparr>hi := ucast (drop_bit 32 result), lo := ucast result\<rparr>) s)"

text \<open>
  \<open>div\<close>: \<open>num\<close> and \<open>denom\<close> are the register values read as \<open>s32\<close>, that is
  through \<open>sint\<close>; \<open>/\<close> and \<open>%\<close> on \<open>s32\<close> truncate towards zero, as \<open>sdiv\<close> and
  \<open>smod\<close> do on integers, and the results are cast back to \<open>u32\<close>.
\<close>

definition Execute_div :: "u32 \<Rightarrow> 'x Core \<Rightarrow> 'x Core" where
  "Execute_div inst s =
     (let num = ReadReg (inst_rs inst) s;
          denom = ReadReg (inst_rt inst) s
      in if sint denom = 0
         then regs_upd (\<lambda>g. g\<lparr>lo := (if sint num \<ge> 0 then 0xFFFFFFFF else 1), hi := num\<rparr>) s
         else if num = 0x80000000 \<and> sint denom = - 1
         then regs_upd (\<lambda>g. g\<lparr>lo := 0x80000000, hi := 0\<rparr>) s
         else regs_upd (\<lambda>g. g\<lparr>lo := word_of_int (sint num sdiv sint denom),
                                hi := word_of_int (sint num smod sint denom)\<rparr>) s)"

definition Execute_divu :: "u32 \<Rightarrow> 'x Core \<Rightarrow> 'x Core" where
  "Execute_divu inst s =
     (let num = ReadReg (inst_rs inst) s;
          denom = ReadReg (inst_rt inst) s
      in if denom = 0
         then regs_upd (\<lambda>g. g\<lparr>lo := (if num \<ge> 0 then 0xFFFFFFFF else 1), hi := num\<rparr>) s
         else regs_upd (\<lambda>g. g\<lparr>lo := num div denom, hi := num mod denom\<rparr>) s)"

definition Execute_jr :: "u32 \<Rightarrow> 'x Core \<Rightarrow> 'x Core" where
  "Execute_jr inst s =
     (let s1 = s\<lparr>m_next_instruction_is_branch_delay_slot := True\<rparr>;
          target = ReadReg (inst_rs inst) s1
      in Branch target s1)"

definition Execute_jalr :: "u32 \<Rightarrow> 'x Core \<Rightarrow> 'x Core" where
  "Execute_jalr inst s =
     (let s1 = s\<lparr>m_next_instruction_is_branch_delay_slot := True\<rparr>;
          target = ReadReg (inst_rs inst) s1;
          s2 = WriteReg (inst_rd inst) (npc (m_regs s1)) s1
      in Branch target s2)"

definition ExecuteFunct :: "'x Env \<Rightarrow> u32 \<Rightarrow> 'x Core \<Rightarrow> 'x Core option" where
  "ExecuteFunct E inst s =
     (let funct = inst_funct inst; rs = inst_rs inst; rt = inst_rt inst; rd = inst_rd inst in
      if funct = Funct_sll then Some (WriteReg rd (push_bit (inst_shamt inst) (ReadReg rt s)) s)
      else if funct = Funct_srl then Some (WriteReg rd (drop_bit (inst_shamt inst) (ReadReg rt s)) s)
      else if funct = Funct_sra
        then Some (WriteReg rd (signed_drop_bit (inst_shamt inst) (ReadReg rt s)) s)
      else if funct = Funct_sllv
        then Some (WriteReg rd (push_bit (unat (ReadReg rs s AND 0x1F)) (ReadReg rt s)) s)
      else if funct = Funct_srlv
        then Some (WriteReg rd (drop_bit (unat (ReadReg rs s AND 0x1F)) (ReadReg rt s)) s)
      else if funct = Funct_srav
        then Some (WriteReg rd (signed_drop_bit (unat (ReadReg rs s AND 0x1F)) (ReadReg rt s)) s)
      else if funct = Funct_and then Some (WriteReg rd (ReadReg rs s AND ReadReg rt s) s)
      else if funct = Funct_or then Some (WriteReg rd (ReadReg rs s OR ReadReg rt s) s)
      else if funct = Funct_xor then Some (WriteReg rd (ReadReg rs s XOR ReadReg rt s) s)
      else if funct = Funct_nor then Some (WriteReg rd (NOT (ReadReg rs s OR ReadReg rt s)) s)
      else if funct = Funct_add then Execute_add E inst s
      else if funct = Funct_addu then Some (WriteReg rd (ReadReg rs s + ReadReg rt s) s)
      else if funct = Funct_sub then Execute_sub E inst s
      else if funct = Funct_subu then Some (WriteReg rd (ReadReg rs s - ReadReg rt s) s)
      else if funct = Funct_slt
        then Some (WriteReg rd (of_bool (sint (ReadReg rs s) < sint (ReadReg rt s))) s)
      else if funct = Funct_sltu
        then Some (WriteReg rd (of_bool (ReadReg rs s < ReadReg rt s)) s)
      else if funct = Funct_mfhi then Some (WriteReg rd (hi (m_regs s)) s)
      else if funct = Funct_mthi then Some (regs_upd (\<lambda>g. g\<lparr>hi := ReadReg rs s\<rparr>) s)
      else if funct = Funct_mflo then Some (WriteReg rd (lo (m_regs s)) s)
      else if funct = Funct_mtlo then Some (regs_upd (\<lambda>g. g\<lparr>lo := ReadReg rs s\<rparr>) s)
      else if funct = Funct_mult then Some (Execute_mult inst s)
      else if funct = Funct_multu then Some (Execute_multu inst s)
      else if funct = Funct_div then Some (Execute_div inst s)
      else if funct = Funct_divu then Some (Execute_divu inst s)
      else if funct = Funct_jr then Some (Execute_jr inst s)
      else if funct = Funct_jalr then Some (Execute_jalr inst s)
      else if funct = Funct_syscall then RaiseException E Syscall s
      else if funct = Funct_break then RaiseException E BP s
      else RaiseException E RI s)"

text \<open>The loads: each reads memory and, unless that fails, writes \<open>rt\<close> through the delay.\<close>

definition Execute_lb :: "'x Env \<Rightarrow> u32 \<Rightarrow> 'x Core \<Rightarrow> 'x Core option" where
  "Execute_lb E inst s = do {
     (val, s1) \<leftarrow> ReadMemoryByte E (ReadReg (inst_rs inst) s + imm_sext32 inst) s;
     case val of None \<Rightarrow> Some s1
     | Some v \<Rightarrow> WriteRegDelayed (inst_rt inst) (scast v) s1 }"

definition Execute_lh :: "'x Env \<Rightarrow> u32 \<Rightarrow> 'x Core \<Rightarrow> 'x Core option" where
  "Execute_lh E inst s = do {
     (val, s1) \<leftarrow> ReadMemoryHalfWord E (ReadReg (inst_rs inst) s + imm_sext32 inst) s;
     case val of None \<Rightarrow> Some s1
     | Some v \<Rightarrow> WriteRegDelayed (inst_rt inst) (scast v) s1 }"

definition Execute_lw :: "'x Env \<Rightarrow> u32 \<Rightarrow> 'x Core \<Rightarrow> 'x Core option" where
  "Execute_lw E inst s = do {
     (val, s1) \<leftarrow> ReadMemoryWord E (ReadReg (inst_rs inst) s + imm_sext32 inst) s;
     case val of None \<Rightarrow> Some s1
     | Some v \<Rightarrow> WriteRegDelayed (inst_rt inst) v s1 }"

definition Execute_lbu :: "'x Env \<Rightarrow> u32 \<Rightarrow> 'x Core \<Rightarrow> 'x Core option" where
  "Execute_lbu E inst s = do {
     (val, s1) \<leftarrow> ReadMemoryByte E (ReadReg (inst_rs inst) s + imm_sext32 inst) s;
     case val of None \<Rightarrow> Some s1
     | Some v \<Rightarrow> WriteRegDelayed (inst_rt inst) (ucast v) s1 }"

definition Execute_lhu :: "'x Env \<Rightarrow> u32 \<Rightarrow> 'x Core \<Rightarrow> 'x Core option" where
  "Execute_lhu E inst s = do {
     (val, s1) \<leftarrow> ReadMemoryHalfWord E (ReadReg (inst_rs inst) s + imm_sext32 inst) s;
     case val of None \<Rightarrow> Some s1
     | Some v \<Rightarrow> WriteRegDelayed (inst_rt inst) (ucast v) s1 }"

definition Execute_lwl_lwr :: "'x Env \<Rightarrow> u32 \<Rightarrow> 'x Core \<Rightarrow> 'x Core option" where
  "Execute_lwl_lwr E inst s =
     (let addr = ReadReg (inst_rs inst) s + imm_sext32 inst;
          aligned_addr = addr AND NOT 3
      in do {
        (val, s1) \<leftarrow> ReadMemoryWord E aligned_addr s;
        case val of None \<Rightarrow> Some s1
        | Some aligned_value \<Rightarrow>
            let existing_value = r (m_regs s1) (inst_rt inst);
                shift = unat ((ucast addr :: u8) AND 3) * 8;
                new_value =
                  (if inst_op inst = Op_lwl
                   then (existing_value AND drop_bit shift 0x00FFFFFF) OR
                        push_bit (24 - shift) aligned_value
                   else (existing_value AND push_bit (24 - shift) 0xFFFFFF00) OR
                        drop_bit shift aligned_value)
            in WriteRegDelayed (inst_rt inst) new_value s1 })"

definition Execute_sb :: "'x Env \<Rightarrow> u32 \<Rightarrow> 'x Core \<Rightarrow> 'x Core option" where
  "Execute_sb E inst s =
     map_option snd
       (WriteMemoryByte E (ReadReg (inst_rs inst) s + imm_sext32 inst)
          (ucast (ReadReg (inst_rt inst) s)) s)"

definition Execute_sh :: "'x Env \<Rightarrow> u32 \<Rightarrow> 'x Core \<Rightarrow> 'x Core option" where
  "Execute_sh E inst s =
     map_option snd
       (WriteMemoryHalfWord E (ReadReg (inst_rs inst) s + imm_sext32 inst)
          (ucast (ReadReg (inst_rt inst) s)) s)"

definition Execute_sw :: "'x Env \<Rightarrow> u32 \<Rightarrow> 'x Core \<Rightarrow> 'x Core option" where
  "Execute_sw E inst s =
     map_option snd
       (WriteMemoryWord E (ReadReg (inst_rs inst) s + imm_sext32 inst)
          (ReadReg (inst_rt inst) s) s)"

definition Execute_swl_swr :: "'x Env \<Rightarrow> u32 \<Rightarrow> 'x Core \<Rightarrow> 'x Core option" where
  "Execute_swl_swr E inst s =
     (let addr = ReadReg (inst_rs inst) s + imm_sext32 inst;
          aligned_addr = addr AND NOT 3;
          reg_value = ReadReg (inst_rt inst) s;
          shift = unat ((ucast addr :: u8) AND 3) * 8
      in do {
        (val, s1) \<leftarrow> ReadMemoryWord E aligned_addr s;
        case val of None \<Rightarrow> Some s1
        | Some mem_value \<Rightarrow>
            let new_value =
                  (if inst_op inst = Op_swl
                   then (mem_value AND push_bit shift 0xFFFFFF00) OR
                        drop_bit (24 - shift) reg_value
                   else (mem_value AND drop_bit (24 - shift) 0x00FFFFFF) OR
                        push_bit shift reg_value)
            in map_option snd (WriteMemoryWord E aligned_addr new_value s1) })"

text \<open>Jumps and branches.\<close>

definition Execute_j :: "u32 \<Rightarrow> 'x Core \<Rightarrow> 'x Core" where
  "Execute_j inst s =
     (let s1 = s\<lparr>m_next_instruction_is_branch_delay_slot := True\<rparr>
      in Branch ((pc (m_regs s1) AND 0xF0000000) OR push_bit 2 (inst_target inst)) s1)"

definition Execute_jal :: "u32 \<Rightarrow> 'x Core \<Rightarrow> 'x Core" where
  "Execute_jal inst s =
     (let s1 = regs_upd (\<lambda>g. g\<lparr>r := (r g)(Reg_ra := npc g)\<rparr>) s;
          s2 = s1\<lparr>m_next_instruction_is_branch_delay_slot := True\<rparr>
      in Branch ((pc (m_regs s2) AND 0xF0000000) OR push_bit 2 (inst_target inst)) s2)"

definition Execute_branch_if :: "bool \<Rightarrow> u32 \<Rightarrow> 'x Core \<Rightarrow> 'x Core" where
  "Execute_branch_if branch inst s =
     (if branch then Branch (pc (m_regs s) + push_bit 2 (imm_sext32 inst)) s else s)"

definition Execute_beq :: "u32 \<Rightarrow> 'x Core \<Rightarrow> 'x Core" where
  "Execute_beq inst s =
     (let s1 = s\<lparr>m_next_instruction_is_branch_delay_slot := True\<rparr>;
          branch = (ReadReg (inst_rs inst) s1 = ReadReg (inst_rt inst) s1)
      in Execute_branch_if branch inst s1)"

definition Execute_bne :: "u32 \<Rightarrow> 'x Core \<Rightarrow> 'x Core" where
  "Execute_bne inst s =
     (let s1 = s\<lparr>m_next_instruction_is_branch_delay_slot := True\<rparr>;
          branch = (ReadReg (inst_rs inst) s1 \<noteq> ReadReg (inst_rt inst) s1)
      in Execute_branch_if branch inst s1)"

definition Execute_bgtz :: "u32 \<Rightarrow> 'x Core \<Rightarrow> 'x Core" where
  "Execute_bgtz inst s =
     (let s1 = s\<lparr>m_next_instruction_is_branch_delay_slot := True\<rparr>;
          branch = (sint (ReadReg (inst_rs inst) s1) > 0)
      in Execute_branch_if branch inst s1)"

definition Execute_blez :: "u32 \<Rightarrow> 'x Core \<Rightarrow> 'x Core" where
  "Execute_blez inst s =
     (let s1 = s\<lparr>m_next_instruction_is_branch_delay_slot := True\<rparr>;
          branch = (sint (ReadReg (inst_rs inst) s1) \<le> 0)
      in Execute_branch_if branch inst s1)"

definition Execute_b :: "u32 \<Rightarrow> 'x Core \<Rightarrow> 'x Core" where
  "Execute_b inst s =
     (let s1 = s\<lparr>m_next_instruction_is_branch_delay_slot := True\<rparr>;
          rt = (of_nat (inst_rt inst) :: u8);
          bgez = (rt AND 1 \<noteq> 0);
          branch = ((sint (ReadReg (inst_rs inst) s1) < 0) \<noteq> bgez);
          link = (rt AND 0x1E = 0x10);
          s2 = (if link then regs_upd (\<lambda>g. g\<lparr>r := (r g)(Reg_ra := npc g)\<rparr>) s1 else s1)
      in Execute_branch_if branch inst s2)"

text \<open>
  Coprocessor instructions. \<open>None\<close> is also the result of \<open>Panic("Missing
  implementation")\<close>, which ends the process.
\<close>

definition ExecuteCop0Instruction :: "'x Env \<Rightarrow> 'x Core \<Rightarrow> 'x Core option" where
  "ExecuteCop0Instruction E s =
     (let inst = m_current_instruction s in
      if IsCommonInstruction inst
      then (if CommonOp inst = Common_mfcn
            then (case ReadCop0Reg (inst_rd inst) s of
                    Some val \<Rightarrow> WriteRegDelayed (inst_rt inst) val s
                  | None \<Rightarrow> RaiseException E RI s)
            else if CommonOp inst = Common_mtcn
            then Some (WriteCop0Reg E (inst_rd inst) (ReadReg (inst_rt inst) s) s)
            else None)
      else (if Cop0Op inst = Cop0_rfe
            then Some (cop0_upd (\<lambda>c. c\<lparr>sr :=
                   SR_set_mode_bits ((SR_mode_bits (sr c) AND 0b110000) OR
                                     drop_bit 2 (SR_mode_bits (sr c))) (sr c)\<rparr>) s)
            else None))"

definition ExecuteCop2Instruction :: "'x Env \<Rightarrow> 'x Core \<Rightarrow> 'x Core option" where
  "ExecuteCop2Instruction E s =
     (let inst = m_current_instruction s in
      if IsCommonInstruction inst
      then (if CommonOp inst = Common_cfcn
            then WriteRegDelayed (inst_rt inst)
                   (cop2_ReadControlRegister E (of_nat (inst_rd inst)) (ext s)) s
            else if CommonOp inst = Common_ctcn
            then Some (s\<lparr>ext := cop2_WriteControlRegister E (of_nat (inst_rd inst))
                                   (ReadReg (inst_rt inst) s) (ext s)\<rparr>)
            else if CommonOp inst = Common_mfcn
            then WriteRegDelayed (inst_rt inst)
                   (cop2_ReadDataRegister E (of_nat (inst_rd inst)) (ext s)) s
            else if CommonOp inst = Common_mtcn
            then Some (s\<lparr>ext := cop2_WriteDataRegister E (of_nat (inst_rd inst))
                                   (ReadReg (inst_rt inst) s) (ext s)\<rparr>)
            else None)
      else Some (s\<lparr>ext := cop2_ExecuteInstruction E inst (ext s)\<rparr>))"

definition Execute_lwc2 :: "'x Env \<Rightarrow> u32 \<Rightarrow> 'x Core \<Rightarrow> 'x Core option" where
  "Execute_lwc2 E inst s =
     (if InUserMode s \<and> \<not> SR_CU2 (sr (m_cop0_regs s)) then RaiseException E CpU s
      else do {
        (val, s1) \<leftarrow> ReadMemoryWord E (ReadReg (inst_rs inst) s + imm_sext32 inst) s;
        case val of None \<Rightarrow> Some s1
        | Some v \<Rightarrow>
            Some (s1\<lparr>ext := cop2_WriteDataRegister E (of_nat (inst_rt inst)) v (ext s1)\<rparr>) })"

definition Execute_swc2 :: "'x Env \<Rightarrow> u32 \<Rightarrow> 'x Core \<Rightarrow> 'x Core option" where
  "Execute_swc2 E inst s =
     (if InUserMode s \<and> \<not> SR_CU2 (sr (m_cop0_regs s)) then RaiseException E CpU s
      else map_option snd
             (WriteMemoryWord E (ReadReg (inst_rs inst) s + imm_sext32 inst)
                (cop2_ReadDataRegister E (of_nat (inst_rt inst)) (ext s)) s))"

definition ExecuteInstruction :: "'x Env \<Rightarrow> 'x Core \<Rightarrow> 'x Core option" where
  "ExecuteInstruction E s =
     (let inst = m_current_instruction s; op = inst_op inst;
          rs = inst_rs inst; rt = inst_rt inst in
      if op = Op_funct then ExecuteFunct E inst s
      else if op = Op_lui then Some (WriteReg rt (push_bit 16 (imm_zext32 inst)) s)
      else if op = Op_andi then Some (WriteReg rt (ReadReg rs s AND imm_zext32 inst) s)
      else if op = Op_ori then Some (WriteReg rt (ReadReg rs s OR imm_zext32 inst) s)
      else if op = Op_xori then Some (WriteReg rt (ReadReg rs s XOR imm_zext32 inst) s)
      else if op = Op_addi then Execute_addi E inst s
      else if op = Op_addiu then Some (WriteReg rt (ReadReg rs s + imm_sext32 inst) s)
      else if op = Op_slti
        then Some (WriteReg rt (of_bool (sint (ReadReg rs s) < sint (imm_sext32 inst))) s)
      else if op = Op_sltiu
        then Some (WriteReg rt (of_bool (ReadReg rs s < imm_sext32 inst)) s)
      else if op = Op_lb then Execute_lb E inst s
      else if op = Op_lh then Execute_lh E inst s
      else if op = Op_lw then Execute_lw E inst s
      else if op = Op_lbu then Execute_lbu E inst s
      else if op = Op_lhu then Execute_lhu E inst s
      else if op = Op_lwl \<or> op = Op_lwr then Execute_lwl_lwr E inst s
      else if op = Op_sb then Execute_sb E inst s
      else if op = Op_sh then Execute_sh E inst s
      else if op = Op_sw then Execute_sw E inst s
      else if op = Op_swl \<or> op = Op_swr then Execute_swl_swr E inst s
      else if op = Op_j then Some (Execute_j inst s)
      else if op = Op_jal then Some (Execute_jal inst s)
      else if op = Op_beq then Some (Execute_beq inst s)
      else if op = Op_bne then Some (Execute_bne inst s)
      else if op = Op_bgtz then Some (Execute_bgtz inst s)
      else if op = Op_blez then Some (Execute_blez inst s)
      else if op = Op_b then Some (Execute_b inst s)
      else if op = Op_cop0
        then (if InUserMode s \<and> \<not> SR_CU0 (sr (m_cop0_regs s)) then RaiseException E CpU s
              else ExecuteCop0Instruction E s)
      else if op = Op_cop2
        then (if InUserMode s \<and> \<not> SR_CU2 (sr (m_cop0_regs s)) then RaiseException E CpU s
              else ExecuteCop2Instruction E s)
      else if op = Op_lwc2 then Execute_lwc2 E inst s
      else if op = Op_swc2 then Execute_swc2 E inst s
      else if op = Op_cop1 \<or> op = Op_cop3 \<or> op = Op_lwc0 \<or> op = Op_lwc1 \<or> op = Op_lwc3 \<or>
              op = Op_swc0 \<or> op = Op_swc1 \<or> op = Op_swc3
        then Some s
      else RaiseException E RI s)"

subsection \<open>The execution loop\<close>

text \<open>
  The body of the loop of \<open>Execute\<close> in three parts: the statements before the fetch,
  the statements after \<open>ExecuteInstruction\<close> that move the load delay on, and the whole
  iteration.
\<close>

definition Execute_begin :: "'x Core \<Rightarrow> 'x Core" where
  "Execute_begin s =
     s\<lparr>m_pending_ticks := m_pending_ticks s + 2,
       m_downcount := m_downcount s - 2,
       m_current_instruction := m_next_instruction s,
       m_current_instruction_pc := pc (m_regs s),
       m_current_instruction_in_branch_delay_slot := m_next_instruction_is_branch_delay_slot s,
       m_current_instruction_was_branch_taken := m_branch_was_taken s,
       m_next_instruction_is_branch_delay_slot := False,
       m_branch_was_taken := False\<rparr>"

definition AdvanceLoadDelay :: "'x Core \<Rightarrow> 'x Core" where
  "AdvanceLoadDelay s =
     s\<lparr>m_load_delay_reg := m_next_load_delay_reg s,
       m_next_load_delay_reg := Reg_count,
       m_load_delay_old_value := m_next_load_delay_old_value s,
       m_next_load_delay_old_value := 0\<rparr>"

definition Execute_step :: "'x Env \<Rightarrow> 'x Core \<Rightarrow> 'x Core option" where
  "Execute_step E s = do {
     (dispatched, s1) \<leftarrow> DispatchInterrupts E (Execute_begin s);
     if dispatched then Some s1
     else do {
       (fetched, s2) \<leftarrow> FetchInstruction E s1;
       if \<not> fetched then Some s2
       else do {
         s3 \<leftarrow> ExecuteInstruction E s2;
         Some (AdvanceLoadDelay s3) } } }"

partial_function (option) Execute :: "'x Env \<Rightarrow> 'x Core \<Rightarrow> 'x Core option" where
  "Execute E s =
     (if m_downcount s \<ge> 0 then Option.bind (Execute_step E s) (Execute E) else Some s)"

text \<open>A given number of iterations of the loop, whatever the downcount.\<close>

fun Execute_steps :: "nat \<Rightarrow> 'x Env \<Rightarrow> 'x Core \<Rightarrow> 'x Core option" where
  "Execute_steps 0 E s = Some s"
| "Execute_steps (Suc n) E s = Option.bind (Execute_step E s) (Execute_steps n E)"

definition Core_Reset :: "'x Env \<Rightarrow> 'x Core \<Rightarrow> 'x Core option" where
  "Core_Reset E s =
     SetPC E (RESET_VECTOR E)
       (s\<lparr>m_pending_ticks := 0,
          m_downcount := MAX_SLICE_SIZE E,
          m_regs := \<lparr>r = (\<lambda>_. 0), pc = 0, hi = 0, lo = 0, npc = 0\<rparr>,
          m_cop0_regs := (m_cop0_regs s)\<lparr>BPC := 0, BDA := 0, TAR := 0, BadVaddr := 0,
                                         BDAM := 0, BPCM := 0, EPC := 0, sr := 0, cause := 0\<rparr>,
          ext := cop2_Reset E (ext s)\<rparr>)"

subsection \<open>Auxiliary notions for the properties of the CPU core\<close>

text \<open>
  Relations between the core before and after an operation: the general registers and
  \<open>hi\<close>, \<open>lo\<close> are the same; register 0 is the same.
\<close>

definition gpr_kept :: "'x Core \<Rightarrow> 'x Core \<Rightarrow> bool" where
  "gpr_kept s s' \<longleftrightarrow>
     r (m_regs s') = r (m_regs s) \<and> hi (m_regs s') = hi (m_regs s) \<and> lo (m_regs s') = lo (m_regs s)"

definition r0_kept :: "'x Core \<Rightarrow> 'x Core \<Rightarrow> bool" where
  "r0_kept s s' \<longleftrightarrow> r (m_regs s') Reg_zero = r (m_regs s) Reg_zero"

text \<open>
  An environment for running the core on concrete inputs: a bus with a read-only memory
  of words, given as pairs of address and value, on which a read of an address that is not
  listed fails and so does every write; a GTE that does nothing; and a core whose members
  are zero and whose load delay slots are empty.
\<close>

definition WordRom_Env :: "(u32 \<times> u32) list Env" where
  "WordRom_Env =
     \<lparr>DoMemoryAccess_Read = (\<lambda>sz addr rom. (map_of rom addr, rom)),
      DoMemoryAccess_Write = (\<lambda>sz addr val rom. (False, rom)),
      cop2_Reset = (\<lambda>rom. rom),
      cop2_ReadDataRegister = (\<lambda>idx rom. 0),
      cop2_WriteDataRegister = (\<lambda>idx val rom. rom),
      cop2_ReadControlRegister = (\<lambda>idx rom. 0),
      cop2_WriteControlRegister = (\<lambda>idx val rom. rom),
      cop2_ExecuteInstruction = (\<lambda>inst rom. rom),
      SR_WRITE_MASK = 0xF27FFF3F,
      CAUSE_WRITE_MASK = 0x00000300,
      DCIC_WRITE_MASK = 0xFF80F03F,
      MAX_SLICE_SIZE = 100,
      RESET_VECTOR = 0xBFC00000\<rparr>"

definition blank_Core :: "'x \<Rightarrow> 'x Core" where
  "blank_Core x =
     \<lparr>m_pending_ticks = 0,
      m_downcount = 0,
      m_regs = \<lparr>r = (\<lambda>_. 0), pc = 0, hi = 0, lo = 0, npc = 0\<rparr>,
      m_cop0_regs = \<lparr>BPC = 0, BDA = 0, TAR = 0, BadVaddr = 0, BDAM = 0, BPCM = 0, EPC = 0,
                      PRID = 2, sr = 0, cause = 0, dcic = 0\<rparr>,
      m_next_instruction = 0,
      m_current_instruction = 0,
      m_current_instruction_pc = 0,
      m_current_instruction_in_branch_delay_slot = False,
      m_current_instruction_was_branch_taken = False,
      m_next_instruction_is_branch_delay_slot = False,
      m_branch_was_taken = False,
      m_load_delay_reg = Reg_count,
      m_load_delay_old_value = 0,
      m_next_load_delay_reg = Reg_count,
      m_next_load_delay_old_value = 0,
      ext = x\<rparr>"

text \<open>
  The state of the load delay slots after a pipeline flush.
\<close>

definition flushed :: "'x Core \<Rightarrow> bool" where
  "flushed s \<longleftrightarrow> m_load_delay_reg s = Reg_count \<and> m_next_load_delay_reg s = Reg_count"

text \<open>
  Memories for the runs below: one that holds a \<open>nop\<close> at each exception vector, and
  programs at the reset vector.
\<close>

definition vector_rom :: "(u32 \<times> u32) list" where
  "vector_rom = [(0x80000080, 0x00000000), (0xBFC00180, 0x00000000)]"

definition zero_write_rom :: "(u32 \<times> u32) list" where
  "zero_write_rom =
     [(0xBFC00000, 0x34000005), (0xBFC00004, 0x3C000001),
      (0xBFC00008, 0x00000000), (0xBFC0000C, 0x00000000)]"

text \<open>
  A core that is about to execute \<open>addi r1, r1, 1\<close> with \<open>0x7FFFFFFF\<close> in \<open>r1\<close>.
\<close>

definition overflow_Core :: "(u32 \<times> u32) list Core" where
  "overflow_Core =
     (blank_Core vector_rom)
       \<lparr>m_regs := \<lparr>r = (\<lambda>_. 0)(1 := 0x7FFFFFFF), pc = 0xBFC00004, hi = 0, lo = 0, npc = 0xBFC00008\<rparr>,
        m_current_instruction := 0x20210001,
        m_current_instruction_pc := 0xBFC00000\<rparr>"

text \<open>
  The program \<open>ori r1, r0, 10; div r1, r0; mflo r2; mfhi r3; nop\<close> at the reset vector,
  the core in which that run executes the \<open>div\<close>, and the same core executing
  \<open>divu r1, r0\<close> instead.
\<close>

definition div_rom :: "(u32 \<times> u32) list" where
  "div_rom =
     [(0xBFC00000, 0x3401000A), (0xBFC00004, 0x0020001A), (0xBFC00008, 0x00001012),
      (0xBFC0000C, 0x00001810), (0xBFC00010, 0x00000000)]"

definition div_Core :: "(u32 \<times> u32) list Core" where
  "div_Core =
     (blank_Core div_rom)
       \<lparr>m_pending_ticks := 4, m_downcount := 96,
        m_regs := \<lparr>r = (\<lambda>_. 0)(1 := 10), pc = 0xBFC00008, hi = 0, lo = 0, npc = 0xBFC0000C\<rparr>,
        m_next_instruction := 0x00001012,
        m_current_instruction := 0x0020001A,
        m_current_instruction_pc := 0xBFC00004\<rparr>"

definition divu_Core :: "(u32 \<times> u32) list Core" where
  "divu_Core = div_Core\<lparr>m_current_instruction := 0x0020001B\<rparr>"




text \<open>
  The core with another value in one entry of the register file. It serves to state that an
  instruction does not depend on that entry.
\<close>

definition with_reg :: "Reg \<Rightarrow> u32 \<Rightarrow> 'x Core \<Rightarrow> 'x Core" where
  "with_reg rg a s = regs_upd (\<lambda>g. g\<lparr>r := (r g)(rg := a)\<rparr>) s"



section \<open>Analog controller: properties\<close>

lemma Transfer_in_Idle: "m_state c = Idle \<Longrightarrow> Transfer b c = Transfer_Idle b c"
  and Transfer_in_GetStateIDMSB:
    "m_state c = GetStateIDMSB \<Longrightarrow> Transfer b c = ID_STATE_MSB GetStateButtonsLSB c"
  and Transfer_in_GetStateButtonsLSB:
    "m_state c = GetStateButtonsLSB \<Longrightarrow> Transfer b c = Transfer_GetStateButtonsLSB b c"
  and Transfer_in_GetStateButtonsMSB:
    "m_state c = GetStateButtonsMSB \<Longrightarrow> Transfer b c = Transfer_GetStateButtonsMSB b c"
  and Transfer_in_GetStateRightAxisX:
    "m_state c = GetStateRightAxisX \<Longrightarrow>
       Transfer b c = Transfer_GetStateAxis 2 Axis_RightX True GetStateRightAxisY b c"
  and Transfer_in_GetStateRightAxisY:
    "m_state c = GetStateRightAxisY \<Longrightarrow>
       Transfer b c = Transfer_GetStateAxis 3 Axis_RightY True GetStateLeftAxisX b c"
  and Transfer_in_GetStateLeftAxisX:
    "m_state c = GetStateLeftAxisX \<Longrightarrow>
       Transfer b c = Transfer_GetStateAxis 4 Axis_LeftX True GetStateLeftAxisY b c"
  and Transfer_in_GetStateLeftAxisY:
    "m_state c = GetStateLeftAxisY \<Longrightarrow>
       Transfer b c = Transfer_GetStateAxis 5 Axis_LeftY False Idle b c"
  and Transfer_in_ConfigModeIDMSB:
    "m_state c = ConfigModeIDMSB \<Longrightarrow> Transfer b c = ID_STATE_MSB ConfigModeSetMode c"
  and Transfer_in_ConfigModeSetMode:
    "m_state c = ConfigModeSetMode \<Longrightarrow> Transfer b c = Transfer_ConfigModeSetMode b c"
  and Transfer_in_UnlockRumbleIDMSB:
    "m_state c = UnlockRumbleIDMSB \<Longrightarrow> Transfer b c = ID_STATE_MSB GetSetRumble1 c"
  and Transfer_in_GetSetRumble1:
    "m_state c = GetSetRumble1 \<Longrightarrow> Transfer b c = REPLY_RUMBLE_CONFIG 0 True GetSetRumble2 b c"
  and Transfer_in_GetSetRumble2:
    "m_state c = GetSetRumble2 \<Longrightarrow> Transfer b c = REPLY_RUMBLE_CONFIG 1 True GetSetRumble3 b c"
  and Transfer_in_GetSetRumble3:
    "m_state c = GetSetRumble3 \<Longrightarrow> Transfer b c = REPLY_RUMBLE_CONFIG 2 True GetSetRumble4 b c"
  and Transfer_in_GetSetRumble4:
    "m_state c = GetSetRumble4 \<Longrightarrow> Transfer b c = REPLY_RUMBLE_CONFIG 3 True GetSetRumble5 b c"
  and Transfer_in_GetSetRumble5:
    "m_state c = GetSetRumble5 \<Longrightarrow> Transfer b c = REPLY_RUMBLE_CONFIG 4 True GetSetRumble6 b c"
  and Transfer_in_GetSetRumble6:
    "m_state c = GetSetRumble6 \<Longrightarrow> Transfer b c = Transfer_GetSetRumble6 b c"
  and Transfer_in_Pad5Bytes:
    "m_state c = Pad5Bytes \<Longrightarrow> Transfer b c = FIXED_REPLY_STATE 0x00 True Pad4Bytes c"
  and Transfer_in_Pad4Bytes:
    "m_state c = Pad4Bytes \<Longrightarrow> Transfer b c = FIXED_REPLY_STATE 0x00 True Pad3Bytes c"
  and Transfer_in_Pad3Bytes:
    "m_state c = Pad3Bytes \<Longrightarrow> Transfer b c = FIXED_REPLY_STATE 0x00 True Pad2Bytes c"
  and Transfer_in_Pad2Bytes:
    "m_state c = Pad2Bytes \<Longrightarrow> Transfer b c = FIXED_REPLY_STATE 0x00 True Pad1Byte c"
  and Transfer_in_Pad1Byte:
    "m_state c = Pad1Byte \<Longrightarrow> Transfer b c = FIXED_REPLY_STATE 0x00 False Idle c"
  by (simp_all add: Transfer_def)

lemmas Transfer_in =
  Transfer_in_Idle Transfer_in_GetStateIDMSB Transfer_in_GetStateButtonsLSB
  Transfer_in_GetStateButtonsMSB Transfer_in_GetStateRightAxisX Transfer_in_GetStateRightAxisY
  Transfer_in_GetStateLeftAxisX Transfer_in_GetStateLeftAxisY Transfer_in_ConfigModeIDMSB
  Transfer_in_ConfigModeSetMode Transfer_in_UnlockRumbleIDMSB Transfer_in_GetSetRumble1
  Transfer_in_GetSetRumble2 Transfer_in_GetSetRumble3 Transfer_in_GetSetRumble4
  Transfer_in_GetSetRumble5 Transfer_in_GetSetRumble6 Transfer_in_Pad5Bytes Transfer_in_Pad4Bytes
  Transfer_in_Pad3Bytes Transfer_in_Pad2Bytes Transfer_in_Pad1Byte

text \<open>The poll states change nothing but the motors, the legacy flag and the state.\<close>

lemma SetMotorStateForConfigIndex_fields:
  "m_state (SetMotorStateForConfigIndex i v c) = m_state c"
  "m_analog_mode (SetMotorStateForConfigIndex i v c) = m_analog_mode c"
  "m_configuration_mode (SetMotorStateForConfigIndex i v c) = m_configuration_mode c"
  "m_button_state (SetMotorStateForConfigIndex i v c) = m_button_state c"
  "m_axis_state (SetMotorStateForConfigIndex i v c) = m_axis_state c"
  "m_rumble_unlocked (SetMotorStateForConfigIndex i v c) = m_rumble_unlocked c"
  "m_analog_dpad_in_digital_mode (SetMotorStateForConfigIndex i v c) = m_analog_dpad_in_digital_mode c"
  by (simp_all add: SetMotorStateForConfigIndex_def SetMotorState_def)

lemma GetExtraButtonMaskLSB_cong:
  "m_analog_dpad_in_digital_mode c' = m_analog_dpad_in_digital_mode c \<Longrightarrow>
   m_analog_mode c' = m_analog_mode c \<Longrightarrow> m_configuration_mode c' = m_configuration_mode c \<Longrightarrow>
   m_axis_state c' = m_axis_state c \<Longrightarrow> GetExtraButtonMaskLSB c' = GetExtraButtonMaskLSB c"
  by (simp add: GetExtraButtonMaskLSB_def)

lemma GetID_cong:
  "m_analog_mode c' = m_analog_mode c \<Longrightarrow> m_configuration_mode c' = m_configuration_mode c \<Longrightarrow>
   GetID c' = GetID c"
  by (simp add: GetID_def)

lemma GetExtraButtonMaskLSB_keeps:
  "poll_keeps c c' \<Longrightarrow> GetExtraButtonMaskLSB c' = GetExtraButtonMaskLSB c"
  by (simp add: GetExtraButtonMaskLSB_def poll_keeps_def)

lemma poll_keeps_m_state [simp]: "poll_keeps c (c'\<lparr>m_state := st\<rparr>) = poll_keeps c c'"
  by (simp add: poll_keeps_def)

lemma poll_ButtonsLSB:
  "\<exists>c'. Transfer_GetStateButtonsLSB b c =
     (True, ucast (m_button_state c) AND GetExtraButtonMaskLSB c, c') \<and>
     m_state c' = GetStateButtonsMSB \<and> poll_keeps c c'"
proof -
  define c1 where "c1 =
    (if m_rumble_unlocked c then SetMotorStateForConfigIndex 0 b c
     else if b \<ge> 0x40 \<and> b \<le> 0x7F then c\<lparr>m_legacy_rumble_unlocked := True\<rparr>
     else SetMotorState SmallMotor 0 c)"
  have k: "poll_keeps c c1"
    by (simp add: c1_def poll_keeps_def SetMotorState_def SetMotorStateForConfigIndex_fields)
  have t: "Transfer_GetStateButtonsLSB b c =
     (True, ucast (m_button_state c1) AND GetExtraButtonMaskLSB c1, c1\<lparr>m_state := GetStateButtonsMSB\<rparr>)"
    by (simp add: Transfer_GetStateButtonsLSB_def c1_def Let_def)
  have b: "m_button_state c1 = m_button_state c" using k by (simp add: poll_keeps_def)
  show ?thesis
    using k by (simp add: t b GetExtraButtonMaskLSB_keeps [OF k])
qed

lemma poll_ButtonsMSB:
  "\<exists>c'. Transfer_GetStateButtonsMSB b c =
     (m_analog_mode c \<or> m_configuration_mode c, ucast (drop_bit 8 (m_button_state c)), c') \<and>
     m_state c' = (if m_analog_mode c \<or> m_configuration_mode c then GetStateRightAxisX else Idle) \<and>
     poll_keeps c c'"
  by (simp add: Transfer_GetStateButtonsMSB_def Let_def poll_keeps_def SetMotorState_def
      SetMotorStateForConfigIndex_fields)

lemma poll_Axis:
  "\<exists>c'. Transfer_GetStateAxis i a ack nxt b c = (ack, m_axis_state c ! a, c') \<and>
     m_state c' = nxt \<and> poll_keeps c c'"
  by (simp add: Transfer_GetStateAxis_def Let_def poll_keeps_def SetMotorStateForConfigIndex_fields)

lemma poll_keeps_refl: "poll_keeps c c"
  by (simp add: poll_keeps_def)

lemma poll_keeps_trans: "poll_keeps a b \<Longrightarrow> poll_keeps b c \<Longrightarrow> poll_keeps a c"
  by (simp add: poll_keeps_def)

lemma GetID_keeps: "poll_keeps c c' \<Longrightarrow> GetID c' = GetID c"
  by (simp add: GetID_def poll_keeps_def)

lemma TransferFrame_Cons:
  "Transfer b c = (ack, out, c1) \<Longrightarrow>
   TransferFrame (b # bs) c = ((ack, out) # fst (TransferFrame bs c1), snd (TransferFrame bs c1))"
  by (simp add: case_prod_beta)

lemma TransferFrame_append:
  "TransferFrame (xs @ ys) c =
     (fst (TransferFrame xs c) @ fst (TransferFrame ys (snd (TransferFrame xs c))),
      snd (TransferFrame ys (snd (TransferFrame xs c))))"
  by (induction xs arbitrary: c) (simp_all add: case_prod_beta)

text \<open>The two identifier bytes that open a frame, for a command byte that is accepted.\<close>

lemma poll_ID:
  assumes "m_state c = Idle"
  shows "\<exists>c2. TransferFrame (0x42 # b1 # rest) c =
           ((True, ucast (GetID c)) # (True, ucast (drop_bit 8 (GetID c))) #
              fst (TransferFrame rest c2), snd (TransferFrame rest c2)) \<and>
         m_state c2 = GetStateButtonsLSB \<and> poll_keeps c c2"
proof -
  let ?c1 = "c\<lparr>m_state := GetStateIDMSB\<rparr>"
  let ?c2 = "?c1\<lparr>m_state := GetStateButtonsLSB\<rparr>"
  have 1: "Transfer 0x42 c = (True, ucast (GetID c), ?c1)"
    using assms by (simp add: Transfer_in_Idle Transfer_Idle_def)
  have g: "GetID ?c1 = GetID c" by (simp add: GetID_def)
  have 2: "Transfer b1 ?c1 = (True, ucast (drop_bit 8 (GetID c)), ?c2)"
    by (simp add: Transfer_in_GetStateIDMSB ID_STATE_MSB_def g)
  have "TransferFrame (0x42 # b1 # rest) c =
           ((True, ucast (GetID c)) # (True, ucast (drop_bit 8 (GetID c))) #
              fst (TransferFrame rest ?c2), snd (TransferFrame rest ?c2))"
    by (simp only: TransferFrame_Cons [OF 1] TransferFrame_Cons [OF 2] fst_conv snd_conv)
  moreover have "m_state ?c2 = GetStateButtonsLSB" by simp
  moreover have "poll_keeps c ?c2" by (simp add: poll_keeps_def)
  ultimately show ?thesis by blast
qed

lemma poll_buttons:
  assumes "m_state c = GetStateButtonsLSB"
  shows "\<exists>c2. TransferFrame (b2 # b3 # rest) c =
           ((True, ucast (m_button_state c) AND GetExtraButtonMaskLSB c) #
            (m_analog_mode c \<or> m_configuration_mode c, ucast (drop_bit 8 (m_button_state c))) #
              fst (TransferFrame rest c2), snd (TransferFrame rest c2)) \<and>
         m_state c2 = (if m_analog_mode c \<or> m_configuration_mode c then GetStateRightAxisX else Idle) \<and>
         poll_keeps c c2"
proof -
  obtain c1 where 1: "Transfer_GetStateButtonsLSB b2 c =
       (True, ucast (m_button_state c) AND GetExtraButtonMaskLSB c, c1)"
    and s1: "m_state c1 = GetStateButtonsMSB" and k1: "poll_keeps c c1"
    using poll_ButtonsLSB by blast
  obtain c2 where 2: "Transfer_GetStateButtonsMSB b3 c1 =
       (m_analog_mode c1 \<or> m_configuration_mode c1, ucast (drop_bit 8 (m_button_state c1)), c2)"
    and s2: "m_state c2 =
       (if m_analog_mode c1 \<or> m_configuration_mode c1 then GetStateRightAxisX else Idle)"
    and k2: "poll_keeps c1 c2"
    using poll_ButtonsMSB by blast
  have e: "m_analog_mode c1 = m_analog_mode c" "m_configuration_mode c1 = m_configuration_mode c"
    "m_button_state c1 = m_button_state c"
    using k1 by (simp_all add: poll_keeps_def)
  have t1: "Transfer b2 c = (True, ucast (m_button_state c) AND GetExtraButtonMaskLSB c, c1)"
    using assms 1 by (simp add: Transfer_in_GetStateButtonsLSB)
  have t2: "Transfer b3 c1 =
       (m_analog_mode c \<or> m_configuration_mode c, ucast (drop_bit 8 (m_button_state c)), c2)"
    using s1 2 by (simp add: Transfer_in_GetStateButtonsMSB e)
  have "TransferFrame (b2 # b3 # rest) c =
           ((True, ucast (m_button_state c) AND GetExtraButtonMaskLSB c) #
            (m_analog_mode c \<or> m_configuration_mode c, ucast (drop_bit 8 (m_button_state c))) #
              fst (TransferFrame rest c2), snd (TransferFrame rest c2))"
    by (simp only: TransferFrame_Cons [OF t1] TransferFrame_Cons [OF t2] fst_conv snd_conv)
  moreover have "m_state c2 =
      (if m_analog_mode c \<or> m_configuration_mode c then GetStateRightAxisX else Idle)"
    using s2 by (simp add: e)
  moreover have "poll_keeps c c2" using k1 k2 by (rule poll_keeps_trans)
  ultimately show ?thesis by blast
qed

lemma poll_axis_step:
  assumes "Transfer b c = Transfer_GetStateAxis i a ack nxt b c"
  shows "\<exists>c1. TransferFrame (b # rest) c =
           ((ack, m_axis_state c ! a) # fst (TransferFrame rest c1), snd (TransferFrame rest c1)) \<and>
         m_state c1 = nxt \<and> poll_keeps c c1"
proof -
  obtain c1 where 1: "Transfer_GetStateAxis i a ack nxt b c = (ack, m_axis_state c ! a, c1)"
    and s1: "m_state c1 = nxt" and k1: "poll_keeps c c1"
    using poll_Axis by blast
  have t: "Transfer b c = (ack, m_axis_state c ! a, c1)" using assms 1 by simp
  show ?thesis using TransferFrame_Cons [OF t] s1 k1 by blast
qed

lemma poll_axes:
  assumes "m_state c = GetStateRightAxisX"
  shows "\<exists>c4. TransferFrame [b4, b5, b6, b7] c =
           ([(True, m_axis_state c ! Axis_RightX), (True, m_axis_state c ! Axis_RightY),
             (True, m_axis_state c ! Axis_LeftX), (False, m_axis_state c ! Axis_LeftY)], c4) \<and>
         m_state c4 = Idle \<and> poll_keeps c c4"
proof -
  obtain c1 where 1: "TransferFrame [b4, b5, b6, b7] c =
       ((True, m_axis_state c ! Axis_RightX) # fst (TransferFrame [b5, b6, b7] c1),
        snd (TransferFrame [b5, b6, b7] c1))"
    and s1: "m_state c1 = GetStateRightAxisY" and k1: "poll_keeps c c1"
    using poll_axis_step [OF Transfer_in_GetStateRightAxisX [OF assms]] by blast
  obtain c2 where 2: "TransferFrame [b5, b6, b7] c1 =
       ((True, m_axis_state c1 ! Axis_RightY) # fst (TransferFrame [b6, b7] c2),
        snd (TransferFrame [b6, b7] c2))"
    and s2: "m_state c2 = GetStateLeftAxisX" and k2: "poll_keeps c1 c2"
    using poll_axis_step [OF Transfer_in_GetStateRightAxisY [OF s1]] by blast
  obtain c3 where 3: "TransferFrame [b6, b7] c2 =
       ((True, m_axis_state c2 ! Axis_LeftX) # fst (TransferFrame [b7] c3),
        snd (TransferFrame [b7] c3))"
    and s3: "m_state c3 = GetStateLeftAxisY" and k3: "poll_keeps c2 c3"
    using poll_axis_step [OF Transfer_in_GetStateLeftAxisX [OF s2]] by blast
  obtain c4 where 4: "TransferFrame [b7] c3 =
       ((False, m_axis_state c3 ! Axis_LeftY) # fst (TransferFrame [] c4),
        snd (TransferFrame [] c4))"
    and s4: "m_state c4 = Idle" and k4: "poll_keeps c3 c4"
    using poll_axis_step [OF Transfer_in_GetStateLeftAxisY [OF s3]] by blast
  have a: "m_axis_state c1 = m_axis_state c" "m_axis_state c2 = m_axis_state c"
    "m_axis_state c3 = m_axis_state c"
    using k1 k2 k3 by (simp_all add: poll_keeps_def)
  have "TransferFrame [b4, b5, b6, b7] c =
           ([(True, m_axis_state c ! Axis_RightX), (True, m_axis_state c ! Axis_RightY),
             (True, m_axis_state c ! Axis_LeftX), (False, m_axis_state c ! Axis_LeftY)], c4)"
    by (simp add: 1 2 3 4 a del: TransferFrame.simps(2))
  moreover have "poll_keeps c c4"
    using k1 k2 k3 k4 by (blast intro: poll_keeps_trans)
  ultimately show ?thesis using s4 by blast
qed

text \<open>
  C7. A poll frame (command \<open>0x42\<close>) that starts in \<open>Idle\<close> has four bytes when the
  controller is in digital mode and not in configuration mode: the two identifier bytes and
  the two button bytes; it has eight bytes when analog mode or configuration mode is on:
  the same four and the axes RightX, RightY, LeftX, LeftY. Every byte but the last is
  acknowledged, the last one is not, and the controller is back in \<open>Idle\<close>.
\<close>

theorem poll_frame_length:
  assumes "m_state c = Idle"
  shows
    "(\<not> m_analog_mode c \<and> \<not> m_configuration_mode c \<longrightarrow>
        fst (TransferFrame [0x42, b1, b2, b3] c) =
          [(True, ucast (GetID c)), (True, ucast (drop_bit 8 (GetID c))),
           (True, ucast (m_button_state c) AND GetExtraButtonMaskLSB c),
           (False, ucast (drop_bit 8 (m_button_state c)))] \<and>
        m_state (snd (TransferFrame [0x42, b1, b2, b3] c)) = Idle) \<and>
     (m_analog_mode c \<or> m_configuration_mode c \<longrightarrow>
        fst (TransferFrame [0x42, b1, b2, b3, b4, b5, b6, b7] c) =
          [(True, ucast (GetID c)), (True, ucast (drop_bit 8 (GetID c))),
           (True, ucast (m_button_state c) AND GetExtraButtonMaskLSB c),
           (True, ucast (drop_bit 8 (m_button_state c))),
           (True, m_axis_state c ! Axis_RightX), (True, m_axis_state c ! Axis_RightY),
           (True, m_axis_state c ! Axis_LeftX), (False, m_axis_state c ! Axis_LeftY)] \<and>
        m_state (snd (TransferFrame [0x42, b1, b2, b3, b4, b5, b6, b7] c)) = Idle)"
proof (intro conjI impI)
  assume d: "\<not> m_analog_mode c \<and> \<not> m_configuration_mode c"
  obtain c2 where 1: "TransferFrame [0x42, b1, b2, b3] c =
           ((True, ucast (GetID c)) # (True, ucast (drop_bit 8 (GetID c))) #
              fst (TransferFrame [b2, b3] c2), snd (TransferFrame [b2, b3] c2))"
    and s2: "m_state c2 = GetStateButtonsLSB" and k2: "poll_keeps c c2"
    using poll_ID [OF assms] by blast
  obtain c4 where 2: "TransferFrame [b2, b3] c2 =
           ((True, ucast (m_button_state c2) AND GetExtraButtonMaskLSB c2) #
            (m_analog_mode c2 \<or> m_configuration_mode c2, ucast (drop_bit 8 (m_button_state c2))) #
              fst (TransferFrame [] c4), snd (TransferFrame [] c4))"
    and s4: "m_state c4 =
       (if m_analog_mode c2 \<or> m_configuration_mode c2 then GetStateRightAxisX else Idle)"
    using poll_buttons [OF s2] by blast
  have e: "m_analog_mode c2 = m_analog_mode c" "m_configuration_mode c2 = m_configuration_mode c"
    "m_button_state c2 = m_button_state c"
    using k2 by (simp_all add: poll_keeps_def)
  show "fst (TransferFrame [0x42, b1, b2, b3] c) =
          [(True, ucast (GetID c)), (True, ucast (drop_bit 8 (GetID c))),
           (True, ucast (m_button_state c) AND GetExtraButtonMaskLSB c),
           (False, ucast (drop_bit 8 (m_button_state c)))]"
    using d by (simp add: 1 2 e GetExtraButtonMaskLSB_keeps [OF k2] del: TransferFrame.simps(2))
  show "m_state (snd (TransferFrame [0x42, b1, b2, b3] c)) = Idle"
    using d s4 by (simp add: 1 2 e del: TransferFrame.simps(2))
next
  assume d: "m_analog_mode c \<or> m_configuration_mode c"
  obtain c2 where 1: "TransferFrame [0x42, b1, b2, b3, b4, b5, b6, b7] c =
           ((True, ucast (GetID c)) # (True, ucast (drop_bit 8 (GetID c))) #
              fst (TransferFrame [b2, b3, b4, b5, b6, b7] c2),
            snd (TransferFrame [b2, b3, b4, b5, b6, b7] c2))"
    and s2: "m_state c2 = GetStateButtonsLSB" and k2: "poll_keeps c c2"
    using poll_ID [OF assms] by blast
  obtain c4 where 2: "TransferFrame [b2, b3, b4, b5, b6, b7] c2 =
           ((True, ucast (m_button_state c2) AND GetExtraButtonMaskLSB c2) #
            (m_analog_mode c2 \<or> m_configuration_mode c2, ucast (drop_bit 8 (m_button_state c2))) #
              fst (TransferFrame [b4, b5, b6, b7] c4), snd (TransferFrame [b4, b5, b6, b7] c4))"
    and s4: "m_state c4 =
       (if m_analog_mode c2 \<or> m_configuration_mode c2 then GetStateRightAxisX else Idle)"
    and k4: "poll_keeps c2 c4"
    using poll_buttons [OF s2] by blast
  have e: "m_analog_mode c2 = m_analog_mode c" "m_configuration_mode c2 = m_configuration_mode c"
    "m_button_state c2 = m_button_state c"
    using k2 by (simp_all add: poll_keeps_def)
  have s4': "m_state c4 = GetStateRightAxisX" using s4 d by (simp add: e)
  obtain c8 where 3: "TransferFrame [b4, b5, b6, b7] c4 =
           ([(True, m_axis_state c4 ! Axis_RightX), (True, m_axis_state c4 ! Axis_RightY),
             (True, m_axis_state c4 ! Axis_LeftX), (False, m_axis_state c4 ! Axis_LeftY)], c8)"
    and s8: "m_state c8 = Idle"
    using poll_axes [OF s4'] by blast
  have a: "m_axis_state c4 = m_axis_state c"
    using k2 k4 by (simp add: poll_keeps_def)
  show "fst (TransferFrame [0x42, b1, b2, b3, b4, b5, b6, b7] c) =
          [(True, ucast (GetID c)), (True, ucast (drop_bit 8 (GetID c))),
           (True, ucast (m_button_state c) AND GetExtraButtonMaskLSB c),
           (True, ucast (drop_bit 8 (m_button_state c))),
           (True, m_axis_state c ! Axis_RightX), (True, m_axis_state c ! Axis_RightY),
           (True, m_axis_state c ! Axis_LeftX), (False, m_axis_state c ! Axis_LeftY)]"
    using d by (simp add: 1 2 3 e a GetExtraButtonMaskLSB_keeps [OF k2] del: TransferFrame.simps(2))
  show "m_state (snd (TransferFrame [0x42, b1, b2, b3, b4, b5, b6, b7] c)) = Idle"
    using s8 by (simp add: 1 2 3 del: TransferFrame.simps(2))
qed

lemma Reset_eq:
  "Reset g c =
     c\<lparr>m_state := Idle,
       m_analog_mode := (m_force_analog_on_reset c \<and> \<not> g),
       m_configuration_mode := False,
       m_command_param := 0,
       m_motor_state := [0, 0],
       m_legacy_rumble_unlocked := False,
       m_rumble_unlocked := False,
       m_rumble_config := [0xFF, 0xFF, 0xFF, 0xFF, 0xFF, 0xFF],
       m_rumble_config_large_motor_index := - 1,
       m_rumble_config_small_motor_index := - 1,
       host_osd := host_osd c @
          (if m_force_analog_on_reset c
           then (if g then [ForcingDisabledByGameSettings] else [SwitchedToAnalogMode (m_index c + 1)])
           else [])\<rparr>"
  by (simp add: Reset_def ResetRumbleConfig_def SetMotorState_def SetAnalogMode_def Let_def
      NUM_MOTORS_def LargeMotor_def SmallMotor_def numeral_2_eq_2 eval_nat_numeral)

lemma AnalogController_new_eq:
  "AnalogController_new g i =
       \<lparr>m_index = i,
        m_force_analog_on_reset = False,
        m_analog_dpad_in_digital_mode = False,
        m_analog_mode = False,
        m_analog_locked = False,
        m_rumble_unlocked = False,
        m_legacy_rumble_unlocked = False,
        m_configuration_mode = False,
        m_command_param = 0,
        m_button_state = 0xFFFF,
        m_axis_state = [0x80, 0x80, 0x80, 0x80],
        m_rumble_config = [0xFF, 0xFF, 0xFF, 0xFF, 0xFF, 0xFF],
        m_rumble_config_large_motor_index = - 1,
        m_rumble_config_small_motor_index = - 1,
        m_analog_toggle_queued = False,
        m_motor_state = [0, 0],
        m_state = Idle,
        host_osd = []\<rparr>"
  by (simp add: AnalogController_new_def Reset_eq eval_nat_numeral)

text \<open>
  C9. \<open>Reset\<close> leaves \<open>m_analog_locked\<close>, \<open>m_analog_toggle_queued\<close>,
  \<open>m_button_state\<close> and \<open>m_axis_state\<close> as they were. Of the members it writes only
  the state (to \<open>Idle\<close>), the analog and configuration modes, the command parameter, the
  motor intensities and the rumble configuration (the six bytes, the two motor indices and
  the two unlock flags); apart from that it may send a message to the host.
\<close>

theorem Reset_frame:
  "m_analog_locked (Reset g c) = m_analog_locked c \<and>
   m_analog_toggle_queued (Reset g c) = m_analog_toggle_queued c \<and>
   m_button_state (Reset g c) = m_button_state c \<and>
   m_axis_state (Reset g c) = m_axis_state c \<and>
   (\<exists>analog motors legacy unlocked config large small osd.
      Reset g c =
        c\<lparr>m_state := Idle, m_analog_mode := analog, m_configuration_mode := False,
          m_command_param := 0, m_motor_state := motors,
          m_legacy_rumble_unlocked := legacy, m_rumble_unlocked := unlocked,
          m_rumble_config := config, m_rumble_config_large_motor_index := large,
          m_rumble_config_small_motor_index := small, host_osd := osd\<rparr>)"
proof -
  have "\<exists>analog motors legacy unlocked config large small osd.
      Reset g c =
        c\<lparr>m_state := Idle, m_analog_mode := analog, m_configuration_mode := False,
          m_command_param := 0, m_motor_state := motors,
          m_legacy_rumble_unlocked := legacy, m_rumble_unlocked := unlocked,
          m_rumble_config := config, m_rumble_config_large_motor_index := large,
          m_rumble_config_small_motor_index := small, host_osd := osd\<rparr>"
    by (intro exI) (rule Reset_eq)
  moreover have "m_analog_locked (Reset g c) = m_analog_locked c"
    "m_analog_toggle_queued (Reset g c) = m_analog_toggle_queued c"
    "m_button_state (Reset g c) = m_button_state c"
    "m_axis_state (Reset g c) = m_axis_state c"
    by (simp_all add: Reset_eq)
  ultimately show ?thesis by blast
qed

text \<open>
  C10. In \<open>Idle\<close> and outside configuration mode, each of the bytes \<open>0x44\<close>,
  \<open>0x45\<close>, \<open>0x46\<close>, \<open>0x47\<close>, \<open>0x4C\<close>, \<open>0x4D\<close> is answered like an unknown
  byte: \<open>0xFF\<close>, not acknowledged, and the controller is unchanged (it stays in
  \<open>Idle\<close>).
\<close>

theorem config_only_commands_ignored:
  assumes "b \<in> {0x44, 0x45, 0x46, 0x47, 0x4C, 0x4D}"
    and "m_state c = Idle" and "\<not> m_configuration_mode c"
  shows "Transfer b c = (False, 0xFF, c)"
proof -
  have b: "b \<noteq> 0x42" "b \<noteq> 0x43" "b \<noteq> 0x01" using assms(1) by auto
  have "Transfer_Idle b c = (False, 0xFF, c)"
    using assms(3) b unfolding Transfer_Idle_def by simp
  then show ?thesis using assms(2) by (simp add: Transfer_in_Idle)
qed

theorem config_only_commands_ignored_witness:
  "(0x4D :: u8) \<in> {0x44, 0x45, 0x46, 0x47, 0x4C, 0x4D} \<and>
   m_state (AnalogController_new False 0) = Idle \<and>
   \<not> m_configuration_mode (AnalogController_new False 0) \<and>
   Transfer 0x4D (AnalogController_new False 0) = (False, 0xFF, AnalogController_new False 0)"
proof -
  have 1: "(0x4D :: u8) \<in> {0x44, 0x45, 0x46, 0x47, 0x4C, 0x4D}" by simp
  have 2: "m_state (AnalogController_new False 0) = Idle"
    by (simp add: AnalogController_new_eq)
  have 3: "\<not> m_configuration_mode (AnalogController_new False 0)"
    by (simp add: AnalogController_new_eq)
  show ?thesis using config_only_commands_ignored [OF 1 2 3] 1 2 3 by simp
qed

theorem Reset_frame_witness:
  "m_button_state (Reset False ((AnalogController_new False 0)\<lparr>m_button_state := 0xBFFF, m_analog_locked := True, m_state := Pad1Byte\<rparr>)) = 0xBFFF \<and>
   m_analog_locked (Reset False ((AnalogController_new False 0)\<lparr>m_button_state := 0xBFFF, m_analog_locked := True, m_state := Pad1Byte\<rparr>))"
  using Reset_frame [of False "(AnalogController_new False 0)\<lparr>m_button_state := 0xBFFF, m_analog_locked := True, m_state := Pad1Byte\<rparr>"]
  by simp

theorem poll_frame_length_witness:
  "m_state (AnalogController_new False 0) = Idle \<and>
   fst (TransferFrame [0x42, 0, 0, 0] (AnalogController_new False 0)) =
     [(True, 0x41), (True, 0x5A), (True, 0xFF), (False, 0xFF)] \<and>
   m_state (snd (TransferFrame [0x42, 0, 0, 0] (AnalogController_new False 0))) = Idle \<and>
   m_state (SetAnalogMode True (AnalogController_new False 0)) = Idle \<and>
   fst (TransferFrame [0x42, 0, 0, 0, 0, 0, 0, 0] (SetAnalogMode True (AnalogController_new False 0))) =
     [(True, 0x73), (True, 0x5A), (True, 0xFF), (True, 0xFF),
      (True, 0x80), (True, 0x80), (True, 0x80), (False, 0x80)] \<and>
   m_state (snd (TransferFrame [0x42, 0, 0, 0, 0, 0, 0, 0]
      (SetAnalogMode True (AnalogController_new False 0)))) = Idle"
proof -
  have 1: "m_state (AnalogController_new False 0) = Idle"
    by (simp add: AnalogController_new_eq)
  have 2: "m_state (SetAnalogMode True (AnalogController_new False 0)) = Idle"
    by (simp add: AnalogController_new_eq SetAnalogMode_def)
  show ?thesis
    using poll_frame_length [OF 1, of 0 0 0] poll_frame_length [OF 2, of 0 0 0 0 0 0 0] 1 2
    by (simp add: AnalogController_new_eq SetAnalogMode_def GetID_def GetExtraButtonMaskLSB_def
        Axis_RightX_def Axis_RightY_def Axis_LeftX_def Axis_LeftY_def
        del: TransferFrame.simps(2))
qed

lemma GetID_MSB: "ucast (drop_bit 8 (GetID c)) = (0x5A :: u8)"
  by (simp add: GetID_def)

lemma Transfer_Idle_unknown:
  assumes "m_state c = Idle" "\<not> m_configuration_mode c" "b \<noteq> 0x42" "b \<noteq> 0x43"
  shows "Transfer b c = (b = 0x01, 0xFF, c)"
  using assms by (simp add: Transfer_in_Idle Transfer_Idle_def)

lemma rumble_cycle_outside_config:
  assumes "m_state c = Idle" "\<not> m_configuration_mode c"
  shows "snd (TransferFrame rumble_cycle c) = c"
  using assms by (simp add: rumble_cycle_def Transfer_Idle_unknown)

lemma fill6:
  "length xs = 6 \<Longrightarrow> xs[0 := v, Suc 0 := v, 2 := v, 3 := v, 4 := v, 5 := v] = replicate 6 v"
  by (auto simp add: length_Suc_conv eval_nat_numeral)

lemma rumble_config_store_other:
  "b \<noteq> 0x00 \<Longrightarrow> b \<noteq> 0x01 \<Longrightarrow>
   rumble_config_store i b c = c\<lparr>m_rumble_config := (m_rumble_config c)[i := b]\<rparr>"
  by (simp add: rumble_config_store_def)

lemma rumble_cycle_in_config:
  assumes "m_state c = Idle" "m_configuration_mode c"
  shows "snd (TransferFrame rumble_cycle c) =
     c\<lparr>m_rumble_unlocked := False,
       m_rumble_config_large_motor_index := - 1,
       m_rumble_config_small_motor_index := - 1,
       m_rumble_config := (m_rumble_config c)[0 := 0xFF, 1 := 0xFF, 2 := 0xFF, 3 := 0xFF, 4 := 0xFF, 5 := 0xFF],
       m_motor_state := (m_motor_state c)[LargeMotor := 0, SmallMotor := 0]\<rparr>"
  using assms
  by (simp add: rumble_cycle_def Transfer_in Transfer_Idle_def ID_STATE_MSB_def
      REPLY_RUMBLE_CONFIG_def Transfer_GetSetRumble6_def rumble_config_store_other
      SetMotorState_def Let_def)

lemma rumble_cycle_clears:
  assumes "m_state c = Idle" "m_configuration_mode c" "length (m_rumble_config c) = 6"
  shows "rumble_cleared (snd (TransferFrame rumble_cycle c))"
    and "m_state (snd (TransferFrame rumble_cycle c)) = Idle"
    and "m_configuration_mode (snd (TransferFrame rumble_cycle c))"
    and "length (m_rumble_config (snd (TransferFrame rumble_cycle c))) = 6"
  using assms
  by (simp_all add: rumble_cycle_in_config rumble_cleared_def fill6)

lemma six_cycles:
  "concat (replicate 6 rumble_cycle) =
     rumble_cycle @ rumble_cycle @ rumble_cycle @ rumble_cycle @ rumble_cycle @ rumble_cycle"
  by (simp add: eval_nat_numeral)

lemma snd_TransferFrame_append:
  "snd (TransferFrame (xs @ ys) c) = snd (TransferFrame ys (snd (TransferFrame xs c)))"
  by (simp add: TransferFrame_append)

lemma six_cycles_in_config:
  assumes "m_state c = Idle" "m_configuration_mode c" "length (m_rumble_config c) = 6"
  shows "rumble_cleared (snd (TransferFrame (concat (replicate 6 rumble_cycle)) c))"
proof -
  define c1 where "c1 = snd (TransferFrame rumble_cycle c)"
  define c2 where "c2 = snd (TransferFrame rumble_cycle c1)"
  define c3 where "c3 = snd (TransferFrame rumble_cycle c2)"
  define c4 where "c4 = snd (TransferFrame rumble_cycle c3)"
  define c5 where "c5 = snd (TransferFrame rumble_cycle c4)"
  have 1: "m_state c1 = Idle" "m_configuration_mode c1" "length (m_rumble_config c1) = 6"
    unfolding c1_def by (rule rumble_cycle_clears [OF assms])+
  have 2: "m_state c2 = Idle" "m_configuration_mode c2" "length (m_rumble_config c2) = 6"
    unfolding c2_def by (rule rumble_cycle_clears [OF 1])+
  have 3: "m_state c3 = Idle" "m_configuration_mode c3" "length (m_rumble_config c3) = 6"
    unfolding c3_def by (rule rumble_cycle_clears [OF 2])+
  have 4: "m_state c4 = Idle" "m_configuration_mode c4" "length (m_rumble_config c4) = 6"
    unfolding c4_def by (rule rumble_cycle_clears [OF 3])+
  have 5: "m_state c5 = Idle" "m_configuration_mode c5" "length (m_rumble_config c5) = 6"
    unfolding c5_def by (rule rumble_cycle_clears [OF 4])+
  have "snd (TransferFrame (concat (replicate 6 rumble_cycle)) c) =
        snd (TransferFrame rumble_cycle c5)"
    by (simp only: six_cycles snd_TransferFrame_append c1_def c2_def c3_def c4_def c5_def)
  then show ?thesis using rumble_cycle_clears(1) [OF 5] by simp
qed

lemma six_cycles_outside_config:
  assumes "m_state c = Idle" "\<not> m_configuration_mode c"
  shows "snd (TransferFrame (concat (replicate 6 rumble_cycle)) c) = c"
proof -
  have e: "snd (TransferFrame rumble_cycle c) = c"
    using assms by (rule rumble_cycle_outside_config)
  show ?thesis
    by (simp only: six_cycles snd_TransferFrame_append e)
qed

lemma Reset_rumble_cleared: "rumble_cleared (Reset g c)"
  by (simp add: Reset_eq rumble_cleared_def eval_nat_numeral)

lemma GetSetRumble6_clears:
  "\<exists>c'. Transfer_GetSetRumble6 b c = (False, m_rumble_config c ! 5, c') \<and> m_state c' = Idle \<and>
     (m_rumble_config_large_motor_index c' = - 1 \<and> m_rumble_config_small_motor_index c' = - 1
        \<longrightarrow> \<not> m_rumble_unlocked c')"
  by (simp add: Transfer_GetSetRumble6_def Let_def SetMotorState_def rumble_config_store_def)

lemma rumble_store_state:
  "m_state (rumble_config_store i b c) = m_state c"
  by (simp add: rumble_config_store_def Let_def)

lemma unlock_frame_reaches_GetSetRumble6:
  assumes "m_state c = Idle" "m_configuration_mode c"
  shows "m_state (snd (TransferFrame [0x4D, b1, p0, p1, p2, p3, p4] c)) = GetSetRumble6"
  using assms
  by (simp add: Transfer_in Transfer_Idle_def ID_STATE_MSB_def REPLY_RUMBLE_CONFIG_def
      rumble_store_state Let_def)

text \<open>
  C8. From the state after \<open>Reset\<close>, six \<open>0x4D\<close> cycles with payload bytes \<open>0xFF\<close>
  leave the rumble configuration at six \<open>0xFF\<close> bytes, both motor indices at \<open>-1\<close>
  and \<open>m_rumble_unlocked\<close> false. (After \<open>Reset\<close> the controller is not in
  configuration mode, so it ignores the command; the same holds when the cycles run in
  configuration mode, where the command is carried out.) Any \<open>0x4D\<close> frame
  that is carried out ends in \<open>GetSetRumble6\<close>, whose step clears
  \<open>m_rumble_unlocked\<close> when both motor indices are \<open>-1\<close> after it.
\<close>

theorem rumble_unlock_cycles:
  "rumble_cleared (snd (TransferFrame (concat (replicate 6 rumble_cycle)) (Reset g c0))) \<and>
   (m_state c = Idle \<and> m_configuration_mode c \<and> length (m_rumble_config c) = 6 \<longrightarrow>
      rumble_cleared (snd (TransferFrame (concat (replicate 6 rumble_cycle)) c))) \<and>
   (m_state c = Idle \<and> m_configuration_mode c \<longrightarrow>
      (let c' = snd (TransferFrame ([0x4D, b1, p0, p1, p2, p3, p4] @ [p5]) c)
       in m_state c' = Idle \<and>
          (m_rumble_config_large_motor_index c' = - 1 \<and>
           m_rumble_config_small_motor_index c' = - 1 \<longrightarrow> \<not> m_rumble_unlocked c')))"
proof (intro conjI impI)
  have r: "m_state (Reset g c0) = Idle" "\<not> m_configuration_mode (Reset g c0)"
    by (simp_all add: Reset_eq)
  show "rumble_cleared (snd (TransferFrame (concat (replicate 6 rumble_cycle)) (Reset g c0)))"
    by (simp only: six_cycles_outside_config [OF r] Reset_rumble_cleared)
next
  assume "m_state c = Idle \<and> m_configuration_mode c \<and> length (m_rumble_config c) = 6"
  then show "rumble_cleared (snd (TransferFrame (concat (replicate 6 rumble_cycle)) c))"
    by (simp add: six_cycles_in_config)
next
  assume a: "m_state c = Idle \<and> m_configuration_mode c"
  define c7 where "c7 = snd (TransferFrame [0x4D, b1, p0, p1, p2, p3, p4] c)"
  have s7: "m_state c7 = GetSetRumble6"
    unfolding c7_def using a by (simp only: unlock_frame_reaches_GetSetRumble6)
  obtain c' where t: "Transfer_GetSetRumble6 p5 c7 = (False, m_rumble_config c7 ! 5, c')"
    and i: "m_state c' = Idle"
    and u: "m_rumble_config_large_motor_index c' = - 1 \<and>
            m_rumble_config_small_motor_index c' = - 1 \<longrightarrow> \<not> m_rumble_unlocked c'"
    using GetSetRumble6_clears by blast
  have "snd (TransferFrame ([0x4D, b1, p0, p1, p2, p3, p4] @ [p5]) c) = c'"
    by (simp only: snd_TransferFrame_append c7_def [symmetric])
       (simp add: Transfer_in_GetSetRumble6 [OF s7] t)
  then show "let c' = snd (TransferFrame ([0x4D, b1, p0, p1, p2, p3, p4] @ [p5]) c)
       in m_state c' = Idle \<and>
          (m_rumble_config_large_motor_index c' = - 1 \<and>
           m_rumble_config_small_motor_index c' = - 1 \<longrightarrow> \<not> m_rumble_unlocked c')"
    using i u by (simp add: Let_def)
qed

text \<open>
  The witness runs the six cycles from the constructed controller once it has entered
  configuration mode, where each cycle really rewrites the rumble configuration.
\<close>

theorem rumble_unlock_cycles_witness:
  "m_state ((AnalogController_new False 0)\<lparr>m_configuration_mode := True\<rparr>) = Idle \<and>
   m_configuration_mode ((AnalogController_new False 0)\<lparr>m_configuration_mode := True\<rparr>) \<and>
   length (m_rumble_config ((AnalogController_new False 0)\<lparr>m_configuration_mode := True\<rparr>)) = 6 \<and>
   rumble_cleared (snd (TransferFrame (concat (replicate 6 rumble_cycle))
      ((AnalogController_new False 0)\<lparr>m_configuration_mode := True\<rparr>))) \<and>
   rumble_cleared (snd (TransferFrame (concat (replicate 6 rumble_cycle))
      (Reset False (AnalogController_new False 0)))) \<and>
   \<not> m_rumble_unlocked (snd (TransferFrame ([0x4D, 0, 0xFF, 0xFF, 0xFF, 0xFF, 0xFF] @ [0xFF])
      ((AnalogController_new False 0)\<lparr>m_configuration_mode := True\<rparr>)))"
proof -
  let ?c = "(AnalogController_new False 0)\<lparr>m_configuration_mode := True\<rparr>"
  have h: "m_state ?c = Idle" "m_configuration_mode ?c" "length (m_rumble_config ?c) = 6"
    by (simp_all add: AnalogController_new_eq)
  have e: "snd (TransferFrame ([0x4D, 0, 0xFF, 0xFF, 0xFF, 0xFF, 0xFF] @ [0xFF]) ?c) =
      ?c\<lparr>m_rumble_unlocked := False, m_rumble_config_large_motor_index := - 1,
         m_rumble_config_small_motor_index := - 1\<rparr>"
    by (simp add: AnalogController_new_eq Transfer_in Transfer_Idle_def ID_STATE_MSB_def
        REPLY_RUMBLE_CONFIG_def Transfer_GetSetRumble6_def rumble_config_store_other
        SetMotorState_def Let_def LargeMotor_def SmallMotor_def)
  show ?thesis
    using rumble_unlock_cycles [of False "AnalogController_new False 0" ?c 0 "0xFF" "0xFF" "0xFF"
        "0xFF" "0xFF" "0xFF"] h
    by (simp add: Let_def e del: TransferFrame.simps(2) append.simps)
qed

lemma config_ID:
  assumes "m_state c = Idle"
  shows "TransferFrame (0x43 # b1 # m # rest) c =
           ((True, ucast (GetID c)) # (True, 0x5A) #
            (True, if m_configuration_mode c then 0x00 else ucast (m_button_state c)) #
              fst (TransferFrame rest
                (c\<lparr>m_configuration_mode := (m = 1),
                   m_state := (if m_configuration_mode c then Pad5Bytes else GetStateButtonsMSB)\<rparr>)),
            snd (TransferFrame rest
                (c\<lparr>m_configuration_mode := (m = 1),
                   m_state := (if m_configuration_mode c then Pad5Bytes else GetStateButtonsMSB)\<rparr>)))"
proof -
  let ?c1 = "c\<lparr>m_state := ConfigModeIDMSB\<rparr>"
  let ?c2 = "c\<lparr>m_state := ConfigModeSetMode\<rparr>"
  let ?c3 = "c\<lparr>m_configuration_mode := (m = 1),
                   m_state := (if m_configuration_mode c then Pad5Bytes else GetStateButtonsMSB)\<rparr>"
  have 1: "Transfer 0x43 c = (True, ucast (GetID c), ?c1)"
    using assms by (simp add: Transfer_in_Idle Transfer_Idle_def)
  have 2: "Transfer b1 ?c1 = (True, 0x5A, ?c2)"
    by (simp add: Transfer_in_ConfigModeIDMSB ID_STATE_MSB_def GetID_MSB)
  have 3: "Transfer m ?c2 =
      (True, if m_configuration_mode c then 0x00 else ucast (m_button_state c), ?c3)"
    by (simp add: Transfer_in_ConfigModeSetMode Transfer_ConfigModeSetMode_def Let_def)
  show ?thesis
    by (simp only: TransferFrame_Cons [OF 1] TransferFrame_Cons [OF 2] TransferFrame_Cons [OF 3]
        fst_conv snd_conv)
qed

lemma pad5:
  assumes "m_state c = Pad5Bytes"
  shows "TransferFrame [p1, p2, p3, p4, p5] c =
     ([(True, 0x00), (True, 0x00), (True, 0x00), (True, 0x00), (False, 0x00)], c\<lparr>m_state := Idle\<rparr>)"
  using assms by (simp add: Transfer_in FIXED_REPLY_STATE_def)

text \<open>
  C6, as the code has it. In a \<open>0x43\<close> frame the byte after the two identifier bytes
  is \<open>0x00\<close> if the controller was in configuration mode and the low byte of the button
  mask otherwise. Only in the first case is the rest of the frame five pad bytes \<open>0x00\<close>
  (acknowledged but for the last). In the second case the frame goes on as a poll frame:
  the high byte of the button mask and, when analog mode or the configuration mode just
  set is on, the axes RightX, RightY, LeftX, LeftY. So the frame
  \<open>01 43 00 01 00 00 00 00\<close> sent in digital mode is answered with
  \<open>FF 41 5A\<close>, the two button bytes and the axes RightX, RightY, LeftX, every byte
  acknowledged, and leaves the controller in configuration mode.
\<close>

theorem config_mode_frame:
  assumes "m_state c = Idle"
  shows
    "(m_configuration_mode c \<longrightarrow>
        TransferFrame [0x43, b1, m, p1, p2, p3, p4, p5] c =
          ([(True, 0xF3), (True, 0x5A), (True, 0x00),
            (True, 0x00), (True, 0x00), (True, 0x00), (True, 0x00), (False, 0x00)],
           c\<lparr>m_configuration_mode := (m = 1), m_state := Idle\<rparr>)) \<and>
     (\<not> m_configuration_mode c \<longrightarrow>
        fst (TransferFrame [0x43, b1, m, p1] c) =
          [(True, ucast (GetID c)), (True, 0x5A), (True, ucast (m_button_state c)),
           (m_analog_mode c \<or> m = 1, ucast (drop_bit 8 (m_button_state c)))] \<and>
        m_configuration_mode (snd (TransferFrame [0x43, b1, m, p1] c)) = (m = 1) \<and>
        m_state (snd (TransferFrame [0x43, b1, m, p1] c)) =
          (if m_analog_mode c \<or> m = 1 then GetStateRightAxisX else Idle)) \<and>
     (\<not> m_configuration_mode c \<and> (m_analog_mode c \<or> m = 1) \<longrightarrow>
        fst (TransferFrame ([0x43, b1, m, p1] @ [p2, p3, p4, p5]) c) =
          [(True, ucast (GetID c)), (True, 0x5A), (True, ucast (m_button_state c)),
           (True, ucast (drop_bit 8 (m_button_state c))),
           (True, m_axis_state c ! Axis_RightX), (True, m_axis_state c ! Axis_RightY),
           (True, m_axis_state c ! Axis_LeftX), (False, m_axis_state c ! Axis_LeftY)] \<and>
        m_state (snd (TransferFrame ([0x43, b1, m, p1] @ [p2, p3, p4, p5]) c)) = Idle) \<and>
     (\<not> m_configuration_mode c \<and> \<not> m_analog_mode c \<longrightarrow>
        fst (TransferFrame (0x01 # [0x43, 0x00, 0x01, 0x00] @ [0x00, 0x00, 0x00]) c) =
          [(True, 0xFF), (True, 0x41), (True, 0x5A), (True, ucast (m_button_state c)),
           (True, ucast (drop_bit 8 (m_button_state c))),
           (True, m_axis_state c ! Axis_RightX), (True, m_axis_state c ! Axis_RightY),
           (True, m_axis_state c ! Axis_LeftX)] \<and>
        m_configuration_mode
          (snd (TransferFrame (0x01 # [0x43, 0x00, 0x01, 0x00] @ [0x00, 0x00, 0x00]) c)) \<and>
        m_state (snd (TransferFrame (0x01 # [0x43, 0x00, 0x01, 0x00] @ [0x00, 0x00, 0x00]) c)) =
          GetStateLeftAxisY)"
proof -
  have A: "m_configuration_mode c \<Longrightarrow>
        TransferFrame [0x43, b1, m, p1, p2, p3, p4, p5] c =
          ([(True, 0xF3), (True, 0x5A), (True, 0x00),
            (True, 0x00), (True, 0x00), (True, 0x00), (True, 0x00), (False, 0x00)],
           c\<lparr>m_configuration_mode := (m = 1), m_state := Idle\<rparr>)"
    by (simp add: config_ID [OF assms] pad5 GetID_def del: TransferFrame.simps(2))
  have B: "\<exists>c4. TransferFrame [0x43, b1, m, p1] c =
          ([(True, ucast (GetID c)), (True, 0x5A), (True, ucast (m_button_state c)),
           (m_analog_mode c \<or> m = 1, ucast (drop_bit 8 (m_button_state c)))], c4) \<and>
        m_configuration_mode c4 = (m = 1) \<and> m_axis_state c4 = m_axis_state c \<and>
        m_state c4 = (if m_analog_mode c \<or> m = 1 then GetStateRightAxisX else Idle)"
    if n: "\<not> m_configuration_mode c" for b1 m p1
  proof -
    let ?c3 = "c\<lparr>m_configuration_mode := (m = 1), m_state := GetStateButtonsMSB\<rparr>"
    obtain c4 where 4: "Transfer_GetStateButtonsMSB p1 ?c3 =
       (m_analog_mode ?c3 \<or> m_configuration_mode ?c3, ucast (drop_bit 8 (m_button_state ?c3)), c4)"
      and s4: "m_state c4 =
         (if m_analog_mode ?c3 \<or> m_configuration_mode ?c3 then GetStateRightAxisX else Idle)"
      and k4: "poll_keeps ?c3 c4"
      using poll_ButtonsMSB by blast
    have t: "Transfer p1 ?c3 =
       (m_analog_mode c \<or> m = 1, ucast (drop_bit 8 (m_button_state c)), c4)"
      using 4 by (simp add: Transfer_in_GetStateButtonsMSB)
    have "TransferFrame [0x43, b1, m, p1] c =
          ([(True, ucast (GetID c)), (True, 0x5A), (True, ucast (m_button_state c)),
           (m_analog_mode c \<or> m = 1, ucast (drop_bit 8 (m_button_state c)))], c4)"
      using n by (simp add: config_ID [OF assms] TransferFrame_Cons [OF t] del: TransferFrame.simps(2))
    moreover have "m_configuration_mode c4 = (m = 1)" "m_axis_state c4 = m_axis_state c"
      using k4 by (simp_all add: poll_keeps_def)
    moreover have "m_state c4 = (if m_analog_mode c \<or> m = 1 then GetStateRightAxisX else Idle)"
      using s4 by simp
    ultimately show ?thesis by blast
  qed
  have C: "\<exists>c8. TransferFrame ([0x43, b1, m, p1] @ [p2, p3, p4, p5]) c =
          ([(True, ucast (GetID c)), (True, 0x5A), (True, ucast (m_button_state c)),
           (True, ucast (drop_bit 8 (m_button_state c))),
           (True, m_axis_state c ! Axis_RightX), (True, m_axis_state c ! Axis_RightY),
           (True, m_axis_state c ! Axis_LeftX), (False, m_axis_state c ! Axis_LeftY)], c8) \<and>
        m_state c8 = Idle"
    if n: "\<not> m_configuration_mode c" and a: "m_analog_mode c \<or> m = 1"
  proof -
    obtain c4 where 4: "TransferFrame [0x43, b1, m, p1] c =
          ([(True, ucast (GetID c)), (True, 0x5A), (True, ucast (m_button_state c)),
           (m_analog_mode c \<or> m = 1, ucast (drop_bit 8 (m_button_state c)))], c4)"
      and x4: "m_axis_state c4 = m_axis_state c"
      and s4: "m_state c4 = (if m_analog_mode c \<or> m = 1 then GetStateRightAxisX else Idle)"
      using B [OF n] by blast
    have s4': "m_state c4 = GetStateRightAxisX" using s4 a by simp
    obtain c8 where 8: "TransferFrame [p2, p3, p4, p5] c4 =
           ([(True, m_axis_state c4 ! Axis_RightX), (True, m_axis_state c4 ! Axis_RightY),
             (True, m_axis_state c4 ! Axis_LeftX), (False, m_axis_state c4 ! Axis_LeftY)], c8)"
      and s8: "m_state c8 = Idle"
      using poll_axes [OF s4'] by blast
    have "TransferFrame ([0x43, b1, m, p1] @ [p2, p3, p4, p5]) c =
          ([(True, ucast (GetID c)), (True, 0x5A), (True, ucast (m_button_state c)),
           (m_analog_mode c \<or> m = 1, ucast (drop_bit 8 (m_button_state c)))] @
           [(True, m_axis_state c4 ! Axis_RightX), (True, m_axis_state c4 ! Axis_RightY),
             (True, m_axis_state c4 ! Axis_LeftX), (False, m_axis_state c4 ! Axis_LeftY)], c8)"
      by (simp only: TransferFrame_append 4 8 fst_conv snd_conv)
    moreover have "[(True, ucast (GetID c)), (True, 0x5A), (True, ucast (m_button_state c)),
           (m_analog_mode c \<or> m = 1, ucast (drop_bit 8 (m_button_state c)))] @
           [(True, m_axis_state c4 ! Axis_RightX), (True, m_axis_state c4 ! Axis_RightY),
             (True, m_axis_state c4 ! Axis_LeftX), (False, m_axis_state c4 ! Axis_LeftY)] =
          [(True, ucast (GetID c)), (True, 0x5A), (True, ucast (m_button_state c)),
           (True, ucast (drop_bit 8 (m_button_state c))),
           (True, m_axis_state c ! Axis_RightX), (True, m_axis_state c ! Axis_RightY),
           (True, m_axis_state c ! Axis_LeftX), (False, m_axis_state c ! Axis_LeftY)]"
      using a by (simp add: x4)
    ultimately show ?thesis
      using s8 by (intro exI [of _ c8]) (simp only: simp_thms)
  qed
  have D: "fst (TransferFrame (0x01 # [0x43, 0x00, 0x01, 0x00] @ [0x00, 0x00, 0x00]) c) =
          [(True, 0xFF), (True, 0x41), (True, 0x5A), (True, ucast (m_button_state c)),
           (True, ucast (drop_bit 8 (m_button_state c))),
           (True, m_axis_state c ! Axis_RightX), (True, m_axis_state c ! Axis_RightY),
           (True, m_axis_state c ! Axis_LeftX)] \<and>
        m_configuration_mode
          (snd (TransferFrame (0x01 # [0x43, 0x00, 0x01, 0x00] @ [0x00, 0x00, 0x00]) c)) \<and>
        m_state (snd (TransferFrame (0x01 # [0x43, 0x00, 0x01, 0x00] @ [0x00, 0x00, 0x00]) c)) =
          GetStateLeftAxisY"
    if n: "\<not> m_configuration_mode c" and d: "\<not> m_analog_mode c"
  proof -
    have 0: "Transfer 0x01 c = (True, 0xFF, c)"
      using assms n by (simp add: Transfer_Idle_unknown)
    obtain c4 where 4: "TransferFrame [0x43, 0x00, 0x01, 0x00] c =
          ([(True, ucast (GetID c)), (True, 0x5A), (True, ucast (m_button_state c)),
           (m_analog_mode c \<or> (1 :: u8) = 1, ucast (drop_bit 8 (m_button_state c)))], c4)"
      and m4: "m_configuration_mode c4 = ((1 :: u8) = 1)"
      and x4: "m_axis_state c4 = m_axis_state c"
      and s4: "m_state c4 = (if m_analog_mode c \<or> (1 :: u8) = 1 then GetStateRightAxisX else Idle)"
      using B [OF n, of 0 1 0] by blast
    have s4': "m_state c4 = GetStateRightAxisX" using s4 by simp
    obtain c5 where 5: "TransferFrame [0x00, 0x00, 0x00] c4 =
       ((True, m_axis_state c4 ! Axis_RightX) # fst (TransferFrame [0x00, 0x00] c5),
        snd (TransferFrame [0x00, 0x00] c5))"
      and s5: "m_state c5 = GetStateRightAxisY" and k5: "poll_keeps c4 c5"
      using poll_axis_step [OF Transfer_in_GetStateRightAxisX [OF s4']] by blast
    obtain c6 where 6: "TransferFrame [0x00, 0x00] c5 =
       ((True, m_axis_state c5 ! Axis_RightY) # fst (TransferFrame [0x00] c6),
        snd (TransferFrame [0x00] c6))"
      and s6: "m_state c6 = GetStateLeftAxisX" and k6: "poll_keeps c5 c6"
      using poll_axis_step [OF Transfer_in_GetStateRightAxisY [OF s5]] by blast
    obtain c7 where 7: "TransferFrame [0x00] c6 =
       ((True, m_axis_state c6 ! Axis_LeftX) # fst (TransferFrame [] c7),
        snd (TransferFrame [] c7))"
      and s7: "m_state c7 = GetStateLeftAxisY" and k7: "poll_keeps c6 c7"
      using poll_axis_step [OF Transfer_in_GetStateLeftAxisX [OF s6]] by blast
    have x: "m_axis_state c5 = m_axis_state c" "m_axis_state c6 = m_axis_state c"
      "m_configuration_mode c7"
      using k5 k6 k7 x4 m4 by (simp_all add: poll_keeps_def)
    have "TransferFrame (0x01 # [0x43, 0x00, 0x01, 0x00] @ [0x00, 0x00, 0x00]) c =
         ((True, 0xFF) #
          [(True, ucast (GetID c)), (True, 0x5A), (True, ucast (m_button_state c)),
           (m_analog_mode c \<or> (1 :: u8) = 1, ucast (drop_bit 8 (m_button_state c)))] @
          [(True, m_axis_state c4 ! Axis_RightX), (True, m_axis_state c5 ! Axis_RightY),
           (True, m_axis_state c6 ! Axis_LeftX)], c7)"
      by (simp only: TransferFrame_Cons [OF 0] TransferFrame_append 4 5 6 7 fst_conv snd_conv
          TransferFrame.simps(1))
    moreover have "(True, 0xFF) #
          [(True, ucast (GetID c)), (True, 0x5A), (True, ucast (m_button_state c)),
           (m_analog_mode c \<or> (1 :: u8) = 1, ucast (drop_bit 8 (m_button_state c)))] @
          [(True, m_axis_state c4 ! Axis_RightX), (True, m_axis_state c5 ! Axis_RightY),
           (True, m_axis_state c6 ! Axis_LeftX)] =
          [(True, 0xFF), (True, 0x41), (True, 0x5A), (True, ucast (m_button_state c)),
           (True, ucast (drop_bit 8 (m_button_state c))),
           (True, m_axis_state c ! Axis_RightX), (True, m_axis_state c ! Axis_RightY),
           (True, m_axis_state c ! Axis_LeftX)]"
      using n d by (simp add: x x4 GetID_def)
    ultimately have "TransferFrame (0x01 # [0x43, 0x00, 0x01, 0x00] @ [0x00, 0x00, 0x00]) c =
         ([(True, 0xFF), (True, 0x41), (True, 0x5A), (True, ucast (m_button_state c)),
           (True, ucast (drop_bit 8 (m_button_state c))),
           (True, m_axis_state c ! Axis_RightX), (True, m_axis_state c ! Axis_RightY),
           (True, m_axis_state c ! Axis_LeftX)], c7)"
      by (simp only:)
    then show ?thesis using x(3) s7 by (simp only: fst_conv snd_conv simp_thms)
  qed
  show ?thesis
  proof (intro conjI impI)
    assume "m_configuration_mode c"
    then show "TransferFrame [0x43, b1, m, p1, p2, p3, p4, p5] c =
          ([(True, 0xF3), (True, 0x5A), (True, 0x00),
            (True, 0x00), (True, 0x00), (True, 0x00), (True, 0x00), (False, 0x00)],
           c\<lparr>m_configuration_mode := (m = 1), m_state := Idle\<rparr>)"
      by (rule A)
  next
    assume n: "\<not> m_configuration_mode c"
    obtain c4 where 4: "TransferFrame [0x43, b1, m, p1] c =
          ([(True, ucast (GetID c)), (True, 0x5A), (True, ucast (m_button_state c)),
           (m_analog_mode c \<or> m = 1, ucast (drop_bit 8 (m_button_state c)))], c4)"
      and m4: "m_configuration_mode c4 = (m = 1)"
      and s4: "m_state c4 = (if m_analog_mode c \<or> m = 1 then GetStateRightAxisX else Idle)"
      using B [OF n, of b1 m p1] by blast
    show "fst (TransferFrame [0x43, b1, m, p1] c) =
          [(True, ucast (GetID c)), (True, 0x5A), (True, ucast (m_button_state c)),
           (m_analog_mode c \<or> m = 1, ucast (drop_bit 8 (m_button_state c)))]"
      by (simp only: 4 fst_conv)
    show "m_configuration_mode (snd (TransferFrame [0x43, b1, m, p1] c)) = (m = 1)"
      by (simp only: 4 snd_conv m4)
    show "m_state (snd (TransferFrame [0x43, b1, m, p1] c)) =
          (if m_analog_mode c \<or> m = 1 then GetStateRightAxisX else Idle)"
      by (simp only: 4 snd_conv s4)
  next
    assume a: "\<not> m_configuration_mode c \<and> (m_analog_mode c \<or> m = 1)"
    obtain c8 where 8: "TransferFrame ([0x43, b1, m, p1] @ [p2, p3, p4, p5]) c =
          ([(True, ucast (GetID c)), (True, 0x5A), (True, ucast (m_button_state c)),
           (True, ucast (drop_bit 8 (m_button_state c))),
           (True, m_axis_state c ! Axis_RightX), (True, m_axis_state c ! Axis_RightY),
           (True, m_axis_state c ! Axis_LeftX), (False, m_axis_state c ! Axis_LeftY)], c8)"
      and s8: "m_state c8 = Idle"
      using C a by blast
    show "fst (TransferFrame ([0x43, b1, m, p1] @ [p2, p3, p4, p5]) c) =
          [(True, ucast (GetID c)), (True, 0x5A), (True, ucast (m_button_state c)),
           (True, ucast (drop_bit 8 (m_button_state c))),
           (True, m_axis_state c ! Axis_RightX), (True, m_axis_state c ! Axis_RightY),
           (True, m_axis_state c ! Axis_LeftX), (False, m_axis_state c ! Axis_LeftY)]"
      by (simp only: 8 fst_conv)
    show "m_state (snd (TransferFrame ([0x43, b1, m, p1] @ [p2, p3, p4, p5]) c)) = Idle"
      by (simp only: 8 snd_conv s8)
  next
    assume a: "\<not> m_configuration_mode c \<and> \<not> m_analog_mode c"
    then have n: "\<not> m_configuration_mode c" and d: "\<not> m_analog_mode c" by blast+
    note r = D [OF n d]
    show "fst (TransferFrame (0x01 # [0x43, 0x00, 0x01, 0x00] @ [0x00, 0x00, 0x00]) c) =
          [(True, 0xFF), (True, 0x41), (True, 0x5A), (True, ucast (m_button_state c)),
           (True, ucast (drop_bit 8 (m_button_state c))),
           (True, m_axis_state c ! Axis_RightX), (True, m_axis_state c ! Axis_RightY),
           (True, m_axis_state c ! Axis_LeftX)]"
      using r by blast
    show "m_configuration_mode
          (snd (TransferFrame (0x01 # [0x43, 0x00, 0x01, 0x00] @ [0x00, 0x00, 0x00]) c))"
      using r by blast
    show "m_state (snd (TransferFrame (0x01 # [0x43, 0x00, 0x01, 0x00] @ [0x00, 0x00, 0x00]) c)) =
          GetStateLeftAxisY"
      using r by blast
  qed
qed

text \<open>
  The frame of the scenario on the controller as constructed, and a frame sent in
  configuration mode.
\<close>

theorem config_mode_frame_witness:
  "m_state (Reset False (AnalogController_new False 0)) = Idle \<and>
   fst (TransferFrame [0x01, 0x43, 0x00, 0x01, 0x00, 0x00, 0x00, 0x00]
          (Reset False (AnalogController_new False 0))) =
     [(True, 0xFF), (True, 0x41), (True, 0x5A), (True, 0xFF), (True, 0xFF),
      (True, 0x80), (True, 0x80), (True, 0x80)] \<and>
   m_configuration_mode
     (snd (TransferFrame [0x01, 0x43, 0x00, 0x01, 0x00, 0x00, 0x00, 0x00]
          (Reset False (AnalogController_new False 0)))) \<and>
   TransferFrame [0x43, 0x00, 0x00, 0x00, 0x00, 0x00, 0x00, 0x00]
     ((Reset False (AnalogController_new False 0))\<lparr>m_configuration_mode := True\<rparr>) =
     ([(True, 0xF3), (True, 0x5A), (True, 0x00),
       (True, 0x00), (True, 0x00), (True, 0x00), (True, 0x00), (False, 0x00)],
      Reset False (AnalogController_new False 0))"
proof -
  let ?c = "Reset False (AnalogController_new False 0)"
  let ?d = "?c\<lparr>m_configuration_mode := True\<rparr>"
  have 1: "m_state ?c = Idle" by (simp add: Reset_eq)
  have 2: "m_state ?d = Idle" by (simp add: Reset_eq)
  have v: "\<not> m_configuration_mode ?c" "\<not> m_analog_mode ?c" "m_button_state ?c = 0xFFFF"
    "m_axis_state ?c = [0x80, 0x80, 0x80, 0x80]" "m_configuration_mode ?d"
    by (simp_all add: Reset_eq AnalogController_new_eq)
  have e: "?d\<lparr>m_configuration_mode := False, m_state := Idle\<rparr> = ?c"
    by (simp add: Reset_eq)
  show ?thesis
    using config_mode_frame [OF 1, of 0 1 0 0 0 0 0] config_mode_frame [OF 2, of 0 0 0 0 0 0 0] 1
    by (simp add: v e Axis_RightX_def Axis_RightY_def Axis_LeftX_def Axis_LeftY_def
        del: TransferFrame.simps(2))
qed

text \<open>
  The last three bytes of the answer to \<open>01 43 00 01 00 00 00 00\<close> are the centred
  axes \<open>0x80\<close>, not \<open>0x00\<close>.
\<close>

theorem config_mode_frame_counterexample:
  "map snd (fst (TransferFrame [0x01, 0x43, 0x00, 0x01, 0x00, 0x00, 0x00, 0x00]
          (Reset False (AnalogController_new False 0)))) =
     [0xFF, 0x41, 0x5A, 0xFF, 0xFF, 0x80, 0x80, 0x80] \<and>
   map snd (fst (TransferFrame [0x01, 0x43, 0x00, 0x01, 0x00, 0x00, 0x00, 0x00]
          (Reset False (AnalogController_new False 0)))) \<noteq>
     [0xFF, 0x41, 0x5A,
      ucast (m_button_state (Reset False (AnalogController_new False 0))),
      ucast (drop_bit 8 (m_button_state (Reset False (AnalogController_new False 0)))),
      0x00, 0x00, 0x00]"
  by (simp add: Reset_eq AnalogController_new_eq Transfer_in Transfer_Idle_def ID_STATE_MSB_def
      GetID_def Transfer_ConfigModeSetMode_def Transfer_GetStateButtonsMSB_def
      Transfer_GetStateAxis_def Let_def Axis_RightX_def Axis_RightY_def Axis_LeftX_def)

section \<open>CPU core: properties\<close>

text \<open>
  \<open>FetchInstruction\<close> in the words of the source: a failing fetch is the call of
  \<open>RaiseException\<close> with the fetch address as \<open>EPC\<close>, followed by \<open>return false\<close>.
\<close>

lemma FetchInstruction_source:
  "FetchInstruction E s =
     (if \<not> IsAlignedPow2 (npc (m_regs s)) 4
      then do {
        s1 \<leftarrow> RaiseException5 E AdEL (npc (m_regs s)) False False 0
                (cop0_upd (\<lambda>c. c\<lparr>BadVaddr := npc (m_regs s)\<rparr>) s);
        Some (False, s1) }
      else case DoMemoryAccess_Read E Size_Word (npc (m_regs s)) (ext s) of
             (None, x) \<Rightarrow> do {
               s1 \<leftarrow> RaiseException5 E IBE (npc (m_regs s)) False False 0 (s\<lparr>ext := x\<rparr>);
               Some (False, s1) }
           | (Some bits, x) \<Rightarrow>
               Some (True,
                 regs_upd (\<lambda>g. g\<lparr>pc := npc g, npc := npc g + 4\<rparr>)
                   (s\<lparr>ext := x, m_next_instruction := bits\<rparr>)))"
  by (subst FetchInstruction.simps)
     (simp add: RaiseException5_def FlushPipeline_def bind_map_option o_def
        split: prod.splits option.splits)

lemma gpr_kept_refl [simp]: "gpr_kept s s"
  by (simp add: gpr_kept_def)

lemma gpr_kept_trans: "gpr_kept a b \<Longrightarrow> gpr_kept b c \<Longrightarrow> gpr_kept a c"
  by (simp add: gpr_kept_def)

lemma gpr_kept_heads:
  "gpr_kept s (FlushPipeline_head s)"
  "gpr_kept s (RaiseException_head excode epc BD BT CE s)"
  "gpr_kept s (FlushPipeline_head (RaiseException_head excode epc BD BT CE s))"
  by (simp_all add: gpr_kept_def FlushPipeline_head_def RaiseException_head_def FlushLoadDelay_def
      Let_def)

lemma gpr_kept_upd [simp]:
  "gpr_kept s (s'\<lparr>ext := x\<rparr>) = gpr_kept s s'"
  "gpr_kept (s\<lparr>ext := x\<rparr>) s' = gpr_kept s s'"
  "gpr_kept s (cop0_upd f s') = gpr_kept s s'"
  "gpr_kept (cop0_upd f s) s' = gpr_kept s s'"
  by (simp_all add: gpr_kept_def)

lemma FetchInstruction_gpr_kept:
  assumes "FetchInstruction E0 s0 = Some y0"
  shows "gpr_kept s0 (snd y0)"
proof (rule FetchInstruction.raw_induct [where P = "\<lambda>E s y. gpr_kept s (snd y)", OF _ assms],
    goal_cases)
  case (1 F E s y)
  have step: "gpr_kept s1 (snd y)"
    if "F E (FlushPipeline_head (RaiseException_head excode epc BD BT CE s1)) = Some res"
      and "y = (False, snd res)" for s1 excode epc BD BT CE res
  proof -
    have "gpr_kept (FlushPipeline_head (RaiseException_head excode epc BD BT CE s1)) (snd res)"
      using 1(1) that(1) by blast
    then show ?thesis
      using gpr_kept_heads(3) [of s1 excode epc BD BT CE] that(2)
      by (auto intro: gpr_kept_trans)
  qed
  show ?case
  proof (cases "IsAlignedPow2 (npc (m_regs s)) 4")
    case False
    then obtain res where
      "F E (FlushPipeline_head (RaiseException_head AdEL (npc (m_regs s)) False False 0
           (cop0_upd (\<lambda>c. c\<lparr>BadVaddr := npc (m_regs s)\<rparr>) s))) = Some res"
      "y = (False, snd res)"
      using 1(2) by (auto simp add: bind_eq_Some_conv)
    from step [OF this] show ?thesis by simp
  next
    case True
    obtain v x where rd: "DoMemoryAccess_Read E Size_Word (npc (m_regs s)) (ext s) = (v, x)"
      by (cases "DoMemoryAccess_Read E Size_Word (npc (m_regs s)) (ext s)")
    show ?thesis
    proof (cases v)
      case None
      then obtain res where
        "F E (FlushPipeline_head (RaiseException_head IBE (npc (m_regs s)) False False 0
           (s\<lparr>ext := x\<rparr>))) = Some res"
        "y = (False, snd res)"
        using 1(2) True rd by (auto simp add: bind_eq_Some_conv)
      from step [OF this] show ?thesis by simp
    next
      case (Some bits)
      then show ?thesis
        using 1(2) True rd by (auto simp add: gpr_kept_def)
    qed
  qed
qed

lemma r0_kept_refl [simp]: "r0_kept s s"
  by (simp add: r0_kept_def)

lemma r0_kept_trans: "r0_kept a b \<Longrightarrow> r0_kept b c \<Longrightarrow> r0_kept a c"
  by (simp add: r0_kept_def)

lemma gpr_kept_r0: "gpr_kept s s' \<Longrightarrow> r0_kept s s'"
  by (simp add: gpr_kept_def r0_kept_def)

lemma r0_kept_upd [simp]:
  "r0_kept s (s'\<lparr>ext := x\<rparr>) = r0_kept s s'"
  "r0_kept (s\<lparr>ext := x\<rparr>) s' = r0_kept s s'"
  "r0_kept s (s'\<lparr>m_next_instruction_is_branch_delay_slot := b\<rparr>) = r0_kept s s'"
  "r0_kept (s\<lparr>m_next_instruction_is_branch_delay_slot := b\<rparr>) s' = r0_kept s s'"
  "r0_kept s (cop0_upd f s') = r0_kept s s'"
  by (simp_all add: r0_kept_def)

lemma FlushPipeline_gpr_kept: "FlushPipeline E s = Some s' \<Longrightarrow> gpr_kept s s'"
  unfolding FlushPipeline_def
  using FetchInstruction_gpr_kept gpr_kept_heads(1) by (fastforce intro: gpr_kept_trans)

lemma RaiseException5_gpr_kept:
  "RaiseException5 E excode epc BD BT CE s = Some s' \<Longrightarrow> gpr_kept s s'"
  unfolding RaiseException5_def
  using FlushPipeline_gpr_kept gpr_kept_heads(2) by (blast intro: gpr_kept_trans)

lemma RaiseException_gpr_kept: "RaiseException E excode s = Some s' \<Longrightarrow> gpr_kept s s'"
  unfolding RaiseException_def by (rule RaiseException5_gpr_kept)

lemma DoAlignmentCheck_gpr_kept:
  "DoAlignmentCheck E t sz addr s = Some (ok, s') \<Longrightarrow> gpr_kept s s'"
  by (auto simp add: DoAlignmentCheck_def bind_eq_Some_conv dest: RaiseException_gpr_kept
      split: if_splits)


lemma RaiseException_ext_gpr_kept:
  "RaiseException E excode (s\<lparr>ext := x\<rparr>) = Some s' \<Longrightarrow> gpr_kept s s'"
  using RaiseException_gpr_kept [of E excode "s\<lparr>ext := x\<rparr>" s'] by simp

lemma ReadMemoryByte_gpr_kept: "ReadMemoryByte E addr s = Some (v, s') \<Longrightarrow> gpr_kept s s'"
  by (auto simp add: ReadMemoryByte_def bind_eq_Some_conv dest: RaiseException_ext_gpr_kept
      split: prod.splits option.splits)

lemma read_tail_gpr_kept:
  "(case DoMemoryAccess_Read E sz addr (ext s1) of
      (None, x) \<Rightarrow> do { s2 \<leftarrow> RaiseException E DBE (s1\<lparr>ext := x\<rparr>); Some (None, s2) }
    | (Some val, x) \<Rightarrow> Some (Some (f val), s1\<lparr>ext := x\<rparr>)) = Some (v, s') \<Longrightarrow>
   gpr_kept s1 s'"
  by (auto simp add: bind_eq_Some_conv dest: RaiseException_ext_gpr_kept
      split: prod.splits option.splits)

lemma write_tail_gpr_kept:
  "(case DoMemoryAccess_Write E sz addr val (ext s1) of
      (False, x) \<Rightarrow> do { s2 \<leftarrow> RaiseException E DBE (s1\<lparr>ext := x\<rparr>); Some (False, s2) }
    | (True, x) \<Rightarrow> Some (True, s1\<lparr>ext := x\<rparr>)) = Some (ok, s') \<Longrightarrow>
   gpr_kept s1 s'"
  by (auto simp add: bind_eq_Some_conv dest: RaiseException_ext_gpr_kept
      split: prod.splits bool.splits)

lemma checked_access_gpr_kept:
  assumes "do { (aligned, s1) \<leftarrow> DoAlignmentCheck E t sz addr s;
                if \<not> aligned then Some (d, s1) else tail s1 } = Some (v, s')"
    and "\<And>s1. tail s1 = Some (v, s') \<Longrightarrow> gpr_kept s1 s'"
  shows "gpr_kept s s'"
proof -
  obtain a s1 where c: "DoAlignmentCheck E t sz addr s = Some (a, s1)"
    and t: "(if \<not> a then Some (d, s1) else tail s1) = Some (v, s')"
    using assms(1) by (auto simp add: bind_eq_Some_conv)
  have k: "gpr_kept s s1" using c by (rule DoAlignmentCheck_gpr_kept)
  show ?thesis
  proof (cases a)
    case True
    then have "tail s1 = Some (v, s')" using t by simp
    then show ?thesis using k assms(2) by (blast intro: gpr_kept_trans)
  next
    case False
    then show ?thesis using t k by simp
  qed
qed

lemma ReadMemoryHalfWord_gpr_kept: "ReadMemoryHalfWord E addr s = Some (v, s') \<Longrightarrow> gpr_kept s s'"
  unfolding ReadMemoryHalfWord_def
  by (erule checked_access_gpr_kept) (rule read_tail_gpr_kept)

lemma ReadMemoryWord_gpr_kept: "ReadMemoryWord E addr s = Some (v, s') \<Longrightarrow> gpr_kept s s'"
  unfolding ReadMemoryWord_def
  by (erule checked_access_gpr_kept) (rule read_tail_gpr_kept [where f = "\<lambda>v. v"])

lemma WriteMemoryByte_gpr_kept: "WriteMemoryByte E addr v s = Some (ok, s') \<Longrightarrow> gpr_kept s s'"
  unfolding WriteMemoryByte_def by (rule write_tail_gpr_kept)

lemma WriteMemoryHalfWord_gpr_kept:
  "WriteMemoryHalfWord E addr v s = Some (ok, s') \<Longrightarrow> gpr_kept s s'"
  unfolding WriteMemoryHalfWord_def
  by (erule checked_access_gpr_kept) (rule write_tail_gpr_kept)

lemma WriteMemoryWord_gpr_kept: "WriteMemoryWord E addr v s = Some (ok, s') \<Longrightarrow> gpr_kept s s'"
  unfolding WriteMemoryWord_def
  by (erule checked_access_gpr_kept) (rule write_tail_gpr_kept)

lemma WriteReg_r0_kept [simp]: "r0_kept s (WriteReg rd v s)"
  by (simp add: WriteReg_def r0_kept_def)

lemma WriteReg_r0_kept' : "r0_kept s s1 \<Longrightarrow> r0_kept s (WriteReg rd v s1)"
  by (simp add: WriteReg_def r0_kept_def)

lemma WriteRegDelayed_r0_kept: "WriteRegDelayed rd v s = Some s' \<Longrightarrow> r0_kept s s'"
  by (auto simp add: WriteRegDelayed_def r0_kept_def split: if_splits)

lemma Branch_r0_kept [simp]: "r0_kept s (Branch target s1) = r0_kept s s1"
  by (simp add: Branch_def r0_kept_def)

lemma regs_hi_lo_r0_kept [simp]:
  "r0_kept s (regs_upd (\<lambda>g. g\<lparr>hi := a\<rparr>) s)"
  "r0_kept s (regs_upd (\<lambda>g. g\<lparr>lo := a\<rparr>) s)"
  "r0_kept s (regs_upd (\<lambda>g. g\<lparr>lo := a, hi := b\<rparr>) s)"
  "r0_kept s (regs_upd (\<lambda>g. g\<lparr>hi := b, lo := a\<rparr>) s)"
  by (simp_all add: r0_kept_def)

lemma link_r0_kept [simp]:
  "r0_kept s (regs_upd (\<lambda>g. g\<lparr>r := (r g)(Reg_ra := npc g)\<rparr>) s1) = r0_kept s s1"
  by (simp add: r0_kept_def Reg_ra_def Reg_zero_def)

lemma RaiseException_r0_kept: "RaiseException E excode s = Some s' \<Longrightarrow> r0_kept s s'"
  by (blast dest: RaiseException_gpr_kept gpr_kept_r0)

lemma Execute_alu_r0_kept:
  "Execute_add E inst s = Some s' \<Longrightarrow> r0_kept s s'"
  "Execute_sub E inst s = Some s' \<Longrightarrow> r0_kept s s'"
  "Execute_addi E inst s = Some s' \<Longrightarrow> r0_kept s s'"
  by (auto simp add: Execute_add_def Execute_sub_def Execute_addi_def Let_def
      dest: RaiseException_r0_kept split: if_splits)

lemma Execute_muldiv_r0_kept [simp]:
  "r0_kept s (Execute_mult inst s)"
  "r0_kept s (Execute_multu inst s)"
  "r0_kept s (Execute_div inst s)"
  "r0_kept s (Execute_divu inst s)"
  by (simp_all add: Execute_mult_def Execute_multu_def Execute_div_def Execute_divu_def Let_def)

lemma Execute_jump_r0_kept [simp]:
  "r0_kept s (Execute_jr inst s)"
  "r0_kept s (Execute_jalr inst s)"
  "r0_kept s (Execute_j inst s)"
  "r0_kept s (Execute_jal inst s)"
  by (simp_all add: Execute_jr_def Execute_jalr_def Execute_j_def Execute_jal_def Let_def
      WriteReg_r0_kept')

lemma Execute_branch_if_r0_kept [simp]: "r0_kept s (Execute_branch_if b inst s1) = r0_kept s s1"
  by (simp add: Execute_branch_if_def)

lemma Execute_branch_r0_kept [simp]:
  "r0_kept s (Execute_beq inst s)"
  "r0_kept s (Execute_bne inst s)"
  "r0_kept s (Execute_bgtz inst s)"
  "r0_kept s (Execute_blez inst s)"
  by (simp_all add: Execute_beq_def Execute_bne_def Execute_bgtz_def Execute_blez_def Let_def)

lemma Execute_b_r0_kept [simp]: "r0_kept s (Execute_b inst s)"
  by (simp add: Execute_b_def Let_def Execute_branch_if_def Branch_def r0_kept_def
      Reg_ra_def Reg_zero_def)

lemma ExecuteFunct_r0_kept: "ExecuteFunct E inst s = Some s' \<Longrightarrow> r0_kept s s'"
  unfolding ExecuteFunct_def Let_def
  by (auto dest: RaiseException_r0_kept Execute_alu_r0_kept split: if_splits)

lemma load_r0_kept:
  assumes "do { (val, s1) \<leftarrow> m; case val of None \<Rightarrow> Some s1 | Some v \<Rightarrow> k v s1 } = Some s'"
    and "\<And>val s1. m = Some (val, s1) \<Longrightarrow> gpr_kept s s1"
    and "\<And>v s1. k v s1 = Some s' \<Longrightarrow> r0_kept s1 s'"
  shows "r0_kept s s'"
proof -
  obtain val s1 where m: "m = Some (val, s1)"
    and t: "(case val of None \<Rightarrow> Some s1 | Some v \<Rightarrow> k v s1) = Some s'"
    using assms(1) by (auto simp add: bind_eq_Some_conv)
  have g: "r0_kept s s1" using assms(2) [OF m] by (rule gpr_kept_r0)
  show ?thesis
  proof (cases val)
    case None
    then show ?thesis using t g by simp
  next
    case (Some v)
    then have "k v s1 = Some s'" using t by simp
    then show ?thesis using g assms(3) by (blast intro: r0_kept_trans)
  qed
qed

lemma Execute_load_r0_kept:
  "Execute_lb E inst s = Some s' \<Longrightarrow> r0_kept s s'"
  "Execute_lh E inst s = Some s' \<Longrightarrow> r0_kept s s'"
  "Execute_lw E inst s = Some s' \<Longrightarrow> r0_kept s s'"
  "Execute_lbu E inst s = Some s' \<Longrightarrow> r0_kept s s'"
  "Execute_lhu E inst s = Some s' \<Longrightarrow> r0_kept s s'"
  unfolding Execute_lb_def Execute_lh_def Execute_lw_def Execute_lbu_def Execute_lhu_def
  by (erule load_r0_kept;
      (erule ReadMemoryByte_gpr_kept ReadMemoryHalfWord_gpr_kept ReadMemoryWord_gpr_kept
        | erule WriteRegDelayed_r0_kept))+

lemma Execute_lwl_lwr_r0_kept: "Execute_lwl_lwr E inst s = Some s' \<Longrightarrow> r0_kept s s'"
  unfolding Execute_lwl_lwr_def Let_def
  by (erule load_r0_kept; (erule ReadMemoryWord_gpr_kept | erule WriteRegDelayed_r0_kept))

lemma map_snd_Some: "map_option snd m = Some s' \<Longrightarrow> \<exists>ok. m = Some (ok, s')"
  by (cases m) auto

lemma store_r0_kept:
  assumes "map_option snd m = Some s'"
    and "\<And>ok. m = Some (ok, s') \<Longrightarrow> gpr_kept s s'"
  shows "r0_kept s s'"
proof -
  obtain ok where "m = Some (ok, s')" using map_snd_Some [OF assms(1)] by blast
  then show ?thesis using assms(2) gpr_kept_r0 by blast
qed

lemma Execute_sb_r0_kept: "Execute_sb E inst s = Some s' \<Longrightarrow> r0_kept s s'"
  unfolding Execute_sb_def by (erule store_r0_kept) (erule WriteMemoryByte_gpr_kept)

lemma Execute_sh_r0_kept: "Execute_sh E inst s = Some s' \<Longrightarrow> r0_kept s s'"
  unfolding Execute_sh_def by (erule store_r0_kept) (erule WriteMemoryHalfWord_gpr_kept)

lemma Execute_sw_r0_kept: "Execute_sw E inst s = Some s' \<Longrightarrow> r0_kept s s'"
  unfolding Execute_sw_def by (erule store_r0_kept) (erule WriteMemoryWord_gpr_kept)

lemmas Execute_store_r0_kept = Execute_sb_r0_kept Execute_sh_r0_kept Execute_sw_r0_kept

lemma Execute_swl_swr_r0_kept: "Execute_swl_swr E inst s = Some s' \<Longrightarrow> r0_kept s s'"
  unfolding Execute_swl_swr_def Let_def
  by (erule load_r0_kept, erule ReadMemoryWord_gpr_kept)
     (erule store_r0_kept, erule WriteMemoryWord_gpr_kept)

lemma WriteCop0Reg_r0_kept [simp]: "r0_kept s (WriteCop0Reg E reg v s)"
  by (simp add: WriteCop0Reg_def)

lemma ExecuteCop0Instruction_r0_kept: "ExecuteCop0Instruction E s = Some s' \<Longrightarrow> r0_kept s s'"
  unfolding ExecuteCop0Instruction_def Let_def
  by (auto dest: RaiseException_r0_kept WriteRegDelayed_r0_kept split: if_splits option.splits)

lemma ExecuteCop2Instruction_r0_kept: "ExecuteCop2Instruction E s = Some s' \<Longrightarrow> r0_kept s s'"
  unfolding ExecuteCop2Instruction_def Let_def
  by (auto dest: WriteRegDelayed_r0_kept split: if_splits)

lemma Execute_lwc2_r0_kept: "Execute_lwc2 E inst s = Some s' \<Longrightarrow> r0_kept s s'"
proof -
  assume a: "Execute_lwc2 E inst s = Some s'"
  show ?thesis
  proof (cases "InUserMode s \<and> \<not> SR_CU2 (sr (m_cop0_regs s))")
    case True
    then show ?thesis using a by (auto simp add: Execute_lwc2_def dest: RaiseException_r0_kept)
  next
    case False
    then have "do { (val, s1) \<leftarrow> ReadMemoryWord E (ReadReg (inst_rs inst) s + imm_sext32 inst) s;
        case val of None \<Rightarrow> Some s1
        | Some v \<Rightarrow>
            Some (s1\<lparr>ext := cop2_WriteDataRegister E (of_nat (inst_rt inst)) v (ext s1)\<rparr>) } = Some s'"
      using a unfolding Execute_lwc2_def by (simp only: False if_False)
    then show ?thesis
      by (rule load_r0_kept) (erule ReadMemoryWord_gpr_kept, auto)
  qed
qed

lemma Execute_swc2_r0_kept: "Execute_swc2 E inst s = Some s' \<Longrightarrow> r0_kept s s'"
  unfolding Execute_swc2_def
  by (cases "InUserMode s \<and> \<not> SR_CU2 (sr (m_cop0_regs s))")
     (auto dest: RaiseException_r0_kept WriteMemoryWord_gpr_kept gpr_kept_r0)

lemma ExecuteInstruction_r0_kept: "ExecuteInstruction E s = Some s' \<Longrightarrow> r0_kept s s'"
  unfolding ExecuteInstruction_def Let_def
  by (auto dest: RaiseException_r0_kept Execute_alu_r0_kept ExecuteFunct_r0_kept
      Execute_load_r0_kept Execute_lwl_lwr_r0_kept Execute_store_r0_kept Execute_swl_swr_r0_kept
      ExecuteCop0Instruction_r0_kept ExecuteCop2Instruction_r0_kept Execute_lwc2_r0_kept
      Execute_swc2_r0_kept split: if_splits)

lemma Execute_begin_r0_kept [simp]: "r0_kept s (Execute_begin s)"
  by (simp add: Execute_begin_def r0_kept_def)

lemma AdvanceLoadDelay_r0_kept [simp]: "r0_kept s (AdvanceLoadDelay s1) = r0_kept s s1"
  by (simp add: AdvanceLoadDelay_def r0_kept_def)

lemma DispatchInterrupts_r0_kept: "DispatchInterrupts E s = Some (d, s') \<Longrightarrow> r0_kept s s'"
  by (auto simp add: DispatchInterrupts_def Let_def bind_eq_Some_conv
      dest: RaiseException_r0_kept split: if_splits)

lemma FetchInstruction_r0_kept: "FetchInstruction E s = Some (f, s') \<Longrightarrow> r0_kept s s'"
  using FetchInstruction_gpr_kept [of E s "(f, s')"] by (simp add: gpr_kept_r0)

lemma Execute_step_r0_kept:
  assumes "Execute_step E s = Some s'"
  shows "r0_kept s s'"
proof -
  obtain d s1 where 1: "DispatchInterrupts E (Execute_begin s) = Some (d, s1)"
    and r1: "(if d then Some s1
       else do {
         (fetched, s2) \<leftarrow> FetchInstruction E s1;
         if \<not> fetched then Some s2
         else do { s3 \<leftarrow> ExecuteInstruction E s2; Some (AdvanceLoadDelay s3) } }) = Some s'"
    using assms by (auto simp add: Execute_step_def bind_eq_Some_conv)
  have k1: "r0_kept s s1"
    using DispatchInterrupts_r0_kept [OF 1] Execute_begin_r0_kept [of s]
    by (blast intro: r0_kept_trans)
  show ?thesis
  proof (cases d)
    case True
    then show ?thesis using r1 k1 by simp
  next
    case False
    then obtain f s2 where 2: "FetchInstruction E s1 = Some (f, s2)"
      and r2: "(if \<not> f then Some s2
         else do { s3 \<leftarrow> ExecuteInstruction E s2; Some (AdvanceLoadDelay s3) }) = Some s'"
      using r1 by (auto simp add: bind_eq_Some_conv)
    have k2: "r0_kept s s2"
      using k1 FetchInstruction_r0_kept [OF 2] by (blast intro: r0_kept_trans)
    show ?thesis
    proof (cases f)
      case False
      then show ?thesis using r2 k2 by simp
    next
      case True
      then obtain s3 where 3: "ExecuteInstruction E s2 = Some s3" and e: "s' = AdvanceLoadDelay s3"
        using r2 by (auto simp add: bind_eq_Some_conv)
      have "r0_kept s s3"
        using k2 ExecuteInstruction_r0_kept [OF 3] by (blast intro: r0_kept_trans)
      then show ?thesis using e by simp
    qed
  qed
qed

lemma Execute_steps_r0_kept: "Execute_steps n E s = Some s' \<Longrightarrow> r0_kept s s'"
proof (induction n arbitrary: s)
  case 0
  then show ?case by simp
next
  case (Suc n)
  then obtain s1 where "Execute_step E s = Some s1" "Execute_steps n E s1 = Some s'"
    by (auto simp add: bind_eq_Some_conv)
  then show ?case
    using Suc.IH Execute_step_r0_kept by (blast intro: r0_kept_trans)
qed

lemma Execute_r0_kept:
  assumes "Execute E0 s0 = Some y0"
  shows "r0_kept s0 y0"
proof (rule Execute.raw_induct [where P = "\<lambda>E s y. r0_kept s y", OF _ assms], goal_cases)
  case (1 F E s y)
  show ?case
  proof (cases "m_downcount s \<ge> 0")
    case True
    then obtain s1 where "Execute_step E s = Some s1" "F E s1 = Some y"
      using 1(2) by (auto simp add: bind_eq_Some_conv)
    then show ?thesis
      using 1(1) Execute_step_r0_kept by (blast intro: r0_kept_trans)
  next
    case False
    then show ?thesis using 1(2) by simp
  qed
qed

lemma Core_Reset_r0:
  assumes "Core_Reset E s = Some s'"
  shows "r (m_regs s') Reg_zero = 0"
proof -
  have "gpr_kept (regs_upd (\<lambda>g. g\<lparr>npc := RESET_VECTOR E\<rparr>)
       (s\<lparr>m_pending_ticks := 0,
          m_downcount := MAX_SLICE_SIZE E,
          m_regs := \<lparr>r = (\<lambda>_. 0), pc = 0, hi = 0, lo = 0, npc = 0\<rparr>,
          m_cop0_regs := (m_cop0_regs s)\<lparr>BPC := 0, BDA := 0, TAR := 0, BadVaddr := 0,
                                         BDAM := 0, BPCM := 0, EPC := 0, sr := 0, cause := 0\<rparr>,
          ext := cop2_Reset E (ext s)\<rparr>)) s'"
    using assms unfolding Core_Reset_def SetPC_def by (rule FlushPipeline_gpr_kept)
  then show ?thesis by (simp add: gpr_kept_def)
qed

lemma BitField_get_set_same:
  "i + n \<le> 32 \<Longrightarrow> BitField_get i n (BitField_set i n v b) = take_bit n v"
  unfolding BitField_get_def BitField_set_def
  by (rule bit_eqI) (auto simp add: bit_simps dest: bit_imp_le_length)

lemma BitField_get_set_above:
  "i + n \<le> j \<Longrightarrow> BitField_get j m (BitField_set i n v b) = BitField_get j m b"
  unfolding BitField_get_def BitField_set_def
  by (rule bit_eqI) (auto simp add: bit_simps dest: bit_imp_le_length)

lemma BitField_get_set_below:
  "j + m \<le> i \<Longrightarrow> BitField_get j m (BitField_set i n v b) = BitField_get j m b"
  unfolding BitField_get_def BitField_set_def
  by (rule bit_eqI) (auto simp add: bit_simps dest: bit_imp_le_length)

lemma SR_BEV_set_mode_bits [simp]: "SR_BEV (SR_set_mode_bits v b) = SR_BEV b"
  by (simp add: SR_BEV_def SR_set_mode_bits_def BitField_get_set_above)

lemma SR_mode_bits_set_mode_bits [simp]: "SR_mode_bits (SR_set_mode_bits v b) = take_bit 6 v"
  by (simp add: SR_mode_bits_def SR_set_mode_bits_def BitField_get_set_same)

lemma CAUSE_Excode_set:
  "CAUSE_Excode (CAUSE_set_CE ce (CAUSE_set_BT bt (CAUSE_set_BD bd (CAUSE_set_Excode e c)))) =
   Excode_of e"
proof -
  have "take_bit 5 (Excode_of e) = Excode_of e"
    by (cases e) simp_all
  then show ?thesis
    by (simp add: CAUSE_Excode_def CAUSE_set_CE_def CAUSE_set_BT_def CAUSE_set_BD_def
        CAUSE_set_Excode_def BitField_get_set_below BitField_get_set_same)
qed

lemma GetExceptionVector_eq:
  "GetExceptionVector excode s =
     (if SR_BEV (sr (m_cop0_regs s)) then 0xBFC00180 else 0x80000080)"
  by (simp add: GetExceptionVector_def)

lemma GetExceptionVector_aligned: "IsAlignedPow2 (GetExceptionVector excode s) 4"
  by (simp add: GetExceptionVector_eq IsAlignedPow2_def)

lemma RaiseException_head_fields:
  "npc (m_regs (RaiseException_head excode epc BD BT CE s)) = GetExceptionVector excode s"
  "ext (RaiseException_head excode epc BD BT CE s) = ext s"
  "sr (m_cop0_regs (RaiseException_head excode epc BD BT CE s)) =
     SR_set_mode_bits (push_bit 2 (SR_mode_bits (sr (m_cop0_regs s)))) (sr (m_cop0_regs s))"
  "CAUSE_Excode (cause (m_cop0_regs (RaiseException_head excode epc BD BT CE s))) = Excode_of excode"
  "EPC (m_cop0_regs (RaiseException_head excode epc BD BT CE s)) = (if BD then epc - 4 else epc)"
  "r (m_regs (RaiseException_head excode epc BD BT CE s)) = r (m_regs s)"
  by (simp_all add: RaiseException_head_def Let_def GetExceptionVector_eq CAUSE_Excode_set)

lemma FlushPipeline_head_fields:
  "m_regs (FlushPipeline_head s) = m_regs s"
  "m_cop0_regs (FlushPipeline_head s) = m_cop0_regs s"
  "ext (FlushPipeline_head s) = ext s"
  "m_load_delay_reg (FlushPipeline_head s) = Reg_count"
  "m_next_load_delay_reg (FlushPipeline_head s) = Reg_count"
  by (simp_all add: FlushPipeline_head_def FlushLoadDelay_def)

lemma FetchInstruction_ok:
  assumes "IsAlignedPow2 (npc (m_regs s)) 4"
    and "DoMemoryAccess_Read E Size_Word (npc (m_regs s)) (ext s) = (Some bits, x)"
  shows "FetchInstruction E s =
     Some (True, regs_upd (\<lambda>g. g\<lparr>pc := npc g, npc := npc g + 4\<rparr>)
                   (s\<lparr>ext := x, m_next_instruction := bits\<rparr>))"
  using assms by (subst FetchInstruction.simps) simp

lemma RaiseException5_ok:
  assumes "DoMemoryAccess_Read E Size_Word (GetExceptionVector excode s) (ext s) = (Some bits, x)"
  shows "RaiseException5 E excode epc BD BT CE s =
     Some (regs_upd (\<lambda>g. g\<lparr>pc := npc g, npc := npc g + 4\<rparr>)
             ((FlushPipeline_head (RaiseException_head excode epc BD BT CE s))
                \<lparr>ext := x, m_next_instruction := bits\<rparr>))"
proof -
  let ?h = "FlushPipeline_head (RaiseException_head excode epc BD BT CE s)"
  have n: "npc (m_regs ?h) = GetExceptionVector excode s" and e: "ext ?h = ext s"
    by (simp_all add: FlushPipeline_head_fields RaiseException_head_fields)
  have a: "IsAlignedPow2 (npc (m_regs ?h)) 4"
    by (simp only: n GetExceptionVector_aligned)
  have d: "DoMemoryAccess_Read E Size_Word (npc (m_regs ?h)) (ext ?h) = (Some bits, x)"
    using assms by (simp only: n e)
  show ?thesis
    by (simp only: RaiseException5_def FlushPipeline_def FetchInstruction_ok [OF a d]
        option.map snd_conv)
qed

lemma RaiseException5_result:
  assumes "DoMemoryAccess_Read E Size_Word
             (if SR_BEV (sr (m_cop0_regs s)) then 0xBFC00180 else 0x80000080) (ext s) = (Some bits, x)"
  shows "\<exists>s'. RaiseException5 E excode epc BD BT CE s = Some s' \<and>
      pc (m_regs s') = (if SR_BEV (sr (m_cop0_regs s)) then 0xBFC00180 else 0x80000080) \<and>
      npc (m_regs s') = (if SR_BEV (sr (m_cop0_regs s)) then 0xBFC00180 else 0x80000080) + 4 \<and>
      m_next_instruction s' = bits \<and>
      SR_mode_bits (sr (m_cop0_regs s')) = take_bit 6 (push_bit 2 (SR_mode_bits (sr (m_cop0_regs s)))) \<and>
      CAUSE_Excode (cause (m_cop0_regs s')) = Excode_of excode \<and>
      r (m_regs s') = r (m_regs s) \<and>
      m_load_delay_reg s' = Reg_count \<and> m_next_load_delay_reg s' = Reg_count"
proof -
  have d: "DoMemoryAccess_Read E Size_Word (GetExceptionVector excode s) (ext s) = (Some bits, x)"
    using assms by (simp only: GetExceptionVector_eq)
  show ?thesis
    by (simp add: RaiseException5_ok [OF d] FlushPipeline_head_fields RaiseException_head_fields
        GetExceptionVector_eq)
qed

lemma mode_bits_low_zero: "take_bit 6 (push_bit 2 (m :: u32)) AND 3 = 0"
proof -
  have "take_bit 6 (push_bit 2 m) AND mask 2 = 0"
    by (rule bit_eqI) (auto simp add: bit_simps)
  then show ?thesis by (simp add: mask_eq_exp_minus_1)
qed

lemma flushed_head [simp]: "flushed (FlushPipeline_head s)"
  by (simp add: flushed_def FlushPipeline_head_def FlushLoadDelay_def)











lemma WriteRegDelayed_zero:
  "m_next_load_delay_reg s = Reg_count \<Longrightarrow> WriteRegDelayed Reg_zero v s = Some s"
  by (simp add: WriteRegDelayed_def)




lemmas Op_defs =
  Op_funct_def Op_b_def Op_j_def Op_jal_def Op_beq_def Op_bne_def Op_blez_def Op_bgtz_def
  Op_addi_def Op_addiu_def Op_slti_def Op_sltiu_def Op_andi_def Op_ori_def Op_xori_def
  Op_lui_def Op_cop0_def Op_cop1_def Op_cop2_def Op_cop3_def Op_lb_def Op_lh_def Op_lwl_def
  Op_lw_def Op_lbu_def Op_lhu_def Op_lwr_def Op_sb_def Op_sh_def Op_swl_def Op_sw_def
  Op_swr_def Op_lwc0_def Op_lwc1_def Op_lwc2_def Op_lwc3_def Op_swc0_def Op_swc1_def
  Op_swc2_def Op_swc3_def

lemmas Funct_defs =
  Funct_sll_def Funct_srl_def Funct_sra_def Funct_sllv_def Funct_srlv_def Funct_srav_def
  Funct_jr_def Funct_jalr_def Funct_syscall_def Funct_break_def Funct_mfhi_def Funct_mthi_def
  Funct_mflo_def Funct_mtlo_def Funct_mult_def Funct_multu_def Funct_div_def Funct_divu_def
  Funct_add_def Funct_addu_def Funct_sub_def Funct_subu_def Funct_and_def Funct_or_def
  Funct_xor_def Funct_nor_def Funct_slt_def Funct_sltu_def

text \<open>One iteration of the loop when no interrupt is taken and the fetch succeeds.\<close>

lemma FetchInstruction_ok_the:
  assumes "IsAlignedPow2 (npc (m_regs s)) 4"
    and "fst (DoMemoryAccess_Read E Size_Word (npc (m_regs s)) (ext s)) \<noteq> None"
  shows "FetchInstruction E s =
     Some (True, regs_upd (\<lambda>g. g\<lparr>pc := npc g, npc := npc g + 4\<rparr>)
       (s\<lparr>ext := snd (DoMemoryAccess_Read E Size_Word (npc (m_regs s)) (ext s)),
          m_next_instruction :=
            the (fst (DoMemoryAccess_Read E Size_Word (npc (m_regs s)) (ext s)))\<rparr>))"
proof -
  obtain bits x where "DoMemoryAccess_Read E Size_Word (npc (m_regs s)) (ext s) = (Some bits, x)"
    using assms(2) by (cases "DoMemoryAccess_Read E Size_Word (npc (m_regs s)) (ext s)") auto
  then show ?thesis using FetchInstruction_ok [OF assms(1)] by simp
qed


text \<open>
  C1, as the code has it. Raising an exception ends with the flush of the pipeline, which
  fetches the instruction at the exception vector. When that fetch succeeds,
  \<open>RaiseException\<close> returns with \<open>pc\<close> at the vector (\<open>0xBFC00180\<close> if \<open>SR.BEV\<close> is
  set, else \<open>0x80000080\<close>) and \<open>npc\<close> four bytes after it, and the mode bits of \<open>SR\<close>
  are their former value shifted left by two within the six bits of the field, so the low
  two bits are zero. This holds for every exception code and for both forms of the call.
\<close>

theorem RaiseException_vector:
  assumes "DoMemoryAccess_Read E Size_Word
             (if SR_BEV (sr (m_cop0_regs s)) then 0xBFC00180 else 0x80000080) (ext s) = (Some bits, x)"
  shows
    "(\<exists>s'. RaiseException5 E excode epc BD BT CE s = Some s' \<and>
        pc (m_regs s') = (if SR_BEV (sr (m_cop0_regs s)) then 0xBFC00180 else 0x80000080) \<and>
        npc (m_regs s') = (if SR_BEV (sr (m_cop0_regs s)) then 0xBFC00180 else 0x80000080) + 4 \<and>
        SR_mode_bits (sr (m_cop0_regs s')) =
          take_bit 6 (push_bit 2 (SR_mode_bits (sr (m_cop0_regs s)))) \<and>
        SR_mode_bits (sr (m_cop0_regs s')) AND 3 = 0) \<and>
     (\<exists>s'. RaiseException E excode s = Some s' \<and>
        pc (m_regs s') = (if SR_BEV (sr (m_cop0_regs s)) then 0xBFC00180 else 0x80000080) \<and>
        npc (m_regs s') = (if SR_BEV (sr (m_cop0_regs s)) then 0xBFC00180 else 0x80000080) + 4 \<and>
        SR_mode_bits (sr (m_cop0_regs s')) =
          take_bit 6 (push_bit 2 (SR_mode_bits (sr (m_cop0_regs s)))) \<and>
        SR_mode_bits (sr (m_cop0_regs s')) AND 3 = 0)"
proof -
  have *: "\<exists>s'. RaiseException5 E excode epc BD BT CE s = Some s' \<and>
        pc (m_regs s') = (if SR_BEV (sr (m_cop0_regs s)) then 0xBFC00180 else 0x80000080) \<and>
        npc (m_regs s') = (if SR_BEV (sr (m_cop0_regs s)) then 0xBFC00180 else 0x80000080) + 4 \<and>
        SR_mode_bits (sr (m_cop0_regs s')) =
          take_bit 6 (push_bit 2 (SR_mode_bits (sr (m_cop0_regs s)))) \<and>
        SR_mode_bits (sr (m_cop0_regs s')) AND 3 = 0" for epc BD BT CE
  proof -
    obtain s' where "RaiseException5 E excode epc BD BT CE s = Some s'"
      "pc (m_regs s') = (if SR_BEV (sr (m_cop0_regs s)) then 0xBFC00180 else 0x80000080)"
      "npc (m_regs s') = (if SR_BEV (sr (m_cop0_regs s)) then 0xBFC00180 else 0x80000080) + 4"
      "SR_mode_bits (sr (m_cop0_regs s')) =
          take_bit 6 (push_bit 2 (SR_mode_bits (sr (m_cop0_regs s))))"
      using RaiseException5_result [OF assms, of excode epc BD BT CE] by blast
    moreover from this(4) have "SR_mode_bits (sr (m_cop0_regs s')) AND 3 = 0"
      by (simp only: mode_bits_low_zero)
    ultimately show ?thesis by blast
  qed
  show ?thesis
    unfolding RaiseException_def using * by blast
qed

theorem RaiseException_vector_witness:
  "DoMemoryAccess_Read WordRom_Env Size_Word
     (if SR_BEV (sr (m_cop0_regs (blank_Core vector_rom))) then 0xBFC00180 else 0x80000080)
     (ext (blank_Core vector_rom)) = (Some 0, vector_rom) \<and>
   (\<exists>s'. RaiseException WordRom_Env Syscall (blank_Core vector_rom) = Some s' \<and>
      pc (m_regs s') = 0x80000080 \<and> npc (m_regs s') = 0x80000084 \<and>
      SR_mode_bits (sr (m_cop0_regs s')) = 0)"
proof -
  have b: "\<not> SR_BEV (sr (m_cop0_regs (blank_Core vector_rom)))"
    by (simp add: blank_Core_def SR_BEV_def BitField_get_def)
  have m: "SR_mode_bits (sr (m_cop0_regs (blank_Core vector_rom))) = 0"
    by (simp add: blank_Core_def SR_mode_bits_def BitField_get_def)
  have h: "DoMemoryAccess_Read WordRom_Env Size_Word
     (if SR_BEV (sr (m_cop0_regs (blank_Core vector_rom))) then 0xBFC00180 else 0x80000080)
     (ext (blank_Core vector_rom)) = (Some 0, vector_rom)"
    by (simp add: b) (simp add: WordRom_Env_def blank_Core_def vector_rom_def)
  show ?thesis
    using RaiseException_vector [OF h, of Syscall 0 False False 0] h by (auto simp add: b m)
qed

theorem RaiseException_vector_counterexample:
  "RaiseException WordRom_Env Syscall (blank_Core vector_rom) \<noteq> None \<and>
   npc (m_regs (the (RaiseException WordRom_Env Syscall (blank_Core vector_rom)))) = 0x80000084 \<and>
   npc (m_regs (the (RaiseException WordRom_Env Syscall (blank_Core vector_rom)))) \<noteq> 0x80000080"
proof -
  have b: "\<not> SR_BEV (sr (m_cop0_regs (blank_Core vector_rom)))"
    by (simp add: blank_Core_def SR_BEV_def BitField_get_def)
  have h: "DoMemoryAccess_Read WordRom_Env Size_Word
     (if SR_BEV (sr (m_cop0_regs (blank_Core vector_rom))) then 0xBFC00180 else 0x80000080)
     (ext (blank_Core vector_rom)) = (Some 0, vector_rom)"
    by (simp add: b) (simp add: WordRom_Env_def blank_Core_def vector_rom_def)
  obtain s' where "RaiseException5 WordRom_Env Syscall
      (m_current_instruction_pc (blank_Core vector_rom))
      (m_current_instruction_in_branch_delay_slot (blank_Core vector_rom))
      (m_current_instruction_was_branch_taken (blank_Core vector_rom))
      (inst_cop_n (m_current_instruction (blank_Core vector_rom))) (blank_Core vector_rom) = Some s'"
    "npc (m_regs s') =
       (if SR_BEV (sr (m_cop0_regs (blank_Core vector_rom))) then 0xBFC00180 else 0x80000080) + 4"
    using RaiseException5_result [OF h] by blast
  then show ?thesis by (simp add: RaiseException_def b)
qed

lemmas field_defs =
  inst_op_def inst_rs_def inst_rt_def inst_rd_def inst_shamt_def inst_funct_def imm_zext32_def
  imm_sext32_def inst_target_def inst_cop_n_def BitField_get_def

lemma WordRom_Env_simps:
  "DoMemoryAccess_Read WordRom_Env sz addr rom = (map_of rom addr, rom)"
  "DoMemoryAccess_Write WordRom_Env sz addr v rom = (False, rom)"
  "cop2_Reset WordRom_Env rom = rom"
  "MAX_SLICE_SIZE WordRom_Env = 100"
  "RESET_VECTOR WordRom_Env = 0xBFC00000"
  by (simp_all add: WordRom_Env_def)

lemmas reset_defs =
  Core_Reset_def SetPC_def FlushPipeline_def FlushPipeline_head_def FlushLoadDelay_def
  FetchInstruction_ok_the IsAlignedPow2_def WordRom_Env_simps blank_Core_def Reg_count_def

lemmas step_defs =
  FetchInstruction_ok_the Execute_step_def Execute_begin_def DispatchInterrupts_def
  IsCop2Instruction_def SR_IEc_def AdvanceLoadDelay_def IsAlignedPow2_def
  WordRom_Env_simps ExecuteInstruction_def ExecuteFunct_def WriteReg_def ReadReg_def
  Reg_zero_def Reg_count_def Let_def field_defs Op_defs Funct_defs

lemma Execute_steps_2:
  assumes "Execute_step E s = Some s1" and "Execute_step E s1 = Some s2"
  shows "Execute_steps 2 E s = Some s2"
  using assms by (simp add: numeral_2_eq_2)

lemma Execute_steps_4:
  assumes "Execute_step E s = Some s1" and "Execute_step E s1 = Some s2"
    and "Execute_step E s2 = Some s3" and "Execute_step E s3 = Some s4"
  shows "Execute_steps 4 E s = Some s4"
  using assms by (simp add: eval_nat_numeral)

text \<open>
  C2. The general register 0 is zero after \<open>Core_Reset\<close> and no iteration of the execution loop
  changes it, so it is zero after any number of steps and when \<open>Execute\<close> returns: a
  direct write to register 0 leaves the core as it is, and so does a delayed write.
\<close>

theorem zero_register_invariant:
  "WriteReg Reg_zero v s = s \<and>
   (m_next_load_delay_reg s = Reg_count \<longrightarrow> WriteRegDelayed Reg_zero v s = Some s) \<and>
   (Execute_step E s = Some s' \<longrightarrow> r (m_regs s') Reg_zero = r (m_regs s) Reg_zero) \<and>
   (Core_Reset E s0 = Some s \<and> Execute_steps n E s = Some s' \<longrightarrow> r (m_regs s') Reg_zero = 0) \<and>
   (Core_Reset E s0 = Some s \<and> Execute E s = Some s' \<longrightarrow> r (m_regs s') Reg_zero = 0)"
proof (intro conjI impI)
  show "WriteReg Reg_zero v s = s" by (simp add: WriteReg_def)
  show "WriteRegDelayed Reg_zero v s = Some s" if "m_next_load_delay_reg s = Reg_count"
    using that by (rule WriteRegDelayed_zero)
  show "r (m_regs s') Reg_zero = r (m_regs s) Reg_zero" if "Execute_step E s = Some s'"
    using Execute_step_r0_kept [OF that] by (simp add: r0_kept_def)
  show "r (m_regs s') Reg_zero = 0" if "Core_Reset E s0 = Some s \<and> Execute_steps n E s = Some s'"
    using that Core_Reset_r0 [of E s0 s] Execute_steps_r0_kept [of n E s s']
    by (simp add: r0_kept_def)
  show "r (m_regs s') Reg_zero = 0" if "Core_Reset E s0 = Some s \<and> Execute E s = Some s'"
    using that Core_Reset_r0 [of E s0 s] Execute_r0_kept [of E s s']
    by (simp add: r0_kept_def)
qed

text \<open>
  The witness runs \<open>ori r0, r0, 5\<close> and \<open>lui r0, 1\<close> from the reset vector.
\<close>

theorem zero_register_invariant_witness:
  "Core_Reset WordRom_Env (blank_Core zero_write_rom) \<noteq> None \<and>
   Execute_steps 2 WordRom_Env (the (Core_Reset WordRom_Env (blank_Core zero_write_rom))) \<noteq> None \<and>
   m_current_instruction
     (the (Execute_steps 2 WordRom_Env (the (Core_Reset WordRom_Env (blank_Core zero_write_rom))))) =
     0x3C000001 \<and>
   r (m_regs
     (the (Execute_steps 2 WordRom_Env (the (Core_Reset WordRom_Env (blank_Core zero_write_rom))))))
     Reg_zero = 0"
proof -
  let ?s0 = "(blank_Core zero_write_rom)
      \<lparr>m_downcount := 100,
       m_regs := \<lparr>r = (\<lambda>_. 0), pc = 0xBFC00000, hi = 0, lo = 0, npc = 0xBFC00004\<rparr>,
       m_next_instruction := 0x34000005\<rparr>"
  let ?s1 = "?s0
      \<lparr>m_pending_ticks := 2, m_downcount := 98,
       m_regs := \<lparr>r = (\<lambda>_. 0), pc = 0xBFC00004, hi = 0, lo = 0, npc = 0xBFC00008\<rparr>,
       m_next_instruction := 0x3C000001, m_current_instruction := 0x34000005,
       m_current_instruction_pc := 0xBFC00000\<rparr>"
  let ?s2 = "?s1
      \<lparr>m_pending_ticks := 4, m_downcount := 96,
       m_regs := \<lparr>r = (\<lambda>_. 0), pc = 0xBFC00008, hi = 0, lo = 0, npc = 0xBFC0000C\<rparr>,
       m_next_instruction := 0x00000000, m_current_instruction := 0x3C000001,
       m_current_instruction_pc := 0xBFC00004\<rparr>"
  have 0: "Core_Reset WordRom_Env (blank_Core zero_write_rom) = Some ?s0"
    by (simp add: reset_defs zero_write_rom_def)
  have 1: "Execute_step WordRom_Env ?s0 = Some ?s1"
    by (simp add: step_defs blank_Core_def zero_write_rom_def)
  have 2: "Execute_step WordRom_Env ?s1 = Some ?s2"
    by (simp add: step_defs blank_Core_def zero_write_rom_def)
  have 3: "Execute_steps 2 WordRom_Env ?s0 = Some ?s2"
    using 1 2 by (rule Execute_steps_2)
  have h: "Core_Reset WordRom_Env (blank_Core zero_write_rom) = Some ?s0 \<and>
      Execute_steps 2 WordRom_Env ?s0 = Some ?s2"
    using 0 3 by (rule conjI)
  have c: "m_current_instruction ?s2 = 0x3C000001" by simp
  from zero_register_invariant [of 0 ?s0 WordRom_Env ?s2 "blank_Core zero_write_rom" 2] h
  have "r (m_regs ?s2) Reg_zero = 0" by blast
  then show ?thesis
    by (simp only: 0 3 c option.sel option.distinct not_False_eq_True simp_thms)
qed

lemma ExecuteInstruction_add:
  assumes "inst_op (m_current_instruction s) = Op_funct"
    and "inst_funct (m_current_instruction s) = Funct_add"
  shows "ExecuteInstruction E s = Execute_add E (m_current_instruction s) s"
  using assms by (simp add: ExecuteInstruction_def ExecuteFunct_def Let_def Funct_defs)

lemma ExecuteInstruction_sub:
  assumes "inst_op (m_current_instruction s) = Op_funct"
    and "inst_funct (m_current_instruction s) = Funct_sub"
  shows "ExecuteInstruction E s = Execute_sub E (m_current_instruction s) s"
  using assms by (simp add: ExecuteInstruction_def ExecuteFunct_def Let_def Funct_defs)

lemma ExecuteInstruction_addi:
  assumes "inst_op (m_current_instruction s) = Op_addi"
  shows "ExecuteInstruction E s = Execute_addi E (m_current_instruction s) s"
  using assms by (simp add: ExecuteInstruction_def Let_def Op_defs)

text \<open>What the two tests mean: the signed sum or difference does not fit in 32 bits.\<close>

lemma msb_test: "(w AND 0x80000000 \<noteq> 0) = (sint w < 0)" for w :: u32
proof -
  have "(w AND 2 ^ 31 = 0) = (\<not> bit w 31)"
    by (rule and_exp_eq_0_iff_not_bit)
  moreover have "bit w 31 = (sint w < 0)"
    using bit_last_iff [of w] by simp
  moreover have "(2 :: u32) ^ 31 = 0x80000000" by simp
  ultimately show ?thesis by (simp del: power_numeral)
qed

lemma msb_xor: "sint (a XOR b) < 0 \<longleftrightarrow> (sint a < 0) \<noteq> (sint b < 0)" for a b :: u32
  using bit_last_iff [of "a XOR b"] bit_last_iff [of a] bit_last_iff [of b]
  by (simp add: bit_xor_iff)

lemma msb_and: "sint (a AND b) < 0 \<longleftrightarrow> sint a < 0 \<and> sint b < 0" for a b :: u32
  using bit_last_iff [of "a AND b"] bit_last_iff [of a] bit_last_iff [of b]
  by (simp add: bit_and_iff)

lemma mod_shift: "(x :: int) mod m = (x - m) mod m" "(x :: int) mod m = (x + m) mod m"
  by simp_all

lemma signed_take_bit_31:
  assumes "- (2 ^ 32) \<le> k" "k < 2 ^ 32"
  shows "signed_take_bit 31 (k :: int) =
     (if k \<ge> 2 ^ 31 then k - 2 ^ 32 else if k < - (2 ^ 31) then k + 2 ^ 32 else k)"
proof -
  have e: "signed_take_bit 31 k = (k + 2 ^ 31) mod 2 ^ 32 - 2 ^ 31"
    by (simp add: signed_take_bit_eq_take_bit_shift take_bit_eq_mod)
  consider "k \<ge> 2 ^ 31" | "k < - (2 ^ 31)" | "- (2 ^ 31) \<le> k \<and> k < 2 ^ 31" by linarith
  then show ?thesis
  proof cases
    case 1
    have "(k + 2 ^ 31) mod 2 ^ 32 = (k + 2 ^ 31 - 2 ^ 32) mod 2 ^ 32"
      by (rule mod_shift)
    also have "\<dots> = k + 2 ^ 31 - 2 ^ 32"
      using 1 assms by (intro mod_pos_pos_trivial) simp_all
    finally show ?thesis using 1 e by simp
  next
    case 2
    have "(k + 2 ^ 31) mod 2 ^ 32 = (k + 2 ^ 31 + 2 ^ 32) mod 2 ^ 32"
      by (rule mod_shift)
    also have "\<dots> = k + 2 ^ 31 + 2 ^ 32"
      using 2 assms by (intro mod_pos_pos_trivial) simp_all
    finally show ?thesis using 2 e by simp
  next
    case 3
    then have "(k + 2 ^ 31) mod 2 ^ 32 = k + 2 ^ 31"
      by (intro mod_pos_pos_trivial) simp_all
    then show ?thesis using 3 e by simp
  qed
qed

lemma sint_bounds32: "- (2 ^ 31) \<le> sint w" "sint w < 2 ^ 31" for w :: u32
  using sint_ge [of w] sint_lt [of w] by simp_all

lemma AddOverflow_meaning:
  "AddOverflow a b (a + b) \<longleftrightarrow> sint a + sint b < - (2 ^ 31) \<or> 2 ^ 31 \<le> sint a + sint b"
proof -
  have s: "sint (a + b) =
     (if sint a + sint b \<ge> 2 ^ 31 then sint a + sint b - 2 ^ 32
      else if sint a + sint b < - (2 ^ 31) then sint a + sint b + 2 ^ 32 else sint a + sint b)"
    using sint_bounds32 [of a] sint_bounds32 [of b]
    by (simp add: sint_word_add signed_take_bit_31)
  have "AddOverflow a b (a + b) \<longleftrightarrow>
      ((sint (a + b) < 0) \<noteq> (sint a < 0)) \<and> ((sint (a + b) < 0) \<noteq> (sint b < 0))"
    unfolding AddOverflow_def by (simp only: msb_test msb_and msb_xor)
  then show ?thesis
    using s sint_bounds32 [of a] sint_bounds32 [of b]
    by (auto split: if_splits)
qed

lemma SubOverflow_meaning:
  "SubOverflow a b (a - b) \<longleftrightarrow> sint a - sint b < - (2 ^ 31) \<or> 2 ^ 31 \<le> sint a - sint b"
proof -
  have s: "sint (a - b) =
     (if sint a - sint b \<ge> 2 ^ 31 then sint a - sint b - 2 ^ 32
      else if sint a - sint b < - (2 ^ 31) then sint a - sint b + 2 ^ 32 else sint a - sint b)"
    using sint_bounds32 [of a] sint_bounds32 [of b]
    by (simp add: sint_word_ariths signed_take_bit_31)
  have "SubOverflow a b (a - b) \<longleftrightarrow>
      ((sint (a - b) < 0) \<noteq> (sint a < 0)) \<and> ((sint a < 0) \<noteq> (sint b < 0))"
    unfolding SubOverflow_def by (simp only: msb_test msb_and msb_xor)
  then show ?thesis
    using s sint_bounds32 [of a] sint_bounds32 [of b]
    by (auto split: if_splits)
qed

text \<open>
  C4. \<open>add\<close>, \<open>addi\<close> and \<open>sub\<close> compute the sum or difference and test
  \<open>((new ^ old) & (new ^ operand)) & 0x80000000\<close> (for \<open>sub\<close> with \<open>old ^ operand\<close> as
  the second factor). If the test is not zero the instruction is exactly
  \<open>RaiseException(Ov)\<close>; otherwise it writes the destination. The test is not zero
  exactly when the signed result does not fit in 32 bits. An exception that returns leaves
  every general register as it was, and when the fetch at the exception vector succeeds it
  returns with \<open>Ov\<close> in \<open>CAUSE.Excode\<close>.
\<close>

theorem overflow_trap:
  "(inst_op (m_current_instruction s) = Op_funct \<and>
    inst_funct (m_current_instruction s) = Funct_add \<longrightarrow>
      ExecuteInstruction E s =
        (let old = ReadReg (inst_rs (m_current_instruction s)) s;
             operand = ReadReg (inst_rt (m_current_instruction s)) s;
             new = old + operand
         in if ((new XOR old) AND (new XOR operand)) AND 0x80000000 \<noteq> 0
            then RaiseException E Ov s
            else Some (WriteReg (inst_rd (m_current_instruction s)) new s))) \<and>
   (inst_op (m_current_instruction s) = Op_addi \<longrightarrow>
      ExecuteInstruction E s =
        (let old = ReadReg (inst_rs (m_current_instruction s)) s;
             operand = imm_sext32 (m_current_instruction s);
             new = old + operand
         in if ((new XOR old) AND (new XOR operand)) AND 0x80000000 \<noteq> 0
            then RaiseException E Ov s
            else Some (WriteReg (inst_rt (m_current_instruction s)) new s))) \<and>
   (inst_op (m_current_instruction s) = Op_funct \<and>
    inst_funct (m_current_instruction s) = Funct_sub \<longrightarrow>
      ExecuteInstruction E s =
        (let old = ReadReg (inst_rs (m_current_instruction s)) s;
             operand = ReadReg (inst_rt (m_current_instruction s)) s;
             new = old - operand
         in if ((new XOR old) AND (old XOR operand)) AND 0x80000000 \<noteq> 0
            then RaiseException E Ov s
            else Some (WriteReg (inst_rd (m_current_instruction s)) new s))) \<and>
   (((((a::u32) + b XOR a) AND (a + b XOR b)) AND 0x80000000 \<noteq> 0) =
      (sint a + sint b < - (2 ^ 31) \<or> 2 ^ 31 \<le> sint a + sint b)) \<and>
   ((((a - b XOR a) AND (a XOR b)) AND 0x80000000 \<noteq> 0) =
      (sint a - sint b < - (2 ^ 31) \<or> 2 ^ 31 \<le> sint a - sint b)) \<and>
   (RaiseException E Ov s = Some s' \<longrightarrow> r (m_regs s') = r (m_regs s)) \<and>
   (DoMemoryAccess_Read E Size_Word
      (if SR_BEV (sr (m_cop0_regs s)) then 0xBFC00180 else 0x80000080) (ext s) = (Some bits, x) \<longrightarrow>
    (\<exists>s'. RaiseException E Ov s = Some s' \<and> r (m_regs s') = r (m_regs s) \<and>
          CAUSE_Excode (cause (m_cop0_regs s')) = Excode_of Ov))"
proof (intro conjI impI)
  assume "inst_op (m_current_instruction s) = Op_funct \<and>
    inst_funct (m_current_instruction s) = Funct_add"
  then show "ExecuteInstruction E s =
        (let old = ReadReg (inst_rs (m_current_instruction s)) s;
             operand = ReadReg (inst_rt (m_current_instruction s)) s;
             new = old + operand
         in if ((new XOR old) AND (new XOR operand)) AND 0x80000000 \<noteq> 0
            then RaiseException E Ov s
            else Some (WriteReg (inst_rd (m_current_instruction s)) new s))"
    by (simp add: ExecuteInstruction_add Execute_add_def AddOverflow_def)
next
  assume "inst_op (m_current_instruction s) = Op_addi"
  then show "ExecuteInstruction E s =
        (let old = ReadReg (inst_rs (m_current_instruction s)) s;
             operand = imm_sext32 (m_current_instruction s);
             new = old + operand
         in if ((new XOR old) AND (new XOR operand)) AND 0x80000000 \<noteq> 0
            then RaiseException E Ov s
            else Some (WriteReg (inst_rt (m_current_instruction s)) new s))"
    by (simp add: ExecuteInstruction_addi Execute_addi_def AddOverflow_def)
next
  assume "inst_op (m_current_instruction s) = Op_funct \<and>
    inst_funct (m_current_instruction s) = Funct_sub"
  then show "ExecuteInstruction E s =
        (let old = ReadReg (inst_rs (m_current_instruction s)) s;
             operand = ReadReg (inst_rt (m_current_instruction s)) s;
             new = old - operand
         in if ((new XOR old) AND (old XOR operand)) AND 0x80000000 \<noteq> 0
            then RaiseException E Ov s
            else Some (WriteReg (inst_rd (m_current_instruction s)) new s))"
    by (simp add: ExecuteInstruction_sub Execute_sub_def SubOverflow_def)
next
  show "(((a + b XOR a) AND (a + b XOR b)) AND 0x80000000 \<noteq> 0) =
      (sint a + sint b < - (2 ^ 31) \<or> 2 ^ 31 \<le> sint a + sint b)"
    using AddOverflow_meaning [of a b] by (simp only: AddOverflow_def)
  show "(((a - b XOR a) AND (a XOR b)) AND 0x80000000 \<noteq> 0) =
      (sint a - sint b < - (2 ^ 31) \<or> 2 ^ 31 \<le> sint a - sint b)"
    using SubOverflow_meaning [of a b] by (simp only: SubOverflow_def)
next
  assume "RaiseException E Ov s = Some s'"
  then show "r (m_regs s') = r (m_regs s)"
    using RaiseException_gpr_kept by (auto simp add: gpr_kept_def)
next
  assume "DoMemoryAccess_Read E Size_Word
      (if SR_BEV (sr (m_cop0_regs s)) then 0xBFC00180 else 0x80000080) (ext s) = (Some bits, x)"
  from RaiseException5_result [OF this]
  show "\<exists>s'. RaiseException E Ov s = Some s' \<and> r (m_regs s') = r (m_regs s) \<and>
          CAUSE_Excode (cause (m_cop0_regs s')) = Excode_of Ov"
    unfolding RaiseException_def by blast
qed

theorem overflow_trap_witness:
  "inst_op (m_current_instruction overflow_Core) = Op_addi \<and>
   DoMemoryAccess_Read WordRom_Env Size_Word
      (if SR_BEV (sr (m_cop0_regs overflow_Core)) then 0xBFC00180 else 0x80000080)
      (ext overflow_Core) = (Some 0, vector_rom) \<and>
   ExecuteInstruction WordRom_Env overflow_Core = RaiseException WordRom_Env Ov overflow_Core \<and>
   (\<exists>s'. ExecuteInstruction WordRom_Env overflow_Core = Some s' \<and>
      r (m_regs s') 1 = 0x7FFFFFFF \<and> CAUSE_Excode (cause (m_cop0_regs s')) = 0x0C)"
proof -
  have o: "inst_op (m_current_instruction overflow_Core) = Op_addi"
    by (simp add: overflow_Core_def field_defs Op_defs)
  have b: "\<not> SR_BEV (sr (m_cop0_regs overflow_Core))"
    by (simp add: overflow_Core_def blank_Core_def SR_BEV_def BitField_get_def)
  have h: "DoMemoryAccess_Read WordRom_Env Size_Word
      (if SR_BEV (sr (m_cop0_regs overflow_Core)) then 0xBFC00180 else 0x80000080)
      (ext overflow_Core) = (Some 0, vector_rom)"
    by (simp add: b) (simp add: WordRom_Env_simps overflow_Core_def blank_Core_def vector_rom_def)
  have v: "ReadReg (inst_rs (m_current_instruction overflow_Core)) overflow_Core = 0x7FFFFFFF"
    "imm_sext32 (m_current_instruction overflow_Core) = 1"
    "r (m_regs overflow_Core) (Suc 0) = 0x7FFFFFFF"
    by (simp_all add: overflow_Core_def blank_Core_def field_defs ReadReg_def Reg_count_def)
  note t = overflow_trap [of overflow_Core WordRom_Env 0 0 overflow_Core 0 vector_rom]
  have e: "ExecuteInstruction WordRom_Env overflow_Core = RaiseException WordRom_Env Ov overflow_Core"
    using t o by (simp add: v Let_def)
  obtain s' where "RaiseException WordRom_Env Ov overflow_Core = Some s'"
    "r (m_regs s') = r (m_regs overflow_Core)" "CAUSE_Excode (cause (m_cop0_regs s')) = Excode_of Ov"
    using t h by blast
  then show ?thesis using o h e by (simp add: v)
qed

lemma abs_div_half:
  assumes "2 \<le> \<bar>l::int\<bar>"
  shows "2 * (\<bar>k\<bar> div \<bar>l\<bar>) \<le> \<bar>k::int\<bar>"
proof -
  have "\<bar>k\<bar> div \<bar>l\<bar> \<le> \<bar>k\<bar> div 2"
    using assms by (intro zdiv_mono2) simp_all
  moreover have "2 * (\<bar>k\<bar> div 2) \<le> \<bar>k\<bar>" by simp
  ultimately show ?thesis by linarith
qed

lemma sdiv_abs: "\<bar>k sdiv l\<bar> = \<bar>k\<bar> div \<bar>l::int\<bar>"
proof -
  have "0 \<le> \<bar>k\<bar> div \<bar>l\<bar>" by (cases "l = 0") (simp_all add: pos_imp_zdiv_nonneg_iff)
  then show ?thesis
    by (cases "k = 0"; cases "l = 0") (simp_all add: signed_divide_int_def abs_mult abs_sgn_eq)
qed

lemma smod_abs: "\<bar>k smod l\<bar> = \<bar>k\<bar> mod \<bar>l::int\<bar>"
proof -
  have "0 \<le> \<bar>k\<bar> mod \<bar>l\<bar>" by (cases "l = 0") (simp_all add: pos_mod_sign)
  then show ?thesis
    by (cases "k = 0") (simp_all add: signed_modulo_int_def abs_mult abs_sgn_eq)
qed

lemma sdiv_one: "k sdiv 1 = (k::int)" "k sdiv (- 1) = - (k::int)"
  by (simp_all add: signed_divide_int_def mult_sgn_abs)

lemma sdiv_range:
  assumes "- (2 ^ 31) \<le> (k::int)" "k < 2 ^ 31" "l \<noteq> 0" "\<not> (k = - (2 ^ 31) \<and> l = - 1)"
  shows "- (2 ^ 31) \<le> k sdiv l \<and> k sdiv l < 2 ^ 31"
proof (cases "2 \<le> \<bar>l\<bar>")
  case True
  have "2 * \<bar>k sdiv l\<bar> \<le> \<bar>k\<bar>"
    using abs_div_half [OF True, of k] by (simp add: sdiv_abs)
  then show ?thesis using assms(1,2) by linarith
next
  case False
  then have "l = 1 \<or> l = - 1" using assms(3) by linarith
  then show ?thesis using assms by (auto simp add: sdiv_one)
qed

lemma smod_range:
  assumes "- (2 ^ 31) \<le> (l::int)" "l < 2 ^ 31" "l \<noteq> 0"
  shows "- (2 ^ 31) \<le> k smod l \<and> k smod l < 2 ^ 31"
proof -
  have "\<bar>k\<bar> mod \<bar>l\<bar> < \<bar>l\<bar>" using assms(3) by simp
  then have "\<bar>k smod l\<bar> < \<bar>l\<bar>" by (simp add: smod_abs)
  then show ?thesis using assms(1,2) by linarith
qed

lemma sint_word_of_int_fits:
  assumes "- (2 ^ 31) \<le> k" "k < 2 ^ 31"
  shows "sint (word_of_int k :: u32) = k"
proof -
  have "sint (word_of_int k :: u32) = signed_take_bit 31 k" by (simp add: sint_sbintrunc')
  also have "\<dots> = k" using assms by (subst signed_take_bit_31) simp_all
  finally show ?thesis .
qed

lemma sdiv_smod_truncated:
  "k = l * (k sdiv l) + k smod l"
  "l \<noteq> 0 \<Longrightarrow> \<bar>k smod l\<bar> < \<bar>l\<bar>"
  "k smod l = 0 \<or> sgn (k smod l) = sgn k" for k l :: int
proof -
  show "k = l * (k sdiv l) + k smod l" by (simp add: mult_sdiv_smod_eq)
  show "\<bar>k smod l\<bar> < \<bar>l\<bar>" if "l \<noteq> 0"
    using that by (simp add: smod_abs)
  have "0 \<le> \<bar>k\<bar> mod \<bar>l\<bar>" by (cases "l = 0") (simp_all add: pos_mod_sign)
  then have "\<bar>k\<bar> mod \<bar>l\<bar> = 0 \<or> sgn (\<bar>k\<bar> mod \<bar>l\<bar>) = 1" by (auto simp add: sgn_if)
  then show "k smod l = 0 \<or> sgn (k smod l) = sgn k"
    by (auto simp add: signed_modulo_int_def sgn_mult)
qed

lemma ExecuteInstruction_div:
  assumes "inst_op (m_current_instruction s) = Op_funct"
    and "inst_funct (m_current_instruction s) = Funct_div"
  shows "ExecuteInstruction E s = Some (Execute_div (m_current_instruction s) s)"
  using assms by (simp add: ExecuteInstruction_def ExecuteFunct_def Let_def Funct_defs)

lemma ExecuteInstruction_divu:
  assumes "inst_op (m_current_instruction s) = Op_funct"
    and "inst_funct (m_current_instruction s) = Funct_divu"
  shows "ExecuteInstruction E s = Some (Execute_divu (m_current_instruction s) s)"
  using assms by (simp add: ExecuteInstruction_def ExecuteFunct_def Let_def Funct_defs)

lemma Execute_div_regs:
  "r (m_regs (Execute_div inst s)) = r (m_regs s)"
  "r (m_regs (Execute_divu inst s)) = r (m_regs s)"
  by (simp_all add: Execute_div_def Execute_divu_def Let_def)

lemma Execute_div_zero:
  assumes "ReadReg (inst_rt inst) s = 0"
  shows "lo (m_regs (Execute_div inst s)) =
           (if 0 \<le> sint (ReadReg (inst_rs inst) s) then 0xFFFFFFFF else 1)"
    and "hi (m_regs (Execute_div inst s)) = ReadReg (inst_rs inst) s"
  using assms by (simp_all add: Execute_div_def Let_def)

lemma Execute_div_unrepresentable:
  assumes "ReadReg (inst_rs inst) s = 0x80000000" and "ReadReg (inst_rt inst) s = 0xFFFFFFFF"
  shows "lo (m_regs (Execute_div inst s)) = 0x80000000"
    and "hi (m_regs (Execute_div inst s)) = 0"
  using assms by (simp_all add: Execute_div_def Let_def)

lemma sint_zero_iff: "sint w = 0 \<longleftrightarrow> w = 0" for w :: u32
  by (simp add: signed_eq_0_iff)

lemma sint_minus_one_iff: "sint w = - 1 \<longleftrightarrow> w = 0xFFFFFFFF" for w :: u32
proof
  assume "sint w = - 1"
  then have "sint w = sint (- 1 :: u32)" by simp
  then have "w = - 1" by (rule signed_word_eqI)
  then show "w = 0xFFFFFFFF" by simp
next
  assume "w = 0xFFFFFFFF"
  then show "sint w = - 1" by simp
qed

lemma sint_min_iff: "sint w = - (2 ^ 31) \<longleftrightarrow> w = 0x80000000" for w :: u32
proof
  assume "sint w = - (2 ^ 31)"
  then have "sint w = sint (0x80000000 :: u32)" by simp
  then show "w = 0x80000000" by (rule signed_word_eqI)
next
  assume "w = 0x80000000"
  then show "sint w = - (2 ^ 31)" by simp
qed

lemma Execute_div_normal:
  assumes "ReadReg (inst_rt inst) s \<noteq> 0"
    and "\<not> (ReadReg (inst_rs inst) s = 0x80000000 \<and> ReadReg (inst_rt inst) s = 0xFFFFFFFF)"
  shows "sint (lo (m_regs (Execute_div inst s))) =
           sint (ReadReg (inst_rs inst) s) sdiv sint (ReadReg (inst_rt inst) s)"
    and "sint (hi (m_regs (Execute_div inst s))) =
           sint (ReadReg (inst_rs inst) s) smod sint (ReadReg (inst_rt inst) s)"
proof -
  let ?n = "ReadReg (inst_rs inst) s" and ?d = "ReadReg (inst_rt inst) s"
  have d: "sint ?d \<noteq> 0" using assms(1) by (simp add: sint_zero_iff)
  have u: "\<not> (sint ?n = - (2 ^ 31) \<and> sint ?d = - 1)"
    using assms(2) unfolding sint_min_iff sint_minus_one_iff .
  have u': "\<not> (?n = 0x80000000 \<and> sint ?d = - 1)"
    using assms(2) unfolding sint_minus_one_iff .
  have l: "lo (m_regs (Execute_div inst s)) = word_of_int (sint ?n sdiv sint ?d)"
    and h: "hi (m_regs (Execute_div inst s)) = word_of_int (sint ?n smod sint ?d)"
    using d u' by (auto simp add: Execute_div_def Let_def)
  show "sint (lo (m_regs (Execute_div inst s))) = sint ?n sdiv sint ?d"
    unfolding l using sdiv_range [OF sint_bounds32 [of ?n] d u]
    by (intro sint_word_of_int_fits) simp_all
  show "sint (hi (m_regs (Execute_div inst s))) = sint ?n smod sint ?d"
    unfolding h using smod_range [OF sint_bounds32 [of ?d] d]
    by (intro sint_word_of_int_fits) simp_all
qed

lemma Execute_divu_result:
  "ReadReg (inst_rt inst) s = 0 \<Longrightarrow> lo (m_regs (Execute_divu inst s)) = 0xFFFFFFFF"
  "ReadReg (inst_rt inst) s = 0 \<Longrightarrow> hi (m_regs (Execute_divu inst s)) = ReadReg (inst_rs inst) s"
  "ReadReg (inst_rt inst) s \<noteq> 0 \<Longrightarrow>
     unat (lo (m_regs (Execute_divu inst s))) =
       unat (ReadReg (inst_rs inst) s) div unat (ReadReg (inst_rt inst) s)"
  "ReadReg (inst_rt inst) s \<noteq> 0 \<Longrightarrow>
     unat (hi (m_regs (Execute_divu inst s))) =
       unat (ReadReg (inst_rs inst) s) mod unat (ReadReg (inst_rt inst) s)"
  by (simp_all add: Execute_divu_def Let_def unat_div unat_mod)

text \<open>
  C5. \<open>div\<close> always returns and leaves the general registers alone. With a zero divisor
  it sets \<open>lo\<close> to \<open>0xFFFFFFFF\<close> when the numerator is not negative and to \<open>1\<close> otherwise,
  and \<open>hi\<close> to the numerator; for \<open>0x80000000\<close> divided by \<open>-1\<close> it sets \<open>lo\<close> to
  \<open>0x80000000\<close> and \<open>hi\<close> to \<open>0\<close>; otherwise \<open>lo\<close> and \<open>hi\<close> are the quotient and the
  remainder of the signed division that truncates towards zero (the remainder is smaller
  in magnitude than the divisor and has the sign of the numerator). \<open>divu\<close> with a zero
  divisor sets \<open>lo\<close> to \<open>0xFFFFFFFF\<close> and \<open>hi\<close> to the numerator, and otherwise to the
  unsigned quotient and remainder.
\<close>

theorem division_results:
  "(inst_op (m_current_instruction s) = Op_funct \<and>
    inst_funct (m_current_instruction s) = Funct_div \<longrightarrow>
      (\<exists>s'. ExecuteInstruction E s = Some s' \<and> r (m_regs s') = r (m_regs s) \<and>
         (let num = ReadReg (inst_rs (m_current_instruction s)) s;
              denom = ReadReg (inst_rt (m_current_instruction s)) s
          in if denom = 0
             then lo (m_regs s') = (if 0 \<le> sint num then 0xFFFFFFFF else 1) \<and>
                  hi (m_regs s') = num
             else if num = 0x80000000 \<and> denom = 0xFFFFFFFF
             then lo (m_regs s') = 0x80000000 \<and> hi (m_regs s') = 0
             else sint (lo (m_regs s')) = sint num sdiv sint denom \<and>
                  sint (hi (m_regs s')) = sint num smod sint denom \<and>
                  sint num = sint denom * sint (lo (m_regs s')) + sint (hi (m_regs s')) \<and>
                  \<bar>sint (hi (m_regs s'))\<bar> < \<bar>sint denom\<bar> \<and>
                  (sint (hi (m_regs s')) = 0 \<or>
                   sgn (sint (hi (m_regs s'))) = sgn (sint num))))) \<and>
   (inst_op (m_current_instruction s) = Op_funct \<and>
    inst_funct (m_current_instruction s) = Funct_divu \<longrightarrow>
      (\<exists>s'. ExecuteInstruction E s = Some s' \<and> r (m_regs s') = r (m_regs s) \<and>
         (let num = ReadReg (inst_rs (m_current_instruction s)) s;
              denom = ReadReg (inst_rt (m_current_instruction s)) s
          in if denom = 0
             then lo (m_regs s') = 0xFFFFFFFF \<and> hi (m_regs s') = num
             else unat (lo (m_regs s')) = unat num div unat denom \<and>
                  unat (hi (m_regs s')) = unat num mod unat denom)))"
proof (intro conjI impI)
  let ?i = "m_current_instruction s"
  let ?n = "ReadReg (inst_rs ?i) s" and ?d = "ReadReg (inst_rt ?i) s"
  assume a: "inst_op ?i = Op_funct \<and> inst_funct ?i = Funct_div"
  let ?s' = "Execute_div ?i s"
  have e: "ExecuteInstruction E s = Some ?s'"
    using a by (simp add: ExecuteInstruction_div)
  have g: "r (m_regs ?s') = r (m_regs s)" by (rule Execute_div_regs)
  have z: "lo (m_regs ?s') = (if 0 \<le> sint ?n then 0xFFFFFFFF else 1) \<and> hi (m_regs ?s') = ?n"
    if "?d = 0"
    using Execute_div_zero [OF that] by simp
  have u: "lo (m_regs ?s') = 0x80000000 \<and> hi (m_regs ?s') = 0"
    if "?n = 0x80000000 \<and> ?d = 0xFFFFFFFF"
    using Execute_div_unrepresentable [of ?i s] that by simp
  have n: "sint (lo (m_regs ?s')) = sint ?n sdiv sint ?d \<and>
           sint (hi (m_regs ?s')) = sint ?n smod sint ?d \<and>
           sint ?n = sint ?d * sint (lo (m_regs ?s')) + sint (hi (m_regs ?s')) \<and>
           \<bar>sint (hi (m_regs ?s'))\<bar> < \<bar>sint ?d\<bar> \<and>
           (sint (hi (m_regs ?s')) = 0 \<or> sgn (sint (hi (m_regs ?s'))) = sgn (sint ?n))"
    if "?d \<noteq> 0" "\<not> (?n = 0x80000000 \<and> ?d = 0xFFFFFFFF)"
  proof -
    have d: "sint ?d \<noteq> 0" using that(1) by (simp add: sint_zero_iff)
    show ?thesis
      unfolding Execute_div_normal [OF that]
      using sdiv_smod_truncated(1) [of "sint ?n" "sint ?d"]
        sdiv_smod_truncated(2) [OF d, of "sint ?n"]
        sdiv_smod_truncated(3) [of "sint ?n" "sint ?d"]
      by blast
  qed
  show "\<exists>s'. ExecuteInstruction E s = Some s' \<and> r (m_regs s') = r (m_regs s) \<and>
         (let num = ?n; denom = ?d
          in if denom = 0
             then lo (m_regs s') = (if 0 \<le> sint num then 0xFFFFFFFF else 1) \<and>
                  hi (m_regs s') = num
             else if num = 0x80000000 \<and> denom = 0xFFFFFFFF
             then lo (m_regs s') = 0x80000000 \<and> hi (m_regs s') = 0
             else sint (lo (m_regs s')) = sint num sdiv sint denom \<and>
                  sint (hi (m_regs s')) = sint num smod sint denom \<and>
                  sint num = sint denom * sint (lo (m_regs s')) + sint (hi (m_regs s')) \<and>
                  \<bar>sint (hi (m_regs s'))\<bar> < \<bar>sint denom\<bar> \<and>
                  (sint (hi (m_regs s')) = 0 \<or>
                   sgn (sint (hi (m_regs s'))) = sgn (sint num)))"
    unfolding Let_def
  proof (intro exI conjI)
    show "ExecuteInstruction E s = Some ?s'" by (rule e)
    show "r (m_regs ?s') = r (m_regs s)" by (rule g)
    show "if ?d = 0
      then lo (m_regs ?s') = (if 0 \<le> sint ?n then 0xFFFFFFFF else 1) \<and> hi (m_regs ?s') = ?n
      else if ?n = 0x80000000 \<and> ?d = 0xFFFFFFFF
      then lo (m_regs ?s') = 0x80000000 \<and> hi (m_regs ?s') = 0
      else sint (lo (m_regs ?s')) = sint ?n sdiv sint ?d \<and>
           sint (hi (m_regs ?s')) = sint ?n smod sint ?d \<and>
           sint ?n = sint ?d * sint (lo (m_regs ?s')) + sint (hi (m_regs ?s')) \<and>
           \<bar>sint (hi (m_regs ?s'))\<bar> < \<bar>sint ?d\<bar> \<and>
           (sint (hi (m_regs ?s')) = 0 \<or> sgn (sint (hi (m_regs ?s'))) = sgn (sint ?n))"
    proof (cases "?d = 0")
      case True
      show ?thesis unfolding if_P [OF True] by (rule z [OF True])
    next
      case d: False
      show ?thesis
      proof (cases "?n = 0x80000000 \<and> ?d = 0xFFFFFFFF")
        case True
        show ?thesis unfolding if_not_P [OF d] if_P [OF True] by (rule u [OF True])
      next
        case False
        show ?thesis unfolding if_not_P [OF d] if_not_P [OF False] by (rule n [OF d False])
      qed
    qed
  qed
next
  let ?i = "m_current_instruction s"
  let ?n = "ReadReg (inst_rs ?i) s" and ?d = "ReadReg (inst_rt ?i) s"
  assume a: "inst_op ?i = Op_funct \<and> inst_funct ?i = Funct_divu"
  let ?s' = "Execute_divu ?i s"
  have e: "ExecuteInstruction E s = Some ?s'"
    using a by (simp add: ExecuteInstruction_divu)
  have g: "r (m_regs ?s') = r (m_regs s)" by (rule Execute_div_regs)
  show "\<exists>s'. ExecuteInstruction E s = Some s' \<and> r (m_regs s') = r (m_regs s) \<and>
         (let num = ?n; denom = ?d
          in if denom = 0
             then lo (m_regs s') = 0xFFFFFFFF \<and> hi (m_regs s') = num
             else unat (lo (m_regs s')) = unat num div unat denom \<and>
                  unat (hi (m_regs s')) = unat num mod unat denom)"
    unfolding Let_def
  proof (intro exI conjI)
    show "ExecuteInstruction E s = Some ?s'" by (rule e)
    show "r (m_regs ?s') = r (m_regs s)" by (rule g)
    show "if ?d = 0
      then lo (m_regs ?s') = 0xFFFFFFFF \<and> hi (m_regs ?s') = ?n
      else unat (lo (m_regs ?s')) = unat ?n div unat ?d \<and>
           unat (hi (m_regs ?s')) = unat ?n mod unat ?d"
      using Execute_divu_result [of ?i s] by (cases "?d = 0") simp_all
  qed
qed

text \<open>
  The witness runs the four instructions from the reset vector: \<open>mflo\<close> yields
  \<open>0xFFFFFFFF\<close> and \<open>mfhi\<close> yields \<open>10\<close>.
\<close>

theorem division_results_witness:
  "Execute_steps 1 WordRom_Env (the (Core_Reset WordRom_Env (blank_Core div_rom))) \<noteq> None \<and>
   FetchInstruction WordRom_Env
     (Execute_begin
        (the (Execute_steps 1 WordRom_Env (the (Core_Reset WordRom_Env (blank_Core div_rom)))))) =
     Some (True, div_Core) \<and>
   inst_op (m_current_instruction div_Core) = Op_funct \<and>
   inst_funct (m_current_instruction div_Core) = Funct_div \<and>
   (\<exists>s'. ExecuteInstruction WordRom_Env div_Core = Some s' \<and>
      lo (m_regs s') = 0xFFFFFFFF \<and> hi (m_regs s') = 10) \<and>
   inst_op (m_current_instruction divu_Core) = Op_funct \<and>
   inst_funct (m_current_instruction divu_Core) = Funct_divu \<and>
   (\<exists>s'. ExecuteInstruction WordRom_Env divu_Core = Some s' \<and>
      lo (m_regs s') = 0xFFFFFFFF \<and> hi (m_regs s') = 10) \<and>
   (\<exists>s4. Execute_steps 4 WordRom_Env (the (Core_Reset WordRom_Env (blank_Core div_rom))) = Some s4 \<and>
      r (m_regs s4) 2 = 0xFFFFFFFF \<and> r (m_regs s4) 3 = 10)"
proof -
  let ?s0 = "(blank_Core div_rom)
      \<lparr>m_downcount := 100,
       m_regs := \<lparr>r = (\<lambda>_. 0), pc = 0xBFC00000, hi = 0, lo = 0, npc = 0xBFC00004\<rparr>,
       m_next_instruction := 0x3401000A\<rparr>"
  let ?s1 = "?s0
      \<lparr>m_pending_ticks := 2, m_downcount := 98,
       m_regs := \<lparr>r = (\<lambda>_. 0)(1 := 10), pc = 0xBFC00004, hi = 0, lo = 0, npc = 0xBFC00008\<rparr>,
       m_next_instruction := 0x0020001A, m_current_instruction := 0x3401000A,
       m_current_instruction_pc := 0xBFC00000\<rparr>"
  let ?s2 = "?s1
      \<lparr>m_pending_ticks := 4, m_downcount := 96,
       m_regs := \<lparr>r = (\<lambda>_. 0)(1 := 10), pc = 0xBFC00008, hi = 10, lo = 0xFFFFFFFF,
                  npc = 0xBFC0000C\<rparr>,
       m_next_instruction := 0x00001012, m_current_instruction := 0x0020001A,
       m_current_instruction_pc := 0xBFC00004\<rparr>"
  let ?s3 = "?s2
      \<lparr>m_pending_ticks := 6, m_downcount := 94,
       m_regs := \<lparr>r = (\<lambda>_. 0)(1 := 10, 2 := 0xFFFFFFFF), pc = 0xBFC0000C, hi = 10,
                  lo = 0xFFFFFFFF, npc = 0xBFC00010\<rparr>,
       m_next_instruction := 0x00001810, m_current_instruction := 0x00001012,
       m_current_instruction_pc := 0xBFC00008\<rparr>"
  let ?s4 = "?s3
      \<lparr>m_pending_ticks := 8, m_downcount := 92,
       m_regs := \<lparr>r = (\<lambda>_. 0)(1 := 10, 2 := 0xFFFFFFFF, 3 := 10), pc = 0xBFC00010, hi = 10,
                  lo = 0xFFFFFFFF, npc = 0xBFC00014\<rparr>,
       m_next_instruction := 0x00000000, m_current_instruction := 0x00001810,
       m_current_instruction_pc := 0xBFC0000C\<rparr>"
  have 0: "Core_Reset WordRom_Env (blank_Core div_rom) = Some ?s0"
    by (simp add: reset_defs div_rom_def)
  have 1: "Execute_step WordRom_Env ?s0 = Some ?s1"
    by (simp add: step_defs blank_Core_def div_rom_def)
  have 2: "Execute_step WordRom_Env ?s1 = Some ?s2"
    by (simp add: step_defs blank_Core_def div_rom_def Execute_div_def)
  have 3: "Execute_step WordRom_Env ?s2 = Some ?s3"
    by (simp add: step_defs blank_Core_def div_rom_def)
  have 4: "Execute_step WordRom_Env ?s3 = Some ?s4"
    by (simp add: step_defs blank_Core_def div_rom_def)
  have s1: "Execute_steps 1 WordRom_Env ?s0 = Some ?s1"
    using 1 by simp
  have f: "FetchInstruction WordRom_Env (Execute_begin ?s1) = Some (True, div_Core)"
    by (simp add: FetchInstruction_ok_the Execute_begin_def IsAlignedPow2_def WordRom_Env_simps
        blank_Core_def div_rom_def div_Core_def)
  have r: "Execute_steps 4 WordRom_Env ?s0 = Some ?s4"
    using 1 2 3 4 by (rule Execute_steps_4)
  have o: "inst_op (m_current_instruction div_Core) = Op_funct \<and>
      inst_funct (m_current_instruction div_Core) = Funct_div"
    by (simp add: div_Core_def field_defs Op_defs Funct_defs)
  have ou: "inst_op (m_current_instruction divu_Core) = Op_funct \<and>
      inst_funct (m_current_instruction divu_Core) = Funct_divu"
    by (simp add: divu_Core_def div_Core_def field_defs Op_defs Funct_defs)
  have v: "ReadReg (inst_rs (m_current_instruction div_Core)) div_Core = 10"
    "ReadReg (inst_rt (m_current_instruction div_Core)) div_Core = 0"
    "ReadReg (inst_rs (m_current_instruction divu_Core)) divu_Core = 10"
    "ReadReg (inst_rt (m_current_instruction divu_Core)) divu_Core = 0"
    by (simp_all add: divu_Core_def div_Core_def blank_Core_def field_defs ReadReg_def Reg_count_def)
  have d: "\<exists>s'. ExecuteInstruction WordRom_Env div_Core = Some s' \<and>
      lo (m_regs s') = 0xFFFFFFFF \<and> hi (m_regs s') = 10"
    using division_results [of div_Core WordRom_Env] o by (simp add: v) blast
  have du: "\<exists>s'. ExecuteInstruction WordRom_Env divu_Core = Some s' \<and>
      lo (m_regs s') = 0xFFFFFFFF \<and> hi (m_regs s') = 10"
    using division_results [of divu_Core WordRom_Env] ou by (simp add: v) blast
  have e: "\<exists>s4. Execute_steps 4 WordRom_Env ?s0 = Some s4 \<and>
      r (m_regs s4) 2 = 0xFFFFFFFF \<and> r (m_regs s4) 3 = 10"
    unfolding r by simp
  show ?thesis
    unfolding 0 option.sel s1 f using o ou d du e by blast
qed










lemma with_reg_twice [simp]: "with_reg g c (with_reg g a s) = with_reg g c s"
  by (simp add: with_reg_def)

lemma with_reg_self [simp]: "with_reg g (r (m_regs s) g) s = s"
  by (simp add: with_reg_def)

lemma with_reg_back: "with_reg g (r (m_regs s) g) (with_reg g a s) = s"
  by simp








lemma bind_map_apsnd:
  "Option.bind (map_option (apsnd f) m) k = Option.bind m (\<lambda>y. k (fst y, f (snd y)))"
  by (cases m) (auto simp add: apsnd_def map_prod_def split: prod.splits)






































end
